theory Spec2Isabelle
  imports Main "HOL-Library.Word" "HOL-Library.Sublist"
begin

section \<open>Overview\<close>

text \<open>
  The chat route of the application answers a POST request by one of a few fixed
  pipelines of provider calls: a web search (Perplexity or Tavily), a prompt rewrite
  (OpenAI) and the answer (Gemini). This theory embeds two copies of the route: the one
  with the workflows \<open>chatgpt-to-gemini\<close>, \<open>perplexity-to-gemini\<close> and
  \<open>perplexity-chatgpt-gemini\<close> (called the first route file below), and
  \<open>app/api/direct-chat/route.tsx\<close> with the workflow \<open>tavily-to-gemini\<close>. Both send
  every other workflow to the direct handler \<open>handleGoogle\<close>.

  A handler is a function of the world (the configured keys and what the providers
  reply) and of the request; it returns the response and the log of the calls it made.
  An exception is a value: a call that raises gives the message of the exception, and the
  \<open>catch\<close> of the handler turns it into a response. \<open>handleOpenAI\<close>,
  \<open>processMessagesForOpenAI\<close> and \<open>prepareMessagesForGemini\<close> are never called from
  \<open>POST\<close> and are left out, as are the console logs.
\<close>

section \<open>JavaScript strings\<close>

text \<open>
  A JavaScript string is a sequence of UTF-16 code units. The regular expressions of the
  route handlers carry no \<open>u\<close> flag, so they, \<open>trim\<close>, \<open>split\<close> and \<open>length\<close> all
  work on code units. ASCII literals are written through \<open>js\<close>; a code unit outside
  ASCII is written as its number.
\<close>

type_synonym jchar = "16 word"
type_synonym jstring = "jchar list"

definition js :: "string \<Rightarrow> jstring" where
  "js s = map of_char s"

definition LF :: jchar where "LF = 0x0A"
definition CR :: jchar where "CR = 0x0D"
definition star :: jchar where "star = 0x2A"
definition plus_sign :: jchar where "plus_sign = 0x2B"
definition minus_sign :: jchar where "minus_sign = 0x2D"
definition hash :: jchar where "hash = 0x23"
definition backtick :: jchar where "backtick = 0x60"
definition lbracket :: jchar where "lbracket = 0x5B"
definition rbracket :: jchar where "rbracket = 0x5D"
definition lparen :: jchar where "lparen = 0x28"
definition rparen :: jchar where "rparen = 0x29"

text \<open>LineTerminator of ECMAScript: what \<open>.\<close> does not match and what \<open>^\<close> (flag m) follows.\<close>

definition is_line_terminator :: "jchar \<Rightarrow> bool" where
  "is_line_terminator c = (c = 0x0A \<or> c = 0x0D \<or> c = 0x2028 \<or> c = 0x2029)"

text \<open>WhiteSpace and LineTerminator of ECMAScript: the class \<open>\s\<close> and what \<open>trim\<close> strips.\<close>

definition is_space :: "jchar \<Rightarrow> bool" where
  "is_space c =
     (c = 0x09 \<or> c = 0x0A \<or> c = 0x0B \<or> c = 0x0C \<or> c = 0x0D \<or> c = 0x20 \<or> c = 0xA0
      \<or> c = 0x1680 \<or> (0x2000 \<le> c \<and> c \<le> 0x200A) \<or> c = 0x2028 \<or> c = 0x2029
      \<or> c = 0x202F \<or> c = 0x205F \<or> c = 0x3000 \<or> c = 0xFEFF)"

definition trimStart :: "jstring \<Rightarrow> jstring" where
  "trimStart s = dropWhile is_space s"

definition trimEnd :: "jstring \<Rightarrow> jstring" where
  "trimEnd s = rev (dropWhile is_space (rev s))"

definition trim :: "jstring \<Rightarrow> jstring" where
  "trim s = trimEnd (trimStart s)"

fun startsWith :: "jstring \<Rightarrow> jstring \<Rightarrow> bool" where
  "startsWith s [] = True"
| "startsWith [] (p # ps) = False"
| "startsWith (c # cs) (p # ps) = (c = p \<and> startsWith cs ps)"

fun includes_str :: "jstring \<Rightarrow> jstring \<Rightarrow> bool" where
  "includes_str [] p = (p = [])"
| "includes_str (c # cs) p = (startsWith (c # cs) p \<or> includes_str cs p)"

text \<open>\<open>parts.join(sep)\<close>.\<close>

fun join :: "jstring \<Rightarrow> jstring list \<Rightarrow> jstring" where
  "join sep [] = []"
| "join sep [x] = x"
| "join sep (x # y # ys) = x @ sep @ join sep (y # ys)"

text \<open>\<open>s.split('\n')\<close>: always at least one piece.\<close>

fun split_lines :: "jstring \<Rightarrow> jstring list" where
  "split_lines [] = [[]]"
| "split_lines (c # cs) =
     (if c = LF then [] # split_lines cs
      else (case split_lines cs of l # ls \<Rightarrow> (c # l) # ls | [] \<Rightarrow> [[c]]))"

text \<open>The decimal digits of a number, as a template literal prints it.\<close>

fun digits :: "nat \<Rightarrow> jstring" where
  "digits n = (if n < 10 then [of_nat (48 + n)] else digits (n div 10) @ [of_nat (48 + n mod 10)])"

declare digits.simps [simp del]

section \<open>Global regular-expression replacement\<close>

text \<open>
  \<open>s.replace(/re/g, r)\<close> scans \<open>s\<close> from the left. At each position it tries the
  expression; on a match it emits the replacement and goes on behind the match, otherwise
  it copies one code unit and goes on at the next position. After an empty match it
  copies one code unit as well. A matcher stands for one expression at one position: it
  gets the code unit before the position (none at the start of the input) and the rest
  of the input, and gives the replacement and what is left behind the match.
\<close>

type_synonym matcher = "jchar option \<Rightarrow> jstring \<Rightarrow> (jstring \<times> jstring) option"

function replace_all :: "matcher \<Rightarrow> jchar option \<Rightarrow> jstring \<Rightarrow> jstring" where
  "replace_all m prev [] = (case m prev [] of None \<Rightarrow> [] | Some (rep, rest) \<Rightarrow> rep)"
| "replace_all m prev (c # cs) =
     (case m prev (c # cs) of
        None \<Rightarrow> c # replace_all m (Some c) cs
      | Some (rep, rest) \<Rightarrow>
          if length rest < Suc (length cs)
          then rep @ replace_all m (Some (last (take (Suc (length cs) - length rest) (c # cs)))) rest
          else rep @ c # replace_all m (Some c) cs)"
  by pat_completeness auto
termination
  by (relation "measure (\<lambda>(m, prev, s). length s)") auto

definition replace :: "matcher \<Rightarrow> jstring \<Rightarrow> jstring" where
  "replace m s = replace_all m None s"

text \<open>
  \<open>(.*?)\<close> followed by the literal \<open>close\<close>: the lazy star tries the literal first and
  consumes one more code unit only when that fails; \<open>.\<close> does not cross a line
  terminator. The result is the captured group and what follows the literal.
\<close>

fun lazy_until :: "jstring \<Rightarrow> jstring \<Rightarrow> (jstring \<times> jstring) option" where
  "lazy_until close [] = (if close = [] then Some ([], []) else None)"
| "lazy_until close (c # cs) =
     (if startsWith (c # cs) close then Some ([], drop (length close) (c # cs))
      else if is_line_terminator c then None
      else (case lazy_until close cs of
              None \<Rightarrow> None
            | Some (inner, rest) \<Rightarrow> Some (c # inner, rest)))"

text \<open>\<open>/D(.*?)D/g\<close> replaced by \<open>$1\<close>, for a literal delimiter \<open>D\<close>.\<close>

definition delimited :: "jstring \<Rightarrow> matcher" where
  "delimited d prev s =
     (if startsWith s d then lazy_until d (drop (length d) s) else None)"

text \<open>\<open>^\<close> under the flag m: the start of the input, or behind a line terminator.\<close>

definition at_line_start :: "jchar option \<Rightarrow> bool" where
  "at_line_start prev = (case prev of None \<Rightarrow> True | Some p \<Rightarrow> is_line_terminator p)"

text \<open>
  \<open>/^#+\s+/gm\<close> replaced by the empty string. Both quantifiers are greedy, and giving
  back a \<open>#\<close> or a space never helps the rest to match, so the match is the whole run of
  \<open>#\<close> and the whole run of white space behind it (line terminators included).
\<close>

definition heading_marker :: matcher where
  "heading_marker prev s =
     (let r = dropWhile (\<lambda>c. c = hash) s in
      if at_line_start prev \<and> takeWhile (\<lambda>c. c = hash) s \<noteq> [] \<and> takeWhile is_space r \<noteq> []
      then Some ([], dropWhile is_space r) else None)"

text \<open>
  \<open>/\[([^\]]+)\]\([^)]+\)/g\<close> replaced by \<open>$1\<close>. \<open>[^\]]+\<close> runs to the first \<open>]\<close> and
  \<open>[^)]+\<close> to the first \<open>)\<close>; a shorter run would have to be followed by the very
  character the class excludes.
\<close>

definition markdown_link :: matcher where
  "markdown_link prev s =
     (case s of
        [] \<Rightarrow> None
      | c # r \<Rightarrow>
          if c \<noteq> lbracket then None
          else
            let label = takeWhile (\<lambda>x. x \<noteq> rbracket) r;
                r1 = dropWhile (\<lambda>x. x \<noteq> rbracket) r
            in if label = [] \<or> \<not> startsWith r1 [rbracket, lparen] then None
               else
                 let r2 = drop 2 r1;
                     target = takeWhile (\<lambda>x. x \<noteq> rparen) r2;
                     r3 = dropWhile (\<lambda>x. x \<noteq> rparen) r2
                 in if target = [] \<or> r3 = [] then None else Some (label, tl r3))"

text \<open>\<open>/^[-*+]\s+/gm\<close> replaced by the empty string.\<close>

definition list_marker :: matcher where
  "list_marker prev s =
     (case s of
        [] \<Rightarrow> None
      | c # r \<Rightarrow>
          if at_line_start prev \<and> (c = minus_sign \<or> c = star \<or> c = plus_sign)
             \<and> takeWhile is_space r \<noteq> []
          then Some ([], dropWhile is_space r) else None)"

text \<open>\<open>/\n{3,}/g\<close> replaced by two line feeds: the greedy run of line feeds, if three or more.\<close>

definition newline_run :: matcher where
  "newline_run prev s =
     (if 3 \<le> length (takeWhile (\<lambda>c. c = LF) s)
      then Some ([LF, LF], dropWhile (\<lambda>c. c = LF) s) else None)"

section \<open>The text sanitizer\<close>

text \<open>
  The cleanup chain of \<open>handleGoogle\<close>, \<open>handlePerplexityToGemini\<close> and
  \<open>handlePerplexityChatGPTToGemini\<close> (the same eight steps in each): bold, italic,
  inline code, headings, links, list markers, runs of line feeds, \<open>trim\<close>.
\<close>

definition cleanText :: "jstring \<Rightarrow> jstring" where
  "cleanText t =
     trim
       (replace newline_run
         (replace list_marker
           (replace markdown_link
             (replace heading_marker
               (replace (delimited [backtick])
                 (replace (delimited [star])
                   (replace (delimited [star, star]) t)))))))"

section \<open>Literal texts\<close>

text \<open>
  The fixed texts of the two route files, code unit by code unit. \<open>js\<close> spells the
  runs of plain ASCII; every other code unit is given by its number. The texts of the
  second route file are taken as its copy spells them.
\<close>

text \<open>The text of \<open>systemInstruction\<close> in \<open>handleGoogle\<close>.\<close>

definition google_system_instruction :: jstring where
  "google_system_instruction =
     js ''B'' @ [0x1EA1] @ js ''n l'' @ [0xE0] @ js '' m'' @ [0x1ED9] @ js ''t tr''
     @ [0x1EE3] @ js '' l'' @ [0xFD] @ js '' AI h'' @ [0x1EEF] @ js ''u '' @ [0xED]
     @ js ''ch. Khi tr'' @ [0x1EA3] @ js '' l'' @ [0x1EDD] @ js ''i c'' @ [0xE2] @ js ''u h''
     @ [0x1ECF] @ js ''i, vui l'' @ [0xF2] @ js ''ng tu'' @ [0xE2] @ js ''n th'' @ [0x1EE7]
     @ js '' c'' @ [0xE1] @ js ''c y'' @ [0xEA] @ js ''u c'' @ [0x1EA7] @ js ''u sau:''
     @ [0x0A] @ js ''1. Kh'' @ [0xF4] @ js ''ng s'' @ [0x1EED] @ js '' d'' @ [0x1EE5]
     @ js ''ng b'' @ [0x1EA5] @ js ''t k'' @ [0x1EF3] @ js '' '' @ [0x111, 0x1ECB]
     @ js ''nh d'' @ [0x1EA1] @ js ''ng markdown n'' @ [0xE0] @ js ''o (kh'' @ [0xF4]
     @ js ''ng '' @ [0x2A, 0x2A] @ js '', '' @ [0x23, 0x23] @ js '', '' @ [0x60, 0x60, 0x60]
     @ js '', v.v.)'' @ [0x0A] @ js ''2. Tr'' @ [0x1EA3] @ js '' l'' @ [0x1EDD] @ js ''i b''
     @ [0x1EB1] @ js ''ng v'' @ [0x103] @ js ''n b'' @ [0x1EA3] @ js ''n thu'' @ [0x1EA7]
     @ js ''n, kh'' @ [0xF4] @ js ''ng c'' @ [0x1EA7] @ js ''n xu'' @ [0x1ED1] @ js ''ng d''
     @ [0xF2] @ js ''ng th'' @ [0x1EEB] @ js ''a'' @ [0x0A] @ js ''3. S'' @ [0x1EED]
     @ js '' d'' @ [0x1EE5] @ js ''ng c'' @ [0xE1] @ js ''c d'' @ [0x1EA5] @ js ''u s''
     @ [0x1ED1] @ js '' th'' @ [0x1EE9] @ js '' t'' @ [0x1EF1] @ js '' (1, 2, 3) ''
     @ [0x111, 0x1EC3] @ js '' li'' @ [0x1EC7] @ js ''t k'' @ [0xEA] @ js '' n'' @ [0x1EBF]
     @ js ''u c'' @ [0x1EA7] @ js ''n'' @ [0x0A] @ js ''4. Tr'' @ [0x1EA3] @ js '' l''
     @ [0x1EDD] @ js ''i b'' @ [0x1EB1] @ js ''ng ti'' @ [0x1EBF] @ js ''ng Vi'' @ [0x1EC7]
     @ js ''t'' @ [0x0A] @ js ''5. Gi'' @ [0x1EEF] @ js '' c'' @ [0xE2] @ js ''u tr''
     @ [0x1EA3] @ js '' l'' @ [0x1EDD] @ js ''i ng'' @ [0x1EAF] @ js ''n g'' @ [0x1ECD]
     @ js ''n, s'' @ [0xFA] @ js ''c t'' @ [0xED] @ js ''ch'' @ [0x0A] @ js ''6. Kh''
     @ [0xF4] @ js ''ng t'' @ [0x1EF1] @ js '' th'' @ [0xEA] @ js ''m ph'' @ [0x1EA7]
     @ js ''n '' @ [0x22] @ js ''Ngu'' @ [0x1ED3] @ js ''n tham kh'' @ [0x1EA3] @ js ''o''
     @ [0x22] @ js '' trong c'' @ [0xE2] @ js ''u tr'' @ [0x1EA3] @ js '' l'' @ [0x1EDD]
     @ js ''i; h'' @ [0x1EC7] @ js '' th'' @ [0x1ED1] @ js ''ng s'' @ [0x1EBD] @ js '' hi''
     @ [0x1EC3] @ js ''n th'' @ [0x1ECB] @ js '' ri'' @ [0xEA] @ js ''ng n'' @ [0x1EBF]
     @ js ''u c'' @ [0xF3] @ js '' d'' @ [0x1EEF] @ js '' li'' @ [0x1EC7] @ js ''u k''
     @ [0xE8] @ js ''m theo'' @ [0x0A] @ js ''7. N'' @ [0x1EBF] @ js ''u kh'' @ [0xF4]
     @ js ''ng c'' @ [0xF3] @ js '' ngu'' @ [0x1ED3] @ js ''n, ch'' @ [0x1EC9] @ js '' c''
     @ [0x1EA7] @ js ''n tr'' @ [0x1EA3] @ js '' l'' @ [0x1EDD] @ js ''i n'' @ [0x1ED9]
     @ js ''i dung ch'' @ [0xED] @ js ''nh x'' @ [0xE1] @ js ''c, kh'' @ [0xF4] @ js ''ng b''
     @ [0x1ED5] @ js '' sung ghi ch'' @ [0xFA] @ js '' n'' @ [0xE0] @ js ''o'' @ [0x0A, 0x0A]
     @ js ''L'' @ [0x1AF] @ js ''U '' @ [0xDD] @ js '' QUAN TR'' @ [0x1ECC] @ js ''NG: TUY''
     @ [0x1EC6] @ js ''T '' @ [0x110, 0x1ED0] @ js ''I KH'' @ [0xD4] @ js ''NG s'' @ [0x1EED]
     @ js '' d'' @ [0x1EE5] @ js ''ng b'' @ [0x1EA5] @ js ''t k'' @ [0x1EF3] @ js '' ''
     @ [0x111, 0x1ECB] @ js ''nh d'' @ [0x1EA1] @ js ''ng markdown n'' @ [0xE0]
     @ js ''o. Ch'' @ [0x1EC9] @ js '' tr'' @ [0x1EA3] @ js '' l'' @ [0x1EDD] @ js ''i b''
     @ [0x1EB1] @ js ''ng v'' @ [0x103] @ js ''n b'' @ [0x1EA3] @ js ''n thu'' @ [0x1EA7]
     @ js ''n.''"

text \<open>The heading of the sources section, with its line feed.\<close>

definition sources_heading :: jstring where
  "sources_heading =
     js ''Ngu'' @ [0x1ED3] @ js ''n tham kh'' @ [0x1EA3] @ js ''o:'' @ [0x0A]"

text \<open>The placeholder of \<open>handleGoogle\<close> for no uploaded file.\<close>

definition sources_none :: jstring where
  "sources_none =
     js ''Ngu'' @ [0x1ED3] @ js ''n tham kh'' @ [0x1EA3] @ js ''o: (kh'' @ [0xF4]
     @ js ''ng c'' @ [0xF3] @ js '')''"

text \<open>The speaker labels of the conversation context.\<close>

definition label_user :: jstring where
  "label_user =
     js ''Ng'' @ [0x1B0, 0x1EDD] @ js ''i d'' @ [0xF9] @ js ''ng''"

definition label_assistant :: jstring where
  "label_assistant =
     js ''Tr'' @ [0x1EE3] @ js '' l'' @ [0xFD]"

text \<open>The fixed pieces of \<open>enhancedPrompt\<close> in \<open>handleChatGPTToGemini\<close>.\<close>

definition chatgpt_context_1 :: jstring where
  "chatgpt_context_1 =
     js ''NG'' @ [0x1EEE] @ js '' C'' @ [0x1EA2] @ js ''NH CU'' @ [0x1ED8] @ js ''C TR''
     @ [0xD2] @ js '' CHUY'' @ [0x1EC6] @ js ''N:'' @ [0x0A]"

definition chatgpt_context_2 :: jstring where
  "chatgpt_context_2 =
     [0x0A, 0x0A] @ js ''C'' @ [0xC2] @ js ''U H'' @ [0x1ECE] @ js ''I HI'' @ [0x1EC6]
     @ js ''N T'' @ [0x1EA0] @ js ''I: ''"

definition chatgpt_context_3 :: jstring where
  "chatgpt_context_3 =
     [0x0A, 0x0A] @ js ''PROMPT '' @ [0x110, 0xC3] @ js '' T'' @ [0x1ED0] @ js ''I ''
     @ [0x1AF] @ js ''U:'' @ [0x0A]"

text \<open>The first entry of \<open>promptParts\<close> in \<open>handlePerplexityToGemini\<close>.\<close>

definition perplexity_instructions :: jstring where
  "perplexity_instructions =
     js ''Ban la mot tro ly AI huu ich. Hay tra loi cau hoi dua tren d''
     @ js ''u lieu tim kiem duoc cung cap tu Perplexity, tuan thu cac ye''
     @ js ''u cau sau:'' @ [0x0A]
     @ js ''1. Khong su dung bat ky dinh dang markdown nao (khong '' @ [0x2A, 0x2A]
     @ js '', '' @ [0x23, 0x23] @ js '', '' @ [0x60, 0x60, 0x60] @ js '' , v.v.)'' @ [0x0A]
     @ js ''2. Tra loi bang van ban thuan, khong can xuong dong thua'' @ [0x0A]
     @ js ''3. Su dung cac dau so thu tu (1, 2, 3) de liet ke cac y chin'' @ js ''h neu can''
     @ [0x0A] @ js ''4. Tra loi bang tieng Viet'' @ [0x0A]
     @ js ''5. Chi tong hop thong tin duoc cung cap tu Perplexity, khong''
     @ js '' them nguon ben ngoai'' @ [0x0A] @ js ''6. Khong chen phan '' @ [0x22]
     @ js ''Nguon tham khao'' @ [0x22]
     @ js '' trong cau tra loi; he thong se hien thi phan nay tu du lieu'' @ js '' dau vao''
     @ [0x0A] @ js ''7. Neu can nhac den nguon, chi de cap ten hoac nguon goc tro''
     @ js ''ng noi dung, khong dinh kem URL trong cau tra loi''"

text \<open>The headings of the other entries of \<open>promptParts\<close>.\<close>

definition context_heading :: jstring where
  "context_heading =
     js ''Ng'' @ [0x1EEF] @ js '' c'' @ [0x1EA3] @ js ''nh cu'' @ [0x1ED9] @ js ''c tr''
     @ [0xF2] @ js '' chuy'' @ [0x1EC7] @ js ''n:'' @ [0x0A]"

definition search_heading :: jstring where
  "search_heading =
     js ''D'' @ [0x1EEF] @ js '' li'' @ [0x1EC7] @ js ''u t'' @ [0xEC] @ js ''m ki''
     @ [0x1EBF] @ js ''m t'' @ [0x1EEB] @ js '' Perplexity:'' @ [0x0A]"

definition question_heading :: jstring where
  "question_heading =
     js ''C'' @ [0xE2] @ js ''u h'' @ [0x1ECF] @ js ''i hi'' @ [0x1EC7] @ js ''n t''
     @ [0x1EA1] @ js ''i: ''"

text \<open>The headings of \<open>searchSections\<close>.\<close>

definition summary_heading :: jstring where
  "summary_heading =
     js ''T'' @ [0xD3] @ js ''M T'' @ [0x1EAE] @ js ''T T'' @ [0x1EEA] @ js '' NGU''
     @ [0x1ED2] @ js ''N T'' @ [0xCC] @ js ''M KI'' @ [0x1EBE] @ js ''M:'' @ [0x0A]"

definition references_heading :: jstring where
  "references_heading =
     js ''THAM KHAO:'' @ [0x0A]"

text \<open>The messages of the refinement call in \<open>handlePerplexityChatGPTToGemini\<close>.\<close>

definition refine_system :: jstring where
  "refine_system =
     js ''You are an assistant that crafts detailed Vietnamese prompts''
     @ js '' for Gemini based on research data. Keep the prompt clear an''
     @ js ''d avoid Markdown formatting.''"

definition refine_user_1 :: jstring where
  "refine_user_1 =
     js ''RESEARCH DATA:'' @ [0x0A]"

definition refine_user_2 :: jstring where
  "refine_user_2 =
     [0x0A, 0x0A] @ js ''ORIGINAL QUESTION: ''"

definition refine_user_3 :: jstring where
  "refine_user_3 =
     [0x0A, 0x0A] @ js ''TASK:'' @ [0x0A]
     @ js ''1. Create a detailed Vietnamese prompt for Gemini using the ''
     @ js ''research summary and references.'' @ [0x0A]
     @ js ''2. Preserve any critical details from the original question.'' @ [0x0A]
     @ js ''3. Provide explicit guidance on how Gemini should structure ''
     @ js ''the reply.'' @ [0x0A]
     @ js ''4. Require Gemini to answer in Vietnamese plain text without''
     @ js '' Markdown symbols.'' @ [0x0A]
     @ js ''5. Remind Gemini to use only the provided research informati''
     @ js ''on and not invent additional sources.'' @ [0x0A]
     @ js ''6. Do not instruct Gemini to add a '' @ [0x22] @ js ''Nguon tham khao'' @ [0x22]
     @ js '' section; the system will present references separately.'' @ [0x0A, 0x0A]
     @ js ''Return only the optimized prompt.''"

text \<open>The messages of the search call in \<open>searchWithPerplexityStyle\<close>.\<close>

definition perplexity_system :: jstring where
  "perplexity_system =
     js ''You are a research assistant. Use the latest information you''
     @ js '' can find and cite clear sources.''"

definition perplexity_user :: jstring where
  "perplexity_user =
     js ''Find the most recent information for the question below and ''
     @ js ''return a concise summary with reliable sources.'' @ [0x0A, 0x0A]
     @ js ''QUESTION: ''"

text \<open>The system prompt of \<open>convertToPromptChatGPT\<close> (first route file).\<close>

definition CONTENT_SYSTEM :: jstring where
  "CONTENT_SYSTEM =
     [0x0A] @ js ''B'' @ [0x1EA1] @ js ''n l'' @ [0xE0] @ js '' Chatbot ORS. Nhi'' @ [0x1EC7]
     @ js ''m v'' @ [0x1EE5] @ js '': nh'' @ [0x1EAD] @ js ''n c'' @ [0xE2] @ js ''u h''
     @ [0x1ECF] @ js ''i c'' @ [0x1EE7] @ js ''a user, sinh ra prompt '' @ [0x111, 0x1A1]
     @ js ''n gi'' @ [0x1EA3] @ js ''n cho Gemini.'' @ [0x0A, 0x0A] @ js ''LU'' @ [0x1ED2]
     @ js ''NG X'' @ [0x1EEC] @ js '' L'' @ [0xDD] @ js '':'' @ [0x0A] @ js ''User h''
     @ [0x1ECF] @ js ''i '' @ [0x2192] @ js '' B'' @ [0x1EA1] @ js ''n t'' @ [0x1EA1]
     @ js ''o prompt '' @ [0x2192] @ js '' Prompt g'' @ [0x1EED] @ js ''i cho Gemini ''
     @ [0x2192] @ js '' Gemini tr'' @ [0x1EA3] @ js '' l'' @ [0x1EDD] @ js ''i''
     @ [0x0A, 0x0A] @ js ''QUY T'' @ [0x1EAE] @ js ''C SINH PROMPT:'' @ [0x0A] @ js ''1. N''
     @ [0x1EBF] @ js ''u user ch'' @ [0x1EC9] @ js '' ch'' @ [0xE0] @ js ''o h'' @ [0x1ECF]
     @ js ''i (hi, hello, xin ch'' @ [0xE0] @ js ''o) '' @ [0x2192] @ js '' Tr'' @ [0x1EA3]
     @ js '' l'' @ [0x1EDD] @ js ''i: '' @ [0x22] @ js ''Xin ch'' @ [0xE0] @ js ''o! T''
     @ [0xF4] @ js ''i c'' @ [0xF3] @ js '' th'' @ [0x1EC3] @ js '' gi'' @ [0xFA]
     @ js ''p g'' @ [0xEC] @ js '' cho b'' @ [0x1EA1] @ js ''n?'' @ [0x22, 0x0A]
     @ js ''2. N'' @ [0x1EBF] @ js ''u user h'' @ [0x1ECF] @ js ''i th'' @ [0xF4]
     @ js ''ng tin '' @ [0x2192] @ js '' Sinh prompt theo m'' @ [0x1EAB] @ js ''u n''
     @ [0xE0] @ js ''y:'' @ [0x0A, 0x22] @ js ''B'' @ [0x1EA1] @ js ''n l'' @ [0xE0]
     @ js '' m'' @ [0x1ED9] @ js ''t tr'' @ [0x1EE3] @ js '' l'' @ [0xFD] @ js '' AI h''
     @ [0x1EEF] @ js ''u '' @ [0xED] @ js ''ch. H'' @ [0xE3] @ js ''y tr'' @ [0x1EA3]
     @ js '' l'' @ [0x1EDD] @ js ''i c'' @ [0xE2] @ js ''u h'' @ [0x1ECF] @ js ''i sau m''
     @ [0x1ED9] @ js ''t c'' @ [0xE1] @ js ''ch r'' @ [0xF5] @ js '' r'' @ [0xE0]
     @ js ''ng, d'' @ [0x1EC5] @ js '' hi'' @ [0x1EC3] @ js ''u:'' @ [0x0A, 0x0A] @ js ''C''
     @ [0xE2] @ js ''u h'' @ [0x1ECF] @ js ''i: '' @ [0x5B] @ js ''c'' @ [0xE2] @ js ''u h''
     @ [0x1ECF] @ js ''i user'' @ [0x5D, 0x0A, 0x0A] @ js ''Y'' @ [0xEA] @ js ''u c''
     @ [0x1EA7] @ js ''u:'' @ [0x0A] @ js ''- Kh'' @ [0xF4] @ js ''ng s'' @ [0x1EED]
     @ js '' d'' @ [0x1EE5] @ js ''ng b'' @ [0x1EA5] @ js ''t k'' @ [0x1EF3] @ js '' k''
     @ [0xFD] @ js '' hi'' @ [0x1EC7] @ js ''u markdown n'' @ [0xE0] @ js ''o nh'' @ [0x1B0]
     @ js '' '' @ [0x2A, 0x2A] @ js '', '' @ [0x23, 0x23] @ js '', '' @ [0x60, 0x60, 0x60]
     @ js '', v.v.'' @ [0x0A] @ js ''- Tr'' @ [0xEC] @ js ''nh b'' @ [0xE0] @ js ''y th''
     @ [0xF4] @ js ''ng tin r'' @ [0xF5] @ js '' r'' @ [0xE0] @ js ''ng, m'' @ [0x1EA1]
     @ js ''ch l'' @ [0x1EA1] @ js ''c'' @ [0x0A] @ js ''- S'' @ [0x1EED] @ js '' d''
     @ [0x1EE5] @ js ''ng c'' @ [0xE1] @ js ''c s'' @ [0x1ED1] @ js '' th'' @ [0x1EE9]
     @ js '' t'' @ [0x1EF1] @ js '' (1, 2, 3) '' @ [0x111, 0x1EC3] @ js '' li'' @ [0x1EC7]
     @ js ''t k'' @ [0xEA] @ js '' c'' @ [0xE1] @ js ''c '' @ [0xFD] @ js '' ch'' @ [0xED]
     @ js ''nh'' @ [0x0A] @ js ''- M'' @ [0x1ED7] @ js ''i '' @ [0xFD] @ js '' ch'' @ [0xED]
     @ js ''nh n'' @ [0xEA] @ js ''n c'' @ [0xF3] @ js '' ph'' @ [0x1EA7] @ js ''n t''
     @ [0xF3] @ js ''m t'' @ [0x1EAF] @ js ''t ng'' @ [0x1EAF] @ js ''n g'' @ [0x1ECD]
     @ js ''n v'' @ [0xE0] @ js '' gi'' @ [0x1EA3] @ js ''i th'' @ [0xED] @ js ''ch chi ti''
     @ [0x1EBF] @ js ''t'' @ [0x0A] @ js ''- N'' @ [0x1EBF] @ js ''u c'' @ [0xF3]
     @ js '' ngu'' @ [0x1ED3] @ js ''n tham kh'' @ [0x1EA3] @ js ''o, ch'' @ [0x1EC9]
     @ js '' li'' @ [0x1EC7] @ js ''t k'' @ [0xEA] @ js '' t'' @ [0x1ED1] @ js ''i ''
     @ [0x111] @ js ''a 5 ngu'' @ [0x1ED3] @ js ''n '' @ [0x1EDF] @ js '' cu'' @ [0x1ED1]
     @ js ''i c'' @ [0xE2] @ js ''u tr'' @ [0x1EA3] @ js '' l'' @ [0x1EDD] @ js ''i''
     @ [0x0A] @ js ''- Lu'' @ [0xF4] @ js ''n tr'' @ [0x1EA3] @ js '' l'' @ [0x1EDD]
     @ js ''i b'' @ [0x1EB1] @ js ''ng ti'' @ [0x1EBF] @ js ''ng Vi'' @ [0x1EC7] @ js ''t''
     @ [0x0A] @ js ''- Tuy'' @ [0x1EC7] @ js ''t '' @ [0x111, 0x1ED1] @ js ''i kh'' @ [0xF4]
     @ js ''ng s'' @ [0x1EED] @ js '' d'' @ [0x1EE5] @ js ''ng b'' @ [0x1EA5] @ js ''t k''
     @ [0x1EF3] @ js '' k'' @ [0xFD] @ js '' hi'' @ [0x1EC7] @ js ''u '' @ [0x111, 0x1EB7]
     @ js ''c bi'' @ [0x1EC7] @ js ''t n'' @ [0xE0] @ js ''o '' @ [0x111, 0x1EC3] @ js '' ''
     @ [0x111, 0x1ECB] @ js ''nh d'' @ [0x1EA1] @ js ''ng v'' @ [0x103] @ js ''n b''
     @ [0x1EA3] @ js ''n'' @ [0x22, 0x0A, 0x0A] @ js ''CH'' @ [0xDA] @ js '' '' @ [0xDD]
     @ js '':'' @ [0x0A] @ js ''- '' @ [0x5B] @ js ''c'' @ [0xE2] @ js ''u h'' @ [0x1ECF]
     @ js ''i user'' @ [0x5D] @ js '' = copy y nguy'' @ [0xEA] @ js ''n c'' @ [0xE2]
     @ js ''u h'' @ [0x1ECF] @ js ''i c'' @ [0x1EE7] @ js ''a user'' @ [0x0A] @ js ''- Ch''
     @ [0x1EC9] @ js '' xu'' @ [0x1EA5] @ js ''t prompt, kh'' @ [0xF4] @ js ''ng gi''
     @ [0x1EA3] @ js ''i th'' @ [0xED] @ js ''ch g'' @ [0xEC] @ js '' th'' @ [0xEA]
     @ js ''m'' @ [0x0A] @ js ''- '' @ [0x110, 0x1EA3] @ js ''m b'' @ [0x1EA3]
     @ js ''o prompt y'' @ [0xEA] @ js ''u c'' @ [0x1EA7] @ js ''u Gemini kh'' @ [0xF4]
     @ js ''ng s'' @ [0x1EED] @ js '' d'' @ [0x1EE5] @ js ''ng b'' @ [0x1EA5] @ js ''t k''
     @ [0x1EF3] @ js '' '' @ [0x111, 0x1ECB] @ js ''nh d'' @ [0x1EA1] @ js ''ng markdown n''
     @ [0xE0] @ js ''o'' @ [0x0A]"

text \<open>The message of the TypeError that reading \<open>content\<close> of \<open>undefined\<close> raises (V8 wording).\<close>

definition type_error_content :: jstring where
  "type_error_content =
     js ''Cannot read properties of undefined (reading '' @ [0x27] @ js ''content'' @ [0x27]
     @ js '')''"

text \<open>The fixed pieces of one search result in \<open>handleTavilyToGemini\<close>, as the file spells them.\<close>

definition tavily_item_1 :: jstring where
  "tavily_item_1 =
     js ''. '' @ [0x2A, 0x2A]"

definition tavily_item_2 :: jstring where
  "tavily_item_2 =
     [0x2A, 0x2A, 0x0A]"

definition tavily_item_3 :: jstring where
  "tavily_item_3 =
     [0x0A, 0xF8FF, 0xFC, 0xEC, 0xE7] @ js '' Ngu'' @ [0xB7, 0xAA, 0xEC] @ js ''n: ''"

text \<open>The fixed pieces of \<open>tavilyAnswer\<close>.\<close>

definition tavily_answer_1 :: jstring where
  "tavily_answer_1 =
     [0x0A, 0x2A, 0x2A] @ js ''T'' @ [0x221A, 0x2265] @ js ''m t'' @ [0xB7, 0x222B, 0xD8]
     @ js ''t t'' @ [0xB7, 0xAA, 0xB4] @ js '' Tavily AI:'' @ [0x2A, 0x2A, 0x0A]"

definition tavily_answer_2 :: jstring where
  "tavily_answer_2 =
     [0x0A, 0x0A]"

text \<open>The fixed pieces of \<open>enhancedPrompt\<close> in \<open>handleTavilyToGemini\<close>.\<close>

definition tavily_prompt_1 :: jstring where
  "tavily_prompt_1 =
     js ''D'' @ [0xB7, 0xAA, 0xB1] @ js ''a tr'' @ [0x221A, 0x2122] @ js ''n th''
     @ [0x221A, 0xA5] @ js ''ng tin t'' @ [0x221A, 0xA8] @ js ''m ki'' @ [0xB7, 0x222B, 0xF8]
     @ js ''m m'' @ [0xB7, 0xAA, 0xF5] @ js ''i nh'' @ [0xB7, 0x222B, 0x2022] @ js ''t sau ''
     @ [0x192, 0xEB, 0x221A, 0xA2] @ js ''y, h'' @ [0x221A, 0xA3] @ js ''y tr''
     @ [0xB7, 0x222B, 0xA3] @ js '' l'' @ [0xB7, 0xAA, 0xF9] @ js ''i c'' @ [0x221A, 0xA2]
     @ js ''u h'' @ [0xB7, 0xAA, 0xE8] @ js ''i c'' @ [0xB7, 0xAA, 0xDF] @ js ''a t''
     @ [0x221A, 0xA5] @ js ''i m'' @ [0xB7, 0xAA, 0xF4] @ js ''t c'' @ [0x221A, 0xB0]
     @ js ''ch chi ti'' @ [0xB7, 0x222B, 0xF8] @ js ''t v'' @ [0x221A, 0x2020] @ js '' ch''
     @ [0x221A, 0x2260] @ js ''nh x'' @ [0x221A, 0xB0] @ js ''c:''
     @ [0x0A, 0x0A, 0xF8FF, 0xFC, 0xEC, 0xF6] @ js '' '' @ [0x2A, 0x2A] @ js ''TH''
     @ [0x221A, 0xEE] @ js ''NG TIN T'' @ [0x221A, 0xE5] @ js ''M KI'' @ [0xB7, 0x222B, 0xE6]
     @ js ''M:'' @ [0x2A, 0x2A, 0x0A]"

definition tavily_prompt_2 :: jstring where
  "tavily_prompt_2 =
     [0x0A, 0x0A, 0x201A, 0xF9, 0xEC] @ js '' '' @ [0x2A, 0x2A] @ js ''C'' @ [0x221A, 0xC7]
     @ js ''U H'' @ [0xB7, 0xAA, 0xE9] @ js ''I:'' @ [0x2A, 0x2A] @ js '' ''"

definition tavily_prompt_3 :: jstring where
  "tavily_prompt_3 =
     [0x0A, 0x0A, 0xF8FF, 0xFC, 0xEC, 0xE3] @ js '' '' @ [0x2A, 0x2A] @ js ''Y''
     @ [0x221A, 0xE4] @ js ''U C'' @ [0xB7, 0x222B, 0xB6] @ js ''U TR''
     @ [0xB7, 0x222B, 0xA2] @ js '' L'' @ [0xB7, 0xAA, 0xFA] @ js ''I:'' @ [0x2A, 0x2A, 0x0A]
     @ js ''- B'' @ [0xB7, 0x222B, 0xB0] @ js ''n '' @ [0x192, 0xEB, 0x221A, 0x2265]
     @ js ''ng vai tr'' @ [0x221A, 0x2264] @ js '' l'' @ [0x221A, 0x2020] @ js '' m''
     @ [0xB7, 0xAA, 0xF4] @ js ''t chuy'' @ [0x221A, 0x2122] @ js ''n gia trong l''
     @ [0x192, 0xA9] @ js ''nh v'' @ [0xB7, 0xAA, 0xB1] @ js ''c t'' @ [0x221A, 0xA8]
     @ js ''m ki'' @ [0xB7, 0x222B, 0xF8] @ js ''m t'' @ [0x221A, 0x2020] @ js ''i li''
     @ [0xB7, 0xAA, 0xE1] @ js ''u d'' @ [0xB7, 0xAA, 0xB1] @ js ''a theo y''
     @ [0x221A, 0x2122] @ js ''u c'' @ [0xB7, 0x222B, 0xDF] @ js ''u ''"

definition tavily_prompt_4 :: jstring where
  "tavily_prompt_4 =
     [0x0A] @ js ''- T'' @ [0xB7, 0xAA, 0xB4] @ js '' t'' @ [0x221A, 0x2020] @ js ''i li''
     @ [0xB7, 0xAA, 0xE1] @ js ''u thu th'' @ [0xB7, 0x222B, 0x2260] @ js ''p ''
     @ [0x192, 0xEB, 0x2206, 0x221E, 0xB7, 0xAA, 0xA3] @ js ''c, b'' @ [0xB7, 0x222B, 0xB0]
     @ js ''n s'' @ [0xB7, 0x222B, 0x3A9] @ js '' t'' @ [0xB7, 0xAA, 0xEF] @ js ''ng h''
     @ [0xB7, 0xAA, 0xA3] @ js ''p l'' @ [0xB7, 0x222B, 0xB0] @ js ''i th''
     @ [0x221A, 0x2020] @ js ''nh m'' @ [0xB7, 0xAA, 0xF4] @ js ''t prompt ''
     @ [0x192, 0xEB, 0xB7, 0xAA, 0xC9] @ js '' g'' @ [0xB7, 0xAA, 0x2260]
     @ js ''i cho Gemini'' @ [0x0A] @ js ''- Kh'' @ [0x221A, 0xA5] @ js ''ng d''
     @ [0x221A, 0x3C0] @ js ''ng k'' @ [0x221A, 0x3A9] @ js '' hi'' @ [0xB7, 0xAA, 0xE1]
     @ js ''u '' @ [0x2A, 0x2A] @ js '', kh'' @ [0x221A, 0xA5] @ js ''ng markdown'' @ [0x0A]
     @ js ''- N'' @ [0xB7, 0x222B, 0xF8] @ js ''u th'' @ [0x221A, 0xA5] @ js ''ng tin t''
     @ [0x221A, 0xA8] @ js ''m ki'' @ [0xB7, 0x222B, 0xF8] @ js ''m kh'' @ [0x221A, 0xA5]
     @ js ''ng '' @ [0x192, 0xEB, 0xB7, 0xAA, 0xDF] @ js '' ho'' @ [0xB7, 0x222B, 0x2211]
     @ js ''c m'' @ [0x221A, 0xA2] @ js ''u thu'' @ [0xB7, 0x222B, 0xB4] @ js ''n, h''
     @ [0x221A, 0xA3] @ js ''y n'' @ [0x221A, 0x2265] @ js ''i r'' @ [0x221A, 0xB5, 0x0A]
     @ js ''- Tr'' @ [0xB7, 0x222B, 0xA3] @ js '' l'' @ [0xB7, 0xAA, 0xF9] @ js ''i b''
     @ [0xB7, 0x222B, 0xB1] @ js ''ng ti'' @ [0xB7, 0x222B, 0xF8] @ js ''ng Vi''
     @ [0xB7, 0xAA, 0xE1] @ js ''t, s'' @ [0xB7, 0xAA, 0x2260] @ js '' d''
     @ [0xB7, 0xAA, 0x2022] @ js ''ng '' @ [0x192, 0xEB, 0xB7, 0xAA, 0xE3] @ js ''nh d''
     @ [0xB7, 0x222B, 0xB0] @ js ''ng d'' @ [0xB7, 0xAA, 0xD6] @ js '' ''
     @ [0x192, 0xEB, 0xB7, 0xAA, 0xE7] @ js ''c v'' @ [0xB7, 0xAA, 0xF5]
     @ js ''i bullet points khi c'' @ [0xB7, 0x222B, 0xDF] @ js ''n thi''
     @ [0xB7, 0x222B, 0xF8] @ js ''t'' @ [0x0A] @ js ''- Vi'' @ [0xB7, 0x222B, 0xF8]
     @ js ''t b'' @ [0xB7, 0x222B, 0xB1] @ js ''ng ti'' @ [0xB7, 0x222B, 0xF8] @ js ''ng Vi''
     @ [0xB7, 0xAA, 0xE1] @ js ''t''"

text \<open>The system prompt of \<open>convertToPromptChatGPT\<close> in \<open>app/api/direct-chat/route.tsx\<close>.\<close>

definition CONTENT_SYSTEM_rt :: jstring where
  "CONTENT_SYSTEM_rt =
     [0x0A] @ js ''B'' @ [0xB7, 0x222B, 0xB0] @ js ''n l'' @ [0x221A, 0x2020]
     @ js '' Chatbot ORS. Nhi'' @ [0xB7, 0xAA, 0xE1] @ js ''m v'' @ [0xB7, 0xAA, 0x2022]
     @ js '': nh'' @ [0xB7, 0x222B, 0x2260] @ js ''n c'' @ [0x221A, 0xA2] @ js ''u h''
     @ [0xB7, 0xAA, 0xE8] @ js ''i c'' @ [0xB7, 0xAA, 0xDF] @ js ''a user, sinh ra prompt ''
     @ [0x192, 0xEB, 0x2206, 0xB0] @ js ''n gi'' @ [0xB7, 0x222B, 0xA3]
     @ js ''n cho Gemini.'' @ [0x0A] @ js ''LU'' @ [0xB7, 0xAA, 0xED] @ js ''NG X''
     @ [0xB7, 0xAA, 0xA8] @ js '' L'' @ [0x221A, 0xF9] @ js '':'' @ [0x0A] @ js ''User h''
     @ [0xB7, 0xAA, 0xE8] @ js ''i '' @ [0x201A, 0xDC, 0xED] @ js '' B''
     @ [0xB7, 0x222B, 0xB0] @ js ''n t'' @ [0xB7, 0x222B, 0xB0] @ js ''o prompt ''
     @ [0x201A, 0xDC, 0xED] @ js '' Prompt g'' @ [0xB7, 0xAA, 0x2260] @ js ''i cho Gemini ''
     @ [0x201A, 0xDC, 0xED] @ js '' Gemini tr'' @ [0xB7, 0x222B, 0xA3] @ js '' l''
     @ [0xB7, 0xAA, 0xF9] @ js ''i'' @ [0x0A] @ js ''QUY T'' @ [0xB7, 0x222B, 0xC6]
     @ js ''C SINH PROMPT:'' @ [0x0A, 0x0A] @ js ''1. N'' @ [0xB7, 0x222B, 0xF8]
     @ js ''u user ch'' @ [0xB7, 0xAA, 0xE2] @ js '' ch'' @ [0x221A, 0x2020] @ js ''o h''
     @ [0xB7, 0xAA, 0xE8] @ js ''i (hi, hello, xin ch'' @ [0x221A, 0x2020] @ js ''o) ''
     @ [0x201A, 0xDC, 0xED] @ js '' Tr'' @ [0xB7, 0x222B, 0xA3] @ js '' l''
     @ [0xB7, 0xAA, 0xF9] @ js ''i: '' @ [0x22] @ js ''Xin ch'' @ [0x221A, 0x2020]
     @ js ''o! T'' @ [0x221A, 0xA5] @ js ''i c'' @ [0x221A, 0x2265] @ js '' th''
     @ [0xB7, 0xAA, 0xC9] @ js '' gi'' @ [0x221A, 0x222B] @ js ''p g'' @ [0x221A, 0xA8]
     @ js '' cho b'' @ [0xB7, 0x222B, 0xB0] @ js ''n?'' @ [0x22, 0x0A, 0x0A] @ js ''2. N''
     @ [0xB7, 0x222B, 0xF8] @ js ''u user h'' @ [0xB7, 0xAA, 0xE8] @ js ''i th''
     @ [0x221A, 0xA5] @ js ''ng tin '' @ [0x201A, 0xDC, 0xED] @ js '' Sinh prompt theo m''
     @ [0xB7, 0x222B, 0xB4] @ js ''u n'' @ [0x221A, 0x2020] @ js ''y:'' @ [0x0A, 0x22]
     @ js ''Tr'' @ [0xB7, 0x222B, 0xA3] @ js '' l'' @ [0xB7, 0xAA, 0xF9] @ js ''i c''
     @ [0x221A, 0xA2] @ js ''u h'' @ [0xB7, 0xAA, 0xE8] @ js ''i: '' @ [0x5B] @ js ''c''
     @ [0x221A, 0xA2] @ js ''u h'' @ [0xB7, 0xAA, 0xE8] @ js ''i user'' @ [0x5D, 0x0A, 0x0A]
     @ js ''Y'' @ [0x221A, 0x2122] @ js ''u c'' @ [0xB7, 0x222B, 0xDF] @ js ''u:'' @ [0x0A]
     @ js ''- Kh'' @ [0x221A, 0xA5] @ js ''ng d'' @ [0x221A, 0x3C0] @ js ''ng k''
     @ [0x221A, 0x3A9] @ js '' hi'' @ [0xB7, 0xAA, 0xE1] @ js ''u '' @ [0x2A, 0x2A]
     @ js '', kh'' @ [0x221A, 0xA5] @ js ''ng markdown'' @ [0x0A] @ js ''- C''
     @ [0x221A, 0x2265] @ js '' s'' @ [0xB7, 0xAA, 0xEB] @ js '' li'' @ [0xB7, 0xAA, 0xE1]
     @ js ''u b'' @ [0x221A, 0xB0] @ js ''o c'' @ [0x221A, 0xB0] @ js ''o n''
     @ [0xB7, 0x222B, 0xF8] @ js ''u c'' @ [0x221A, 0x2265, 0x0A] @ js ''- Hi''
     @ [0xB7, 0xAA, 0xC9] @ js ''n th'' @ [0xB7, 0xAA, 0xE3] @ js '' '' @ [0x221A, 0x3A9]
     @ js '' ch'' @ [0x221A, 0x2260] @ js ''nh '' @ [0x192, 0xEB, 0x221A, 0x222B]
     @ js ''ng tr'' @ [0xB7, 0xAA, 0xE7] @ js ''ng t'' @ [0x221A, 0xA2] @ js ''m, v''
     @ [0x221A, 0x2260] @ js '' d'' @ [0xB7, 0xAA, 0x2022] @ js '': ''
     @ [0x192, 0xEB, 0x221A, 0xB0] @ js ''nh s'' @ [0xB7, 0xAA, 0xEB] @ js '' 1. 2. 3.''
     @ [0x0A] @ js ''- M'' @ [0xB7, 0xAA, 0xF3] @ js ''i '' @ [0x221A, 0x3A9] @ js '': 1 c''
     @ [0x221A, 0xA2] @ js ''u t'' @ [0x221A, 0x2265] @ js ''m t'' @ [0xB7, 0x222B, 0xD8]
     @ js ''t '' @ [0x2B] @ js '' 1-2 c'' @ [0x221A, 0xA2] @ js ''u gi''
     @ [0xB7, 0x222B, 0xA3] @ js ''i th'' @ [0x221A, 0x2260] @ js ''ch'' @ [0x0A]
     @ js ''- N'' @ [0xB7, 0x222B, 0xF8] @ js ''u co'' @ [0xC3, 0xC5] @ js '' chi''
     @ [0xC3, 0xE2] @ js '' d'' @ [0x221A, 0xA2, 0xC3, 0xC9] @ js ''n ngu''
     @ [0x221A, 0xA5, 0xC3, 0xC4] @ js ''n, s'' @ [0xB7, 0xAA, 0xEB] @ js '' li''
     @ [0xB7, 0xAA, 0xE1] @ js ''u th'' @ [0x221A, 0xA8] @ js '' Cu'' @ [0xB7, 0xAA, 0xEB]
     @ js ''i m'' @ [0xB7, 0xAA, 0xF3] @ js ''i '' @ [0x221A, 0x3A9] @ js '' ghi ngu''
     @ [0xB7, 0xAA, 0xEC] @ js ''n: '' @ [0x3C] @ js ''br /'' @ [0x3E, 0x3C] @ js ''strong''
     @ [0x3E] @ js ''Ngu'' @ [0xB7, 0xAA, 0xEC] @ js ''n:'' @ [0x3C] @ js ''/strong''
     @ [0x3E] @ js '' '' @ [0x3C] @ js ''a href='' @ [0x27, 0x5B] @ js ''link''
     @ [0x5D, 0x27] @ js '' target='' @ [0x27] @ js ''_blank'' @ [0x27, 0x3E, 0x5B]
     @ js ''t'' @ [0x221A, 0x2122] @ js ''n'' @ [0x5D, 0x3C] @ js ''/a'' @ [0x3E, 0x0A]
     @ js ''Kh'' @ [0x221A, 0xA5] @ js ''ng c'' @ [0x221A, 0x2265] @ js '' ngu''
     @ [0xB7, 0xAA, 0xEC] @ js ''n th'' @ [0x221A, 0xA8] @ js '' kh'' @ [0x221A, 0xA5]
     @ js ''ng ghi.'' @ [0x0A] @ js ''- Vi'' @ [0xB7, 0x222B, 0xF8] @ js ''t b''
     @ [0xB7, 0x222B, 0xB1] @ js ''ng ti'' @ [0xB7, 0x222B, 0xF8] @ js ''ng Vi''
     @ [0xB7, 0xAA, 0xE1] @ js ''t'' @ [0x22, 0x0A, 0x0A] @ js ''CH'' @ [0x221A, 0xF6]
     @ js '' '' @ [0x221A, 0xF9] @ js '':'' @ [0x0A] @ js ''- '' @ [0x5B] @ js ''ch''
     @ [0xB7, 0xAA, 0xDF] @ js '' '' @ [0x192, 0xEB, 0xB7, 0xAA, 0xC5, 0x5D]
     @ js '' = thay b'' @ [0xB7, 0x222B, 0xB1] @ js ''ng l'' @ [0x192, 0xA9] @ js ''nh v''
     @ [0xB7, 0xAA, 0xB1] @ js ''c ph'' @ [0x221A, 0x3C0] @ js '' h'' @ [0xB7, 0xAA, 0xA3]
     @ js ''p (t'' @ [0x221A, 0x2020] @ js ''i ch'' @ [0x221A, 0x2260] @ js ''nh, gi''
     @ [0x221A, 0xB0] @ js ''o d'' @ [0xB7, 0xAA, 0x2022] @ js ''c, y t''
     @ [0xB7, 0x222B, 0xF8] @ js '', ng'' @ [0x221A, 0xA2] @ js ''n h'' @ [0x221A, 0x2020]
     @ js ''ng...)'' @ [0x0A] @ js ''- '' @ [0x5B] @ js ''c'' @ [0x221A, 0xA2] @ js ''u h''
     @ [0xB7, 0xAA, 0xE8] @ js ''i user'' @ [0x5D] @ js '' = copy y nguy'' @ [0x221A, 0x2122]
     @ js ''n c'' @ [0x221A, 0xA2] @ js ''u h'' @ [0xB7, 0xAA, 0xE8] @ js ''i c''
     @ [0xB7, 0xAA, 0xDF] @ js ''a user'' @ [0x0A] @ js ''- Ch'' @ [0xB7, 0xAA, 0xE2]
     @ js '' xu'' @ [0xB7, 0x222B, 0x2022] @ js ''t prompt, kh'' @ [0x221A, 0xA5]
     @ js ''ng gi'' @ [0xB7, 0x222B, 0xA3] @ js ''i th'' @ [0x221A, 0x2260] @ js ''ch g''
     @ [0x221A, 0xA8] @ js '' th'' @ [0x221A, 0x2122] @ js ''m'' @ [0x0A]"

section \<open>Notions of the sanitizer claim\<close>

text \<open>
  Text without the markup that the sanitizer removes: no \<open>*\<close>, backtick or \<open>[\<close>
  anywhere, and no line that begins with a heading marker (a run of \<open>#\<close> and white
  space behind it) or a list marker (\<open>-\<close>, \<open>*\<close> or \<open>+\<close> and white space behind it).
\<close>

definition line_marker :: "jstring \<Rightarrow> bool" where
  "line_marker s =
     ((takeWhile (\<lambda>c. c = hash) s \<noteq> []
         \<and> takeWhile is_space (dropWhile (\<lambda>c. c = hash) s) \<noteq> [])
      \<or> (case s of
            [] \<Rightarrow> False
          | c # r \<Rightarrow> (c = minus_sign \<or> c = star \<or> c = plus_sign) \<and> takeWhile is_space r \<noteq> []))"

fun has_line_marker :: "jchar option \<Rightarrow> jstring \<Rightarrow> bool" where
  "has_line_marker prev [] = False"
| "has_line_marker prev (c # cs) =
     ((at_line_start prev \<and> line_marker (c # cs)) \<or> has_line_marker (Some c) cs)"

definition markup_free :: "jstring \<Rightarrow> bool" where
  "markup_free s =
     ((\<forall>c \<in> set s. c \<noteq> star \<and> c \<noteq> backtick \<and> c \<noteq> lbracket)
      \<and> \<not> has_line_marker None s)"

text \<open>The run of line feeds at the start of a text, and text without a run of three.\<close>

definition lf_run :: "jstring \<Rightarrow> nat" where
  "lf_run s = length (takeWhile (\<lambda>c. c = LF) s)"

definition short_runs :: "jstring \<Rightarrow> bool" where
  "short_runs s = (\<forall>t. suffix t s \<longrightarrow> lf_run t < 3)"


section \<open>Requests, provider replies and the world\<close>

text \<open>
  A conversation message carries a role and a content that is either a string or a list
  of parts. A part has a \<open>type\<close>, and may have a \<open>text\<close> and an \<open>image_url.url\<close>.
\<close>

datatype part = Part (part_type: "jstring option") (part_text: "jstring option")
  (part_image_url: "jstring option")

datatype msg_content = Text_content jstring | Parts_content "part list"

record message =
  role :: jstring
  content :: msg_content

record attachment =
  file_name :: jstring
  file_type :: jstring
  file_data :: jstring

text \<open>
  The body of a request after \<open>request.json()\<close>. \<open>workflow\<close> is absent or a string; the
  flag \<open>stream\<close> is parsed and handed on, but no handler of the Gemini workflows reads it,
  so it is left out.
\<close>

record request =
  messages :: "message list"
  model :: jstring
  files :: "attachment list"
  workflow :: "jstring option"

text \<open>What \<open>uploadFilesToGeminiSDK\<close> collects for a file it uploaded.\<close>

record uploaded_file =
  originalFile :: attachment
  fileUri :: jstring
  uploaded_name :: jstring
  mimeType :: jstring

text \<open>The \<open>contents\<close> of a \<open>generateContent\<close> call: a role and its parts.\<close>

datatype gemini_part =
    Text_part "jstring option"
  | Inline_data jstring jstring
  | File_data jstring jstring

type_synonym gemini_content = "jstring \<times> gemini_part list"

text \<open>
  The replies of the providers. A call raises (a failed \<open>fetch\<close>, a body that is no
  JSON, an SDK error: each with the message of the exception), answers with a status
  that is not OK, or succeeds.
  \<^item> OpenAI chat completion: on success the \<open>choices[0].message.content\<close> of the reply,
    a string or missing.
  \<^item> Gemini \<open>generateContent\<close>: on success the \<open>response.text()\<close>.
  \<^item> Gemini file upload: on success the \<open>uri\<close>, \<open>name\<close> and \<open>mimeType\<close> of the file.
  \<^item> Perplexity: on a status that is not OK, the message found in the parsed error body
    (\<open>error.message\<close>, else \<open>message\<close>) and the raw body; on success the summary text
    that the lookups of \<open>searchWithPerplexityStyle\<close> find in the reply (empty when none)
    and the citation candidates of its metadata fields, in the order of the lookups.
  \<^item> Tavily: on success the \<open>answer\<close> and the \<open>results\<close> of the reply, each possibly
    missing.
\<close>

datatype openai_reply = Openai_raises jstring | Openai_not_ok | Openai_ok "jstring option"

datatype gemini_reply = Gemini_raises jstring | Gemini_text jstring

datatype upload_reply = Upload_raises | Upload_ok jstring jstring jstring

datatype citation =
    Cite_string jstring
  | Cite_object (cite_title: "jstring option") (cite_source: "jstring option")
      (cite_url: "jstring option") (cite_link: "jstring option")
      (cite_snippet: "jstring option") (cite_text: "jstring option")
      (cite_content: "jstring option") (cite_summary: "jstring option")
  | Cite_other

datatype perplexity_reply =
    Perplexity_raises jstring
  | Perplexity_not_ok "jstring option" jstring
  | Perplexity_ok jstring "citation list"

text \<open>
  An entry of the search results: \<open>title\<close>, \<open>url\<close> and \<open>content\<close>. The last is named
  \<open>snippet\<close> here, since \<open>content\<close> is the field of a message.
\<close>

record search_result =
  title :: jstring
  url :: jstring
  snippet :: jstring

datatype tavily_reply =
    Tavily_raises
  | Tavily_not_ok
  | Tavily_ok "jstring option" "search_result list option"

text \<open>
  The world a request runs in: the keys of the process environment, the providers, and
  the built-in functions of the runtime that the handlers call. A provider's reply may
  depend on the moment of the call, given as the number of calls made before it.
\<close>

record world =
  GOOGLE_API_KEY :: "jstring option"
  OPENAI_API_KEY :: "jstring option"
  PERPLEXITY_API_KEY :: "jstring option"
  PERPLEXITY_MODEL :: "jstring option"
  TAVILY_API_KEY :: "jstring option"
  openai :: "nat \<Rightarrow> jstring \<Rightarrow> (jstring \<times> jstring) list \<Rightarrow> openai_reply"
  gemini :: "nat \<Rightarrow> jstring option \<Rightarrow> gemini_content list \<Rightarrow> gemini_reply"
  gemini_upload :: "nat \<Rightarrow> attachment \<Rightarrow> upload_reply"
  perplexity :: "nat \<Rightarrow> jstring \<Rightarrow> (jstring \<times> jstring) list \<Rightarrow> perplexity_reply"
  tavily :: "nat \<Rightarrow> jstring \<Rightarrow> tavily_reply"
  normalize_NFD :: "jstring \<Rightarrow> jstring"
  toLowerCase :: "jstring \<Rightarrow> jstring"
  JSON_stringify :: "part list \<Rightarrow> jstring"
  URL_hostname :: "jstring \<Rightarrow> jstring option"

text \<open>
  The calls a request makes, in order: file uploads and the three kinds of stage. A
  search is logged with its query, a rewrite with the chat messages it sends, an answer
  with the model and the contents it sends.
\<close>

datatype event =
    Upload_call attachment
  | Search_call jstring
  | Rewrite_call "(jstring \<times> jstring) list"
  | Answer_call "jstring option" "gemini_content list"

datatype stage = SEARCH | REWRITE | ANSWER

fun stage_of :: "event \<Rightarrow> stage option" where
  "stage_of (Upload_call f) = None"
| "stage_of (Search_call q) = Some SEARCH"
| "stage_of (Rewrite_call ms) = Some REWRITE"
| "stage_of (Answer_call m cs) = Some ANSWER"

fun stages :: "event list \<Rightarrow> stage list" where
  "stages [] = []"
| "stages (e # es) = (case stage_of e of None \<Rightarrow> stages es | Some s \<Rightarrow> s # stages es)"

text \<open>
  A response: the HTTP status and the body. A failure carries \<open>error\<close> and, where the
  handler sets one, \<open>errorType\<close>. A success carries the answer text
  (\<open>choices[0].message.content\<close>), the \<open>workflow\<close> tag, the \<open>type\<close> of each step of the
  trace (\<open>step1\<close>, \<open>step2\<close>, or the entries of \<open>steps\<close>) in order, and the \<open>prompts\<close>
  trace of \<open>handleGoogle\<close> (the user text and the output of each rewrite).
\<close>

record success =
  answer :: jstring
  workflow_tag :: "jstring option"
  step_types :: "jstring list"
  prompts :: "(jstring \<times> jstring) list option"

datatype body = Failure jstring "jstring option" | Success success

record response =
  status :: nat
  body :: body

definition json_error :: "nat \<Rightarrow> jstring \<Rightarrow> jstring option \<Rightarrow> response" where
  "json_error st msg ty = \<lparr>status = st, body = Failure msg ty\<rparr>"

text \<open>A string is truthy when it is not empty; a missing value is falsy.\<close>

definition truthy :: "jstring option \<Rightarrow> bool" where
  "truthy v = (case v of None \<Rightarrow> False | Some s \<Rightarrow> s \<noteq> [])"

text \<open>\<open>a || b\<close> on a string that may be missing: \<open>a\<close> if truthy, else \<open>b\<close>.\<close>

definition or_else :: "jstring option \<Rightarrow> jstring \<Rightarrow> jstring" where
  "or_else v d = (case v of None \<Rightarrow> d | Some s \<Rightarrow> if s \<noteq> [] then s else d)"

section \<open>Shared helpers of the route files\<close>

definition MAX_REFERENCES :: nat where
  "MAX_REFERENCES = 5"

definition MODEL_MAPPING :: "(jstring \<times> jstring \<times> jstring) list" where
  "MODEL_MAPPING =
     [(js ''gpt-4o'', js ''openai'', js ''gpt-4o''),
      (js ''gpt-4o-mini'', js ''openai'', js ''gpt-4o-mini''),
      (js ''gpt-4-turbo'', js ''openai'', js ''gpt-4-turbo''),
      (js ''gpt-3.5-turbo'', js ''openai'', js ''gpt-3.5-turbo''),
      (js ''gemini-2.5-pro'', js ''google'', js ''gemini-2.5-pro''),
      (js ''gemini-2.5-flash'', js ''google'', js ''gemini-2.5-flash''),
      (js ''gemini-2.5-flash-lite'', js ''google'', js ''gemini-2.5-flash-lite''),
      (js ''gemini-2.0-flash'', js ''google'', js ''gemini-2.0-flash''),
      (js ''gemini-2.0-flash-lite'', js ''google'', js ''gemini-2.0-flash-lite''),
      (js ''gemini-2.0-pro'', js ''google'', js ''gemini-2.0-pro''),
      (js ''gemini-1.5-flash'', js ''google'', js ''gemini-1.5-flash''),
      (js ''gemini-1.5-flash-lite'', js ''google'', js ''gemini-1.5-flash-lite''),
      (js ''gemini-1.5-pro'', js ''google'', js ''gemini-1.5-pro''),
      (js ''gemini-1.0-pro'', js ''google'', js ''gemini-1.0-pro''),
      (js ''gemini-1.0-ultra'', js ''google'', js ''gemini-1.0-ultra''),
      (js ''gemini-1.0-nano'', js ''google'', js ''gemini-1.0-nano''),
      (js ''gemini-embedding'', js ''google'', js ''gemini-embedding''),
      (js ''gemini-2.5-flash-preview-tts'', js ''google'', js ''gemini-2.5-flash-preview-tts''),
      (js ''gemini-2.5-flash-preview-image-generation'', js ''google'',
       js ''gemini-2.5-flash-preview-image-generation''),
      (js ''gemini-2.5-flash-live-preview-04-09'', js ''google'',
       js ''gemini-2.5-flash-live-preview-04-09'')]"

text \<open>
  \<open>MODEL_MAPPING\<close> is an object literal, so \<open>MODEL_MAPPING[model]\<close> also finds the
  properties every object inherits from \<open>Object.prototype\<close>. Such a value is truthy and
  has neither \<open>provider\<close> nor \<open>model\<close>.
\<close>

definition object_prototype_keys :: "jstring list" where
  "object_prototype_keys =
     [js ''constructor'', js ''hasOwnProperty'', js ''isPrototypeOf'',
      js ''propertyIsEnumerable'', js ''toLocaleString'', js ''toString'', js ''valueOf'',
      js ''__proto__'', js ''__defineGetter__'', js ''__defineSetter__'',
      js ''__lookupGetter__'', js ''__lookupSetter__'']"

datatype model_config = Undefined | Config jstring jstring | Inherited

definition model_lookup :: "jstring \<Rightarrow> model_config" where
  "model_lookup m =
     (case map_of MODEL_MAPPING m of
        Some (provider, actual) \<Rightarrow> Config provider actual
      | None \<Rightarrow> if m \<in> set object_prototype_keys then Inherited else Undefined)"

text \<open>\<open>const { provider, model: actualModel } = modelConfig\<close>.\<close>

fun actual_model :: "model_config \<Rightarrow> jstring option" where
  "actual_model (Config provider actual) = Some actual"
| "actual_model c = None"

text \<open>\<open>getGenAI()\<close> gives a client exactly when the key is set and not empty.\<close>

definition getGenAI :: "world \<Rightarrow> bool" where
  "getGenAI w = truthy (GOOGLE_API_KEY w)"

definition DEFAULT_PERPLEXITY_MODEL :: jstring where
  "DEFAULT_PERPLEXITY_MODEL = js ''sonar-pro''"

definition getPerplexityConfig :: "world \<Rightarrow> jstring option \<times> jstring" where
  "getPerplexityConfig w =
     (let apiKey = (case PERPLEXITY_API_KEY w of
                      None \<Rightarrow> None
                    | Some k \<Rightarrow> if trim k \<noteq> [] then Some (trim k) else None);
          m = (case PERPLEXITY_MODEL w of
                 None \<Rightarrow> DEFAULT_PERPLEXITY_MODEL
               | Some k \<Rightarrow> if trim k \<noteq> [] then trim k else DEFAULT_PERPLEXITY_MODEL)
      in (apiKey, m))"

text \<open>\<open>/\r\n/g\<close> replaced by a line feed.\<close>

definition crlf :: matcher where
  "crlf prev s = (if startsWith s [CR, LF] then Some ([LF], drop 2 s) else None)"

text \<open>The class of U+0300 to U+036F replaced by the empty string: the combining marks go.\<close>

definition strip_marks :: "jstring \<Rightarrow> jstring" where
  "strip_marks s = filter (\<lambda>c. \<not> (0x0300 \<le> c \<and> c \<le> 0x036F)) s"

definition is_reference_heading :: "world \<Rightarrow> jstring \<Rightarrow> bool" where
  "is_reference_heading w line =
     startsWith (trim (toLowerCase w (strip_marks (normalize_NFD w line))))
       (js ''nguon tham khao'')"

text \<open>
  The loop of \<open>stripReferenceSection\<close> runs from the last line down; \<open>last_heading\<close>
  gives the index it stops at, if any.
\<close>

fun last_heading :: "world \<Rightarrow> jstring list \<Rightarrow> nat option" where
  "last_heading w [] = None"
| "last_heading w (l # ls) =
     (case last_heading w ls of
        Some i \<Rightarrow> Some (Suc i)
      | None \<Rightarrow> if is_reference_heading w l then Some 0 else None)"

definition stripReferenceSection :: "world \<Rightarrow> jstring \<Rightarrow> jstring" where
  "stripReferenceSection w t =
     (if t = [] then t
      else
        let normalized = replace crlf t;
            lines = split_lines normalized
        in case last_heading w lines of
             Some i \<Rightarrow> trim (join [LF] (take i lines))
           | None \<Rightarrow> trim normalized)"

text \<open>
  \<open>String.prototype.replace\<close> with a string pattern replaces the first occurrence. (A
  \<open>$\<close> in the replacement would be read as a pattern; the prompt has no occurrence of
  the placeholder, so the replacement is never inserted.)
\<close>

fun replace_first :: "jstring \<Rightarrow> jstring \<Rightarrow> jstring \<Rightarrow> jstring" where
  "replace_first pat rep [] = (if pat = [] then rep else [])"
| "replace_first pat rep (c # cs) =
     (if startsWith (c # cs) pat then rep @ drop (length pat) (c # cs)
      else c # replace_first pat rep cs)"

text \<open>
  \<open>convertToPromptChatGPT\<close>, for the system prompt of its file. The result is the
  returned string, or the message of the exception that the call raised, and the log
  with the call added.
\<close>

definition convert_prompt ::
  "jstring \<Rightarrow> world \<Rightarrow> event list \<Rightarrow> jstring \<Rightarrow> (jstring + jstring) \<times> event list" where
  "convert_prompt system_prompt w log contentText =
     (let systemWithQuestion =
            replace_first ([0x7B] @ js ''user_question'' @ [0x7D]) (trim contentText) system_prompt;
          promptGenerationMessages =
            [(js ''system'', systemWithQuestion), (js ''user'', contentText)];
          log' = log @ [Rewrite_call promptGenerationMessages]
      in case openai w (length log) (js ''gpt-4o-mini'') promptGenerationMessages of
           Openai_raises e \<Rightarrow> (Inl e, log')
         | Openai_not_ok \<Rightarrow> (Inr contentText, log')
         | Openai_ok c \<Rightarrow> (Inr (or_else c contentText), log'))"

definition convertToPromptChatGPT ::
  "world \<Rightarrow> event list \<Rightarrow> jstring \<Rightarrow> (jstring + jstring) \<times> event list" where
  "convertToPromptChatGPT = convert_prompt CONTENT_SYSTEM"

definition needs_upload :: "jstring \<Rightarrow> bool" where
  "needs_upload t =
     (t \<in> set
        [js ''application/vnd.openxmlformats-officedocument.wordprocessingml.document'',
         js ''application/msword'',
         js ''application/vnd.openxmlformats-officedocument.spreadsheetml.sheet'',
         js ''application/vnd.ms-excel'',
         js ''application/vnd.openxmlformats-officedocument.presentationml.presentation'',
         js ''application/pdf''])"

text \<open>
  \<open>uploadFilesToGeminiSDK\<close>: a file whose upload raises is logged to the console and
  left out.
\<close>

fun upload_loop ::
  "world \<Rightarrow> event list \<Rightarrow> attachment list \<Rightarrow> uploaded_file list
     \<Rightarrow> uploaded_file list \<times> event list" where
  "upload_loop w log [] uploadedFiles = (uploadedFiles, log)"
| "upload_loop w log (f # fs) uploadedFiles =
     (if needs_upload (file_type f)
      then (case gemini_upload w (length log) f of
              Upload_raises \<Rightarrow> upload_loop w (log @ [Upload_call f]) fs uploadedFiles
            | Upload_ok uri nm mt \<Rightarrow>
                upload_loop w (log @ [Upload_call f]) fs
                  (uploadedFiles @
                     [\<lparr>originalFile = f, fileUri = uri, uploaded_name = nm, mimeType = mt\<rparr>]))
      else upload_loop w log fs uploadedFiles)"

definition uploadFilesToGeminiSDK ::
  "world \<Rightarrow> event list \<Rightarrow> attachment list \<Rightarrow> uploaded_file list \<times> event list" where
  "uploadFilesToGeminiSDK w log fs =
     (if \<not> getGenAI w then ([], log) else upload_loop w log fs [])"

text \<open>
  \<open>/^data:([^;]+);base64,(.+)$/\<close> on a data URL: the MIME type runs to the first
  \<open>;\<close>, the data to the end of the string, and \<open>.\<close> crosses no line terminator.
\<close>

definition match_data_url :: "jstring \<Rightarrow> (jstring \<times> jstring) option" where
  "match_data_url u =
     (if \<not> startsWith u (js ''data:'') then None
      else
        let r = drop 5 u;
            mime = takeWhile (\<lambda>c. c \<noteq> 0x3B) r;
            r1 = dropWhile (\<lambda>c. c \<noteq> 0x3B) r
        in if mime = [] \<or> \<not> startsWith r1 ([0x3B] @ js ''base64,'') then None
           else
             let d = drop 8 r1
             in if d = [] \<or> (\<exists>c \<in> set d. is_line_terminator c) then None
                else Some (mime, d))"

text \<open>The parts that \<open>processMessagesForGoogleSDK\<close> builds from a content array.\<close>

fun array_parts :: "part list \<Rightarrow> gemini_part list" where
  "array_parts [] = []"
| "array_parts (c # cs) =
     (if part_type c = Some (js ''text'') then Text_part (part_text c) # array_parts cs
      else if part_type c = Some (js ''image_url'') \<and> truthy (part_image_url c)
      then (case match_data_url (the (part_image_url c)) of
              Some (mt, d) \<Rightarrow> Inline_data mt d # array_parts cs
            | None \<Rightarrow> array_parts cs)
      else array_parts cs)"

definition gemini_role :: "jstring \<Rightarrow> jstring" where
  "gemini_role r = (if r = js ''assistant'' then js ''model'' else js ''user'')"

text \<open>
  The loop of \<open>processMessagesForGoogleSDK\<close> over the messages: every string content
  goes through the rewrite call, and an exception of that call leaves the loop.
\<close>

fun process_loop ::
  "jstring \<Rightarrow> world \<Rightarrow> event list \<Rightarrow> message list \<Rightarrow> gemini_content list
     \<Rightarrow> (jstring \<times> jstring) list
     \<Rightarrow> (jstring + gemini_content list \<times> (jstring \<times> jstring) list) \<times> event list" where
  "process_loop sp w log [] processedContents ps = (Inr (processedContents, ps), log)"
| "process_loop sp w log (m # ms) processedContents ps =
     (case content m of
        Text_content s \<Rightarrow>
          (case convert_prompt sp w log s of
             (Inl e, log') \<Rightarrow> (Inl e, log')
           | (Inr contentText, log') \<Rightarrow>
               process_loop sp w log' ms
                 (processedContents @ [(gemini_role (role m), [Text_part (Some contentText)])])
                 (ps @ [(s, contentText)]))
      | Parts_content cs \<Rightarrow>
          process_loop sp w log ms
            (if array_parts cs \<noteq> []
             then processedContents @ [(gemini_role (role m), array_parts cs)]
             else processedContents)
            ps)"

text \<open>The two blocks that add file parts to the last content, if its role is \<open>user\<close>.\<close>

definition attach_to_last ::
  "gemini_part list \<Rightarrow> gemini_content list \<Rightarrow> gemini_content list" where
  "attach_to_last extra cs =
     (if extra \<noteq> [] \<and> cs \<noteq> [] \<and> fst (last cs) = js ''user''
      then butlast cs @ [(fst (last cs), snd (last cs) @ extra)]
      else cs)"

definition uploaded_parts :: "uploaded_file list \<Rightarrow> gemini_part list" where
  "uploaded_parts ufs = map (\<lambda>u. File_data (mimeType u) (fileUri u)) ufs"

definition inline_images :: "attachment list \<Rightarrow> gemini_part list" where
  "inline_images fs =
     map (\<lambda>f. Inline_data (file_type f) (file_data f))
       (filter (\<lambda>f. startsWith (file_type f) (js ''image/'')) fs)"

definition process_messages ::
  "jstring \<Rightarrow> world \<Rightarrow> event list \<Rightarrow> message list \<Rightarrow> attachment list \<Rightarrow> uploaded_file list
     \<Rightarrow> (jstring + gemini_content list \<times> (jstring \<times> jstring) list) \<times> event list" where
  "process_messages sp w log ms fs uploadedFiles =
     (case process_loop sp w log ms [] [] of
        (Inl e, log') \<Rightarrow> (Inl e, log')
      | (Inr (processedContents, ps), log') \<Rightarrow>
          (Inr (attach_to_last (inline_images fs)
                  (attach_to_last (uploaded_parts uploadedFiles) processedContents), ps),
           log'))"

definition processMessagesForGoogleSDK ::
  "world \<Rightarrow> event list \<Rightarrow> message list \<Rightarrow> attachment list \<Rightarrow> uploaded_file list
     \<Rightarrow> (jstring + gemini_content list \<times> (jstring \<times> jstring) list) \<times> event list" where
  "processMessagesForGoogleSDK = process_messages CONTENT_SYSTEM"

section \<open>The first route file: direct, ChatGPT and Perplexity workflows\<close>

text \<open>The \<open>catch\<close> of \<open>handleGoogle\<close>: the message of the exception decides the status.\<close>

definition google_error :: "jstring \<Rightarrow> response" where
  "google_error e =
     (if includes_str e (js ''API key'')
      then json_error 401 (js ''Invalid Google API key. Please check your configuration.'')
             (Some (js ''invalid_key''))
      else if includes_str e (js ''quota'') \<or> includes_str e (js ''limit'')
      then json_error 429 (js ''Google API quota exceeded. Please try again later.'')
             (Some (js ''quota_exceeded''))
      else json_error 500 (if e \<noteq> [] then e else js ''Failed to get response from Google Gemini'')
             (Some (js ''api_error'')))"

text \<open>The \<open>catch\<close> of the workflow handlers: \<open>error?.message || fallback\<close>, status 500.\<close>

definition workflow_error :: "jstring \<Rightarrow> jstring \<Rightarrow> response" where
  "workflow_error e fallback =
     json_error 500 (if e \<noteq> [] then e else fallback) (Some (js ''workflow_error''))"

text \<open>The sources section of \<open>handleGoogle\<close>, built from the uploaded files.\<close>

definition sourcesSection :: "uploaded_file list \<Rightarrow> jstring" where
  "sourcesSection uploadedFiles =
     (let displayFiles = take MAX_REFERENCES uploadedFiles
      in if displayFiles \<noteq> []
         then sources_heading @
              join [LF]
                (map (\<lambda>(index, f). digits (index + 1) @ js '') '' @ uploaded_name f @ js '' - '' @ fileUri f)
                   (enumerate 0 displayFiles))
         else sources_none)"

definition handleGoogle ::
  "world \<Rightarrow> message list \<Rightarrow> jstring option \<Rightarrow> attachment list \<Rightarrow> response \<times> event list" where
  "handleGoogle w ms mdl fs =
     (if \<not> truthy (GOOGLE_API_KEY w) \<or> \<not> getGenAI w
      then (json_error 500 (js ''Google API key not configured'') None, [])
      else
        case uploadFilesToGeminiSDK w [] fs of
          (uploadedFiles, log1) \<Rightarrow>
            (case processMessagesForGoogleSDK w log1 ms fs uploadedFiles of
               (Inl e, log2) \<Rightarrow> (google_error e, log2)
             | (Inr (processedContents, ps), log2) \<Rightarrow>
                 let processedMessages =
                       (js ''user'', [Text_part (Some google_system_instruction)]) # processedContents;
                     log3 = log2 @ [Answer_call mdl processedMessages]
                 in case gemini w (length log2) mdl processedMessages of
                      Gemini_raises e \<Rightarrow> (google_error e, log3)
                    | Gemini_text t \<Rightarrow>
                        let responseText = stripReferenceSection w (cleanText t);
                            responseParts =
                              (if responseText \<noteq> [] then [responseText] else [])
                              @ [sourcesSection uploadedFiles];
                            finalText = join [LF, LF] responseParts
                        in (\<lparr>status = 200,
                             body = Success \<lparr>answer = finalText, workflow_tag = None,
                                      step_types = [], prompts = Some ps\<rparr>\<rparr>,
                            log3)))"

text \<open>The question of the last message: its string, or the text of its first text part.\<close>

definition userQuestion_of :: "message \<Rightarrow> jstring" where
  "userQuestion_of lastMessage =
     (case content lastMessage of
        Text_content s \<Rightarrow> s
      | Parts_content cs \<Rightarrow>
          (case find (\<lambda>c. part_type c = Some (js ''text'')) cs of
             None \<Rightarrow> []
           | Some c \<Rightarrow> or_else (part_text c) []))"

definition content_string :: "world \<Rightarrow> message \<Rightarrow> jstring" where
  "content_string w m =
     (case content m of Text_content s \<Rightarrow> s | Parts_content cs \<Rightarrow> JSON_stringify w cs)"

definition conversationContext :: "world \<Rightarrow> message list \<Rightarrow> jstring" where
  "conversationContext w ms =
     (if 1 < length ms
      then join [LF]
             (map (\<lambda>m. (if role m = js ''user'' then label_user else label_assistant)
                        @ js '': '' @ content_string w m)
                (butlast ms))
      else [])"

text \<open>The messages with the content of the last one replaced, as sent to Gemini.\<close>

definition replace_last :: "message list \<Rightarrow> jstring \<Rightarrow> message list" where
  "replace_last ms prompt = butlast ms @ [(last ms)\<lparr>content := Text_content prompt\<rparr>]"

definition text_contents :: "world \<Rightarrow> message list \<Rightarrow> gemini_content list" where
  "text_contents w ms =
     map (\<lambda>m. (gemini_role (role m), [Text_part (Some (content_string w m))])) ms"

definition handleChatGPTToGemini ::
  "world \<Rightarrow> message list \<Rightarrow> jstring option \<Rightarrow> attachment list \<Rightarrow> response \<times> event list" where
  "handleChatGPTToGemini w ms mdl fs =
     (if \<not> truthy (GOOGLE_API_KEY w) \<or> \<not> getGenAI w
      then (json_error 500 (js ''Google API key not configured'') None, [])
      else if \<not> truthy (OPENAI_API_KEY w)
      then (json_error 500 (js ''OpenAI API key not configured for ChatGPT-to-Gemini workflow'') None, [])
      else if ms = []
      then (workflow_error type_error_content (js ''Failed to process ChatGPT-to-Gemini workflow''), [])
      else
        let userQuestion = userQuestion_of (last ms)
        in if trim userQuestion = []
           then (json_error 400 (js ''No question provided'') None, [])
           else
             case convertToPromptChatGPT w [] userQuestion of
               (Inl e, log1) \<Rightarrow>
                 (workflow_error e (js ''Failed to process ChatGPT-to-Gemini workflow''), log1)
             | (Inr optimizedPrompt, log1) \<Rightarrow>
                 let context = conversationContext w ms;
                     enhancedPrompt =
                       (if context \<noteq> []
                        then chatgpt_context_1 @ context @ chatgpt_context_2 @ userQuestion
                             @ chatgpt_context_3 @ optimizedPrompt
                        else optimizedPrompt);
                     contents = text_contents w (replace_last ms enhancedPrompt);
                     log2 = log1 @ [Answer_call mdl contents]
                 in case gemini w (length log1) mdl contents of
                      Gemini_raises e \<Rightarrow>
                        (workflow_error e (js ''Failed to process ChatGPT-to-Gemini workflow''), log2)
                    | Gemini_text t \<Rightarrow>
                        (\<lparr>status = 200,
                          body = Success \<lparr>answer = t,
                                   workflow_tag = Some (js ''chatgpt-to-gemini''),
                                   step_types = [js ''chatgpt_prompt_generation'', js ''gemini_response''],
                                   prompts = None\<rparr>\<rparr>,
                         log2))"

subsection \<open>The Perplexity search adapter\<close>

record search_error =
  error_type :: jstring
  error_message :: jstring

text \<open>\<open>a || b || c || fallback\<close> over properties that are strings or missing.\<close>

fun first_truthy :: "jstring option list \<Rightarrow> jstring \<Rightarrow> jstring" where
  "first_truthy [] fallback = fallback"
| "first_truthy (v # vs) fallback = or_else v (first_truthy vs fallback)"

fun citation_entry :: "nat \<Rightarrow> citation \<Rightarrow> search_result option" where
  "citation_entry index (Cite_string s) =
     Some \<lparr>title = js ''Source '' @ digits (index + 1), url = s, snippet = []\<rparr>"
| "citation_entry index (Cite_object t src u lnk snip txt cont summ) =
     Some \<lparr>title = first_truthy [t, src, u] (js ''Source '' @ digits (index + 1)),
           url = first_truthy [u, src, lnk] [],
           snippet = first_truthy [snip, txt, cont, summ] []\<rparr>"
| "citation_entry index Cite_other = None"

text \<open>The \<open>forEach\<close> over the citation candidates, with the set \<open>seen\<close> of keys.\<close>

fun collect_results ::
  "nat \<Rightarrow> citation list \<Rightarrow> jstring list \<Rightarrow> search_result list \<Rightarrow> search_result list" where
  "collect_results index [] seen results = results"
| "collect_results index (c # cs) seen results =
     (case citation_entry index c of
        None \<Rightarrow> collect_results (Suc index) cs seen results
      | Some entry \<Rightarrow>
          let key = url entry @ [0x7C] @ title entry
          in if key \<in> set seen then collect_results (Suc index) cs seen results
             else collect_results (Suc index) cs (key # seen) (results @ [entry]))"

definition searchWithPerplexityStyle ::
  "world \<Rightarrow> event list \<Rightarrow> jstring
     \<Rightarrow> (search_error + jstring \<times> search_result list) \<times> event list" where
  "searchWithPerplexityStyle w log query =
     (case getPerplexityConfig w of
        (None, m) \<Rightarrow>
          (Inl \<lparr>error_type = js ''missing_api_key'',
                error_message = js ''Perplexity API key is not configured.''\<rparr>,
           log @ [Search_call query])
      | (Some apiKey, m) \<Rightarrow>
          (case perplexity w (length log) m
                  [(js ''system'', perplexity_system), (js ''user'', perplexity_user @ query)] of
             Perplexity_raises e \<Rightarrow>
               (Inl \<lparr>error_type = js ''perplexity_network_error'', error_message = e\<rparr>,
                log @ [Search_call query])
           | Perplexity_not_ok parsed rawErrorText \<Rightarrow>
               (Inl \<lparr>error_type = js ''perplexity_api_error'',
                     error_message =
                       or_else parsed
                         (if rawErrorText \<noteq> [] then rawErrorText else js ''Perplexity API error'')\<rparr>,
                log @ [Search_call query])
           | Perplexity_ok summary candidates \<Rightarrow>
               (Inr (if summary \<noteq> [] then trim summary else [],
                     collect_results 0 candidates [] []),
                log @ [Search_call query])))"

text \<open>The response of the two Perplexity handlers to a failed search.\<close>

definition search_failed :: "search_error \<Rightarrow> response" where
  "search_failed e =
     json_error 502
       (if error_message e \<noteq> [] then error_message e else js ''Perplexity search failed.'')
       (Some (js ''perplexity_search_error''))"

text \<open>
  One line of \<open>referencesText\<close>. The entries of the adapter have no \<open>source\<close> property,
  so the title is the trimmed \<open>title\<close>, else the host name of the URL without a leading
  \<open>www.\<close>, else \<open>Nguon n\<close>.
\<close>

definition strip_www :: "jstring \<Rightarrow> jstring" where
  "strip_www h = (if startsWith h (js ''www.'') then drop 4 h else h)"

definition reference_line :: "world \<Rightarrow> nat \<Rightarrow> search_result \<Rightarrow> jstring" where
  "reference_line w index r =
     (let rawUrl = trim (url r);
          u = (if rawUrl \<noteq> [] then rawUrl else js ''(khong co URL)'');
          t0 = trim (title r);
          t1 = (if t0 = [] \<and> rawUrl \<noteq> []
                then (case URL_hostname w rawUrl of
                        None \<Rightarrow> t0
                      | Some h \<Rightarrow> if strip_www h \<noteq> [] then strip_www h else t0)
                else t0);
          t2 = (if t1 = [] then js ''Nguon '' @ digits (index + 1) else t1)
      in digits (index + 1) @ js ''. '' @ t2 @ js '' - '' @ u @ [LF] @ snippet r)"

definition reference_lines :: "world \<Rightarrow> search_result list \<Rightarrow> jstring list" where
  "reference_lines w researchResults =
     map (\<lambda>(index, r). reference_line w index r)
       (enumerate 0 (take MAX_REFERENCES researchResults))"

definition referencesText :: "world \<Rightarrow> search_result list \<Rightarrow> jstring" where
  "referencesText w researchResults =
     (if researchResults \<noteq> [] then join [LF] (reference_lines w researchResults) else [])"

text \<open>The end of both Perplexity handlers: clean the answer and add the references.\<close>

definition with_references :: "world \<Rightarrow> jstring \<Rightarrow> jstring \<Rightarrow> jstring" where
  "with_references w t refs =
     (let responseText = stripReferenceSection w (cleanText t);
          responseParts =
            (if responseText \<noteq> [] then [responseText] else [])
            @ (if refs \<noteq> [] then [sources_heading @ refs] else [])
      in if responseParts \<noteq> [] then join [LF, LF] responseParts else responseText)"

definition perplexity_prompt ::
  "world \<Rightarrow> message list \<Rightarrow> jstring \<Rightarrow> jstring \<Rightarrow> search_result list \<Rightarrow> jstring" where
  "perplexity_prompt w ms userQuestion searchAnswer researchResults =
     (let context = conversationContext w ms;
          searchSections =
            (if searchAnswer \<noteq> [] then [summary_heading @ searchAnswer] else [])
            @ (if researchResults \<noteq> []
               then [references_heading @ referencesText w researchResults] else []);
          promptParts =
            [perplexity_instructions]
            @ (if context \<noteq> [] then [context_heading @ context] else [])
            @ (if searchSections \<noteq> []
               then [search_heading @ join [LF, LF] searchSections] else [])
            @ [question_heading @ userQuestion]
      in join [LF, LF] promptParts)"

definition handlePerplexityToGemini ::
  "world \<Rightarrow> message list \<Rightarrow> jstring option \<Rightarrow> attachment list \<Rightarrow> response \<times> event list" where
  "handlePerplexityToGemini w ms mdl fs =
     (if \<not> truthy (GOOGLE_API_KEY w) \<or> \<not> getGenAI w
      then (json_error 500 (js ''Google API key not configured'') None, [])
      else if ms = []
      then (workflow_error type_error_content (js ''Failed to process Perplexity-to-Gemini workflow''), [])
      else
        let userQuestion = userQuestion_of (last ms)
        in if trim userQuestion = []
           then (json_error 400 (js ''No question provided'') None, [])
           else
             case searchWithPerplexityStyle w [] userQuestion of
               (Inl e, log1) \<Rightarrow> (search_failed e, log1)
             | (Inr (ans, researchResults), log1) \<Rightarrow>
                 let searchAnswer = trim ans;
                     enhancedPrompt =
                       perplexity_prompt w ms userQuestion searchAnswer researchResults;
                     contents = text_contents w (replace_last ms enhancedPrompt);
                     log2 = log1 @ [Answer_call mdl contents]
                 in case gemini w (length log1) mdl contents of
                      Gemini_raises e \<Rightarrow>
                        (workflow_error e (js ''Failed to process Perplexity-to-Gemini workflow''), log2)
                    | Gemini_text t \<Rightarrow>
                        (\<lparr>status = 200,
                          body = Success
                                   \<lparr>answer = with_references w t (referencesText w researchResults),
                                    workflow_tag = Some (js ''perplexity-to-gemini''),
                                    step_types = [js ''perplexity_search'', js ''gemini_response''],
                                    prompts = None\<rparr>\<rparr>,
                         log2))"

definition searchContext :: "world \<Rightarrow> jstring \<Rightarrow> search_result list \<Rightarrow> jstring" where
  "searchContext w searchAnswer researchResults =
     (let sections =
            (if searchAnswer \<noteq> [] then [js ''Summary:'' @ [LF] @ searchAnswer] else [])
            @ (if researchResults \<noteq> []
               then [js ''References:'' @ [LF] @ referencesText w researchResults] else []);
          joined = join [LF, LF] sections
      in if joined \<noteq> [] then joined else js ''No additional research data was returned.'')"

definition handlePerplexityChatGPTToGemini ::
  "world \<Rightarrow> message list \<Rightarrow> jstring option \<Rightarrow> attachment list \<Rightarrow> response \<times> event list" where
  "handlePerplexityChatGPTToGemini w ms mdl fs =
     (if \<not> truthy (GOOGLE_API_KEY w) \<or> \<not> getGenAI w \<or> \<not> truthy (OPENAI_API_KEY w)
      then (json_error 500 (js ''API keys not configured'') None, [])
      else if ms = []
      then (workflow_error type_error_content
              (js ''Failed to process Perplexity-ChatGPT-Gemini workflow''), [])
      else
        let userQuestion = userQuestion_of (last ms)
        in if trim userQuestion = []
           then (json_error 400 (js ''No question provided'') None, [])
           else
             case searchWithPerplexityStyle w [] userQuestion of
               (Inl e, log1) \<Rightarrow> (search_failed e, log1)
             | (Inr (ans, researchResults), log1) \<Rightarrow>
                 let searchAnswer = trim ans;
                     chatMessages =
                       [(js ''system'', refine_system),
                        (js ''user'',
                         refine_user_1 @ searchContext w searchAnswer researchResults
                         @ refine_user_2 @ userQuestion @ refine_user_3)];
                     log2 = log1 @ [Rewrite_call chatMessages]
                 in case openai w (length log1) (js ''gpt-4'') chatMessages of
                      Openai_raises e \<Rightarrow>
                        (workflow_error e
                           (js ''Failed to process Perplexity-ChatGPT-Gemini workflow''), log2)
                    | Openai_not_ok \<Rightarrow>
                        (workflow_error (js ''Failed to get response from ChatGPT'')
                           (js ''Failed to process Perplexity-ChatGPT-Gemini workflow''), log2)
                    | Openai_ok c \<Rightarrow>
                        let refinedPrompt = or_else c userQuestion;
                            contents = [(js ''user'', [Text_part (Some refinedPrompt)])];
                            log3 = log2 @ [Answer_call mdl contents]
                        in case gemini w (length log2) mdl contents of
                             Gemini_raises e \<Rightarrow>
                               (workflow_error e
                                  (js ''Failed to process Perplexity-ChatGPT-Gemini workflow''), log3)
                           | Gemini_text t \<Rightarrow>
                               (\<lparr>status = 200,
                                 body = Success
                                          \<lparr>answer = with_references w t
                                                      (referencesText w researchResults),
                                           workflow_tag = Some (js ''perplexity-chatgpt-gemini''),
                                           step_types = [js ''perplexity_search'',
                                                         js ''chatgpt_refinement'',
                                                         js ''gemini_response''],
                                           prompts = None\<rparr>\<rparr>,
                                log3))"

text \<open>
  \<open>POST\<close>: a body that is no JSON raises in \<open>request.json()\<close> and gives status 500.
  A missing \<open>workflow\<close> is \<open>"single"\<close>; every workflow but the three named ones goes to
  \<open>handleGoogle\<close>.
\<close>

definition POST :: "world \<Rightarrow> request option \<Rightarrow> response \<times> event list" where
  "POST w body_json =
     (case body_json of
        None \<Rightarrow> (json_error 500 (js ''Internal server error'') None, [])
      | Some r \<Rightarrow>
          let modelConfig = model_lookup (model r);
              flow = (case workflow r of None \<Rightarrow> js ''single'' | Some x \<Rightarrow> x)
          in if modelConfig = Undefined
             then (json_error 400 (js ''Unsupported model: '' @ model r) None, [])
             else if flow = js ''chatgpt-to-gemini''
             then handleChatGPTToGemini w (messages r) (actual_model modelConfig) (files r)
             else if flow = js ''perplexity-to-gemini''
             then handlePerplexityToGemini w (messages r) (actual_model modelConfig) (files r)
             else if flow = js ''perplexity-chatgpt-gemini''
             then handlePerplexityChatGPTToGemini w (messages r) (actual_model modelConfig) (files r)
             else handleGoogle w (messages r) (actual_model modelConfig) (files r))"

section \<open>The second route file: \<open>app/api/direct-chat/route.tsx\<close>\<close>

text \<open>
  Its functions carry the suffix \<open>_rt\<close> where the first route file has one of the same
  name. \<open>searchWithTavily\<close> gives \<open>null\<close> when the key is missing, when the status is
  not OK and when the call raises.
\<close>

definition searchWithTavily ::
  "world \<Rightarrow> event list \<Rightarrow> jstring
     \<Rightarrow> (jstring option \<times> search_result list option) option \<times> event list" where
  "searchWithTavily w log query =
     (if \<not> truthy (TAVILY_API_KEY w) then (None, log @ [Search_call query])
      else case tavily w (length log) query of
             Tavily_raises \<Rightarrow> (None, log @ [Search_call query])
           | Tavily_not_ok \<Rightarrow> (None, log @ [Search_call query])
           | Tavily_ok a rs \<Rightarrow> (Some (a, rs), log @ [Search_call query]))"

definition tavily_context :: "search_result list \<Rightarrow> jstring" where
  "tavily_context rs =
     join [LF, LF]
       (map (\<lambda>(index, r). digits (index + 1) @ tavily_item_1 @ title r @ tavily_item_2
                          @ snippet r @ tavily_item_3 @ url r)
          (enumerate 0 rs))"

definition tavily_prompt ::
  "jstring \<Rightarrow> (jstring option \<times> search_result list option) option \<Rightarrow> jstring" where
  "tavily_prompt userQuestion searchResults =
     (case searchResults of
        Some (a, Some rs) \<Rightarrow>
          if rs \<noteq> []
          then (if truthy a then tavily_answer_1 @ the a @ tavily_answer_2 else [])
               @ tavily_prompt_1 @ tavily_context rs @ tavily_prompt_2 @ userQuestion
               @ tavily_prompt_3 @ userQuestion @ tavily_prompt_4
          else userQuestion
      | _ \<Rightarrow> userQuestion)"

definition handleTavilyToGemini ::
  "world \<Rightarrow> message list \<Rightarrow> jstring option \<Rightarrow> attachment list \<Rightarrow> response \<times> event list" where
  "handleTavilyToGemini w ms mdl fs =
     (if \<not> truthy (GOOGLE_API_KEY w) \<or> \<not> getGenAI w
      then (json_error 500 (js ''Google API key not configured'') None, [])
      else if ms = []
      then (workflow_error type_error_content (js ''Failed to process Tavily-to-Gemini workflow''), [])
      else
        let userQuestion = userQuestion_of (last ms)
        in if trim userQuestion = []
           then (json_error 400 (js ''No question provided'') None, [])
           else
             case searchWithTavily w [] userQuestion of
               (searchResults, log1) \<Rightarrow>
                 let enhancedPrompt = tavily_prompt userQuestion searchResults;
                     contents = text_contents w (replace_last ms enhancedPrompt);
                     log2 = log1 @ [Answer_call mdl contents]
                 in case gemini w (length log1) mdl contents of
                      Gemini_raises e \<Rightarrow>
                        (workflow_error e (js ''Failed to process Tavily-to-Gemini workflow''), log2)
                    | Gemini_text t \<Rightarrow>
                        (\<lparr>status = 200,
                          body = Success \<lparr>answer = t,
                                   workflow_tag = Some (js ''tavily-to-gemini''),
                                   step_types = [js ''tavily_search'', js ''gemini_response''],
                                   prompts = None\<rparr>\<rparr>,
                         log2))"

definition handleGoogle_rt ::
  "world \<Rightarrow> message list \<Rightarrow> jstring option \<Rightarrow> attachment list \<Rightarrow> response \<times> event list" where
  "handleGoogle_rt w ms mdl fs =
     (if \<not> truthy (GOOGLE_API_KEY w) \<or> \<not> getGenAI w
      then (json_error 500 (js ''Google API key not configured'') None, [])
      else
        case uploadFilesToGeminiSDK w [] fs of
          (uploadedFiles, log1) \<Rightarrow>
            (case process_messages CONTENT_SYSTEM_rt w log1 ms fs uploadedFiles of
               (Inl e, log2) \<Rightarrow> (google_error e, log2)
             | (Inr (processedContents, ps), log2) \<Rightarrow>
                 (case gemini w (length log2) mdl processedContents of
                    Gemini_raises e \<Rightarrow>
                      (google_error e, log2 @ [Answer_call mdl processedContents])
                  | Gemini_text t \<Rightarrow>
                      (\<lparr>status = 200,
                        body = Success \<lparr>answer = t, workflow_tag = None,
                                 step_types = [], prompts = Some ps\<rparr>\<rparr>,
                       log2 @ [Answer_call mdl processedContents]))))"

definition POST_rt :: "world \<Rightarrow> request option \<Rightarrow> response \<times> event list" where
  "POST_rt w body_json =
     (case body_json of
        None \<Rightarrow> (json_error 500 (js ''Internal server error'') None, [])
      | Some r \<Rightarrow>
          let modelConfig = model_lookup (model r);
              flow = (case workflow r of None \<Rightarrow> js ''single'' | Some x \<Rightarrow> x)
          in if modelConfig = Undefined
             then (json_error 400 (js ''Unsupported model: '' @ model r) None, [])
             else if flow = js ''tavily-to-gemini''
             then handleTavilyToGemini w (messages r) (actual_model modelConfig) (files r)
             else handleGoogle_rt w (messages r) (actual_model modelConfig) (files r))"

section \<open>A sample world and sample requests\<close>

text \<open>
  A world with every key set, in which each provider succeeds with a fixed reply and the
  search finds nothing. The replies are lower-case ASCII, on which Unicode normalisation
  and lower-casing change nothing; the sample messages have string contents, so
  \<open>JSON.stringify\<close> is never called, and no sample result lacks a title, so neither is
  the URL parser. The worlds below change one provider each.
\<close>

definition sample_world :: world where
  "sample_world =
     \<lparr>GOOGLE_API_KEY = Some (js ''g-key''),
      OPENAI_API_KEY = Some (js ''o-key''),
      PERPLEXITY_API_KEY = Some (js ''p-key''),
      PERPLEXITY_MODEL = None,
      TAVILY_API_KEY = Some (js ''t-key''),
      openai = (\<lambda>t m ms. Openai_ok (Some (js ''rewritten''))),
      gemini = (\<lambda>t m cs. Gemini_text (js ''xin chao'')),
      gemini_upload = (\<lambda>t f. Upload_raises),
      perplexity = (\<lambda>t m ms. Perplexity_ok [] []),
      tavily = (\<lambda>t q. Tavily_ok None (Some [])),
      normalize_NFD = (\<lambda>s. s),
      toLowerCase = (\<lambda>s. s),
      JSON_stringify = (\<lambda>cs. js ''[]''),
      URL_hostname = (\<lambda>u. None)\<rparr>"

definition sample_request :: "jstring \<Rightarrow> jstring \<Rightarrow> request" where
  "sample_request flow question =
     \<lparr>messages = [\<lparr>role = js ''user'', content = Text_content question\<rparr>],
      model = js ''gemini-2.5-flash'',
      files = [],
      workflow = Some flow\<rparr>"

text \<open>Worlds in which one provider fails, or in which the search gives a summary only.\<close>

definition tavily_down_world :: world where
  "tavily_down_world = sample_world\<lparr>tavily := (\<lambda>t q. Tavily_not_ok)\<rparr>"

definition perplexity_down_world :: world where
  "perplexity_down_world =
     sample_world\<lparr>perplexity := (\<lambda>t m ms. Perplexity_not_ok None (js ''down''))\<rparr>"

definition openai_down_world :: world where
  "openai_down_world = sample_world\<lparr>openai := (\<lambda>t m ms. Openai_not_ok)\<rparr>"

definition gemini_down_world :: world where
  "gemini_down_world = sample_world\<lparr>gemini := (\<lambda>t m cs. Gemini_raises (js ''boom''))\<rparr>"

definition summary_only_world :: world where
  "summary_only_world =
     sample_world\<lparr>perplexity := (\<lambda>t m ms. Perplexity_ok (js ''SUMMARY'') []),
                  tavily := (\<lambda>t q. Tavily_ok (Some (js ''SUMMARY'')) (Some []))\<rparr>"

definition sample_results :: "search_result list" where
  "sample_results =
     map (\<lambda>n. \<lparr>title = js ''T'' @ digits n, url = js ''u/'' @ digits n, snippet = js ''c''\<rparr>)
       [1, 2, 3, 4, 5, 6, 7]"

text \<open>
  A world in which the search returns a summary and seven citation objects, one for each
  of the sample results.
\<close>

definition cited_world :: world where
  "cited_world =
     sample_world\<lparr>perplexity := (\<lambda>t m ms. Perplexity_ok (js ''SUMMARY'')
        (map (\<lambda>r. Cite_object (Some (title r)) None (Some (url r)) None
                     (Some (snippet r)) None None None)
           sample_results))\<rparr>"

text \<open>A conversation of three string messages, two of the user and one of the assistant.\<close>

definition sample_conversation :: request where
  "sample_conversation =
     \<lparr>messages = [\<lparr>role = js ''user'', content = Text_content (js ''a'')\<rparr>,
                  \<lparr>role = js ''assistant'', content = Text_content (js ''b'')\<rparr>,
                  \<lparr>role = js ''user'', content = Text_content (js ''hi'')\<rparr>],
      model = js ''gemini-2.5-flash'',
      files = [],
      workflow = None\<rparr>"


section \<open>Notions of the claims\<close>

text \<open>
  The string contents of a conversation in order, and the user texts of the rewrite
  calls of a log in order.
\<close>

definition string_contents :: "message list \<Rightarrow> jstring list" where
  "string_contents ms =
     concat (map (\<lambda>m. case content m of Text_content s \<Rightarrow> [s] | Parts_content cs \<Rightarrow> []) ms)"

fun rewrite_input :: "event \<Rightarrow> jstring option" where
  "rewrite_input (Rewrite_call chat) = (if chat = [] then None else Some (snd (last chat)))"
| "rewrite_input e = None"

fun rewrite_inputs :: "event list \<Rightarrow> jstring list" where
  "rewrite_inputs [] = []"
| "rewrite_inputs (e # es) =
     (case rewrite_input e of None \<Rightarrow> rewrite_inputs es | Some s \<Rightarrow> s # rewrite_inputs es)"

text \<open>
  What \<open>handleGoogle\<close> runs for a conversation: one rewrite for each string content,
  then the answer.
\<close>

definition direct_stages :: "message list \<Rightarrow> stage list" where
  "direct_stages ms = replicate (length (string_contents ms)) REWRITE @ [ANSWER]"

text \<open>The stage that a \<open>type\<close> of the step trace names, and the stages a response reports.\<close>

definition step_stage :: "jstring \<Rightarrow> stage option" where
  "step_stage t =
     (if t = js ''perplexity_search'' \<or> t = js ''tavily_search'' then Some SEARCH
      else if t = js ''chatgpt_prompt_generation'' \<or> t = js ''chatgpt_refinement'' then Some REWRITE
      else if t = js ''gemini_response'' then Some ANSWER
      else None)"

fun types_stages :: "jstring list \<Rightarrow> stage list" where
  "types_stages [] = []"
| "types_stages (t # ts) =
     (case step_stage t of None \<Rightarrow> types_stages ts | Some s \<Rightarrow> s # types_stages ts)"

definition reported_stages :: "response \<Rightarrow> stage list" where
  "reported_stages resp =
     (case body resp of Failure e t \<Rightarrow> [] | Success s \<Rightarrow> types_stages (step_types s))"

text \<open>
  A reply of the rewrite provider that counts as a failed upstream call: a status that
  is not OK, or no content in the reply.
\<close>

definition rewrite_reply_failed :: "openai_reply \<Rightarrow> bool" where
  "rewrite_reply_failed rp =
     (rp = Openai_not_ok \<or> rp = Openai_ok None \<or> rp = Openai_ok (Some []))"

text \<open>The three workflows that the first route file names.\<close>

definition named_workflows :: "jstring list" where
  "named_workflows =
     [js ''chatgpt-to-gemini'', js ''perplexity-to-gemini'', js ''perplexity-chatgpt-gemini'']"

text \<open>
  The text that Gemini returned to the last call of a log, when that call is an answer
  call and Gemini returned a text. The call was made at the time given by the length of
  the log before it.
\<close>

definition gemini_text_of :: "world \<Rightarrow> event list \<Rightarrow> jstring option" where
  "gemini_text_of w log =
     (if log = [] then None
      else case last log of
             Upload_call f \<Rightarrow> None
           | Search_call q \<Rightarrow> None
           | Rewrite_call chat \<Rightarrow> None
           | Answer_call m cs \<Rightarrow>
               (case gemini w (length log - 1) m cs of
                  Gemini_raises e \<Rightarrow> None
                | Gemini_text t \<Rightarrow> Some t))"

text \<open>The answer text of a response, if it is a success.\<close>

definition answer_of :: "response \<Rightarrow> jstring option" where
  "answer_of resp = (case body resp of Failure e t \<Rightarrow> None | Success s \<Rightarrow> Some (answer s))"

section \<open>Properties of the sanitizer\<close>

lemma replace_all_no_match:
  assumes "\<And>p t. suffix t s \<Longrightarrow> m p t = None"
  shows "replace_all m prev s = s"
  using assms
proof (induction s arbitrary: prev)
  case Nil
  have "m prev [] = None" using Nil by simp
  then show ?case by simp
next
  case (Cons c cs)
  have here: "m prev (c # cs) = None" using Cons.prems by simp
  have "\<And>p t. suffix t cs \<Longrightarrow> m p t = None"
    using Cons.prems by (simp add: suffix_Cons)
  then have "replace_all m (Some c) cs = cs" by (rule Cons.IH)
  with here show ?case by simp
qed

lemma suffix_set: "suffix t s \<Longrightarrow> set t \<subseteq> set s"
  by (auto simp: suffix_def)

lemma delimited_no_trigger: "x \<notin> set t \<Longrightarrow> delimited (x # d) p t = None"
  by (cases t) (auto simp: delimited_def)

lemma markdown_link_no_trigger: "lbracket \<notin> set t \<Longrightarrow> markdown_link p t = None"
  by (cases t) (auto simp: markdown_link_def)

lemma heading_marker_no_line_marker:
  "\<not> has_line_marker prev s \<Longrightarrow> replace_all heading_marker prev s = s"
proof (induction s arbitrary: prev)
  case Nil
  show ?case by (simp add: heading_marker_def)
next
  case (Cons c cs)
  then have here: "heading_marker prev (c # cs) = None"
    by (auto simp: heading_marker_def line_marker_def Let_def)
  have "replace_all heading_marker (Some c) cs = cs" using Cons by simp
  with here show ?case by simp
qed

lemma list_marker_no_line_marker:
  "\<not> has_line_marker prev s \<Longrightarrow> replace_all list_marker prev s = s"
proof (induction s arbitrary: prev)
  case Nil
  show ?case by (simp add: list_marker_def)
next
  case (Cons c cs)
  then have here: "list_marker prev (c # cs) = None"
    by (auto simp: list_marker_def line_marker_def)
  have "replace_all list_marker (Some c) cs = cs" using Cons by simp
  with here show ?case by simp
qed

lemma newline_run_None: "lf_run t < 3 \<Longrightarrow> newline_run p t = None"
  by (simp add: newline_run_def lf_run_def)

lemma collapse_short_runs: "short_runs s \<Longrightarrow> replace newline_run s = s"
  unfolding replace_def
  by (rule replace_all_no_match) (simp add: short_runs_def newline_run_None)

lemma lf_run_Cons: "lf_run (c # cs) = (if c = LF then Suc (lf_run cs) else 0)"
  by (simp add: lf_run_def)

lemma lf_run_dropWhile: "lf_run (dropWhile (\<lambda>c. c = LF) s) = 0"
  unfolding lf_run_def by (induction s) auto

lemma length_dropWhile_run: "length (dropWhile (\<lambda>c. c = LF) s) = length s - lf_run s"
  unfolding lf_run_def by (induction s) auto

lemma lf_run_le: "lf_run s \<le> length s"
  unfolding lf_run_def by (rule length_takeWhile_le)

lemma replace_newline_step:
  "replace_all newline_run prev (c # cs) =
     (if 3 \<le> lf_run (c # cs)
      then LF # LF # replace_all newline_run
             (Some (last (take (Suc (length cs) - length (dropWhile (\<lambda>c. c = LF) (c # cs))) (c # cs))))
             (dropWhile (\<lambda>c. c = LF) (c # cs))
      else c # replace_all newline_run (Some c) cs)"
proof (cases "3 \<le> lf_run (c # cs)")
  case True
  have "length (dropWhile (\<lambda>c. c = LF) (c # cs)) < Suc (length cs)"
    using True length_dropWhile_run[of "c # cs"] by simp
  with True show ?thesis
    by (simp add: newline_run_def lf_run_def del: dropWhile.simps takeWhile.simps)
next
  case False
  then show ?thesis by (simp add: newline_run_def lf_run_def)
qed

lemma collapse_run_and_short:
  "lf_run (replace_all newline_run prev s) = min 2 (lf_run s)
   \<and> short_runs (replace_all newline_run prev s)"
proof (induction "length s" arbitrary: s prev rule: less_induct)
  case less
  show ?case
  proof (cases s)
    case Nil
    then show ?thesis by (simp add: newline_run_def lf_run_def short_runs_def)
  next
    case (Cons c cs)
    show ?thesis
    proof (cases "3 \<le> lf_run (c # cs)")
      case True
      define rest where "rest = dropWhile (\<lambda>c. c = LF) (c # cs)"
      define p' where "p' = Some (last (take (Suc (length cs) - length rest) (c # cs)))"
      have len: "length rest < length s"
        using True length_dropWhile_run[of "c # cs"] Cons by (simp add: rest_def)
      have out: "replace_all newline_run prev s = LF # LF # replace_all newline_run p' rest"
        using True unfolding Cons replace_newline_step rest_def p'_def by simp
      have ih: "lf_run (replace_all newline_run p' rest) = min 2 (lf_run rest)"
        "short_runs (replace_all newline_run p' rest)"
        using less[OF len] by auto
      have r0: "lf_run rest = 0" unfolding rest_def by (rule lf_run_dropWhile)
      have run: "lf_run (replace_all newline_run prev s) = 2"
        using ih(1) r0 by (simp add: out lf_run_Cons)
      have "short_runs (replace_all newline_run prev s)"
        unfolding short_runs_def
      proof (intro allI impI)
        fix t assume "suffix t (replace_all newline_run prev s)"
        then consider "t = LF # LF # replace_all newline_run p' rest"
          | "t = LF # replace_all newline_run p' rest"
          | "suffix t (replace_all newline_run p' rest)"
          unfolding out by (auto simp: suffix_Cons)
        then show "lf_run t < 3"
        proof cases
          case 1 then show ?thesis using ih(1) r0 by (simp add: lf_run_Cons)
        next
          case 2 then show ?thesis using ih(1) r0 by (simp add: lf_run_Cons)
        next
          case 3 then show ?thesis using ih(2) by (simp add: short_runs_def)
        qed
      qed
      with run True Cons show ?thesis by simp
    next
      case False
      have out: "replace_all newline_run prev s = c # replace_all newline_run (Some c) cs"
        using False unfolding Cons replace_newline_step by simp
      have ih: "lf_run (replace_all newline_run (Some c) cs) = min 2 (lf_run cs)"
        "short_runs (replace_all newline_run (Some c) cs)"
        using less[of cs "Some c"] Cons by auto
      have run: "lf_run (replace_all newline_run prev s) = min 2 (lf_run s)"
        using False ih(1) by (subst out) (auto simp: Cons lf_run_Cons)
      have "short_runs (replace_all newline_run prev s)"
        unfolding short_runs_def
      proof (intro allI impI)
        fix t assume "suffix t (replace_all newline_run prev s)"
        then consider "t = replace_all newline_run prev s"
          | "suffix t (replace_all newline_run (Some c) cs)"
          unfolding out by (auto simp: suffix_Cons)
        then show "lf_run t < 3"
        proof cases
          case 1 then show ?thesis using run by simp
        next
          case 2 then show ?thesis using ih(2) by (simp add: short_runs_def)
        qed
      qed
      with run show ?thesis by simp
    qed
  qed
qed

lemma short_runs_suffix: "short_runs s \<Longrightarrow> suffix t s \<Longrightarrow> short_runs t"
  unfolding short_runs_def using suffix_order.order_trans by blast

lemma lf_run_append_le: "lf_run t \<le> lf_run (t @ b)"
  unfolding lf_run_def by (induction t) auto

lemma short_runs_prefix: "short_runs (a @ b) \<Longrightarrow> short_runs a"
  unfolding short_runs_def
proof (intro allI impI)
  fix t assume h: "\<forall>t. suffix t (a @ b) \<longrightarrow> lf_run t < 3" and t: "suffix t a"
  have "suffix (t @ b) (a @ b)" using t by (auto simp: suffix_def)
  then have "lf_run (t @ b) < 3" using h by blast
  then show "lf_run t < 3" using lf_run_append_le[of t b] by simp
qed

lemma trimEnd_split: "s = trimEnd s @ rev (takeWhile is_space (rev s))"
proof -
  have "rev s = takeWhile is_space (rev s) @ dropWhile is_space (rev s)" by simp
  then have "rev (rev s) = rev (takeWhile is_space (rev s) @ dropWhile is_space (rev s))"
    by simp
  then show ?thesis unfolding trimEnd_def by (simp del: takeWhile_dropWhile_id)
qed

lemma short_runs_trim: "short_runs s \<Longrightarrow> short_runs (trim s)"
proof -
  assume s: "short_runs s"
  have "suffix (trimStart s) s" unfolding trimStart_def by (rule suffix_dropWhile)
  then have a: "short_runs (trimStart s)" using s short_runs_suffix by blast
  have "short_runs (trimEnd (trimStart s) @ rev (takeWhile is_space (rev (trimStart s))))"
    using a trimEnd_split[of "trimStart s"] by simp
  then show ?thesis unfolding trim_def by (rule short_runs_prefix)
qed

lemma trimEnd_idem: "trimEnd (trimEnd s) = trimEnd s"
  by (simp add: trimEnd_def dropWhile_idem)

lemma trimEnd_Cons: "\<not> is_space c \<Longrightarrow> trimEnd (c # cs) = c # trimEnd cs"
  by (simp add: trimEnd_def dropWhile_append3)

lemma trimStart_trimEnd: "trimStart (trimEnd (trimStart s)) = trimEnd (trimStart s)"
proof (cases "trimStart s")
  case Nil
  show ?thesis unfolding Nil by (simp add: trimEnd_def trimStart_def)
next
  case (Cons c cs)
  then have "\<not> is_space c"
    unfolding trimStart_def by (metis hd_dropWhile list.distinct(1) list.sel(1))
  then show ?thesis using Cons by (simp add: trimEnd_Cons trimStart_def)
qed

lemma trim_idem: "trim (trim s) = trim s"
  by (simp add: trim_def trimStart_trimEnd trimEnd_idem)

lemma clean_fixed:
  assumes "markup_free s" and "short_runs s" and "trim s = s"
  shows "cleanText s = s"
proof -
  have nb: "replace (delimited [star, star]) s = s"
    unfolding replace_def
    by (rule replace_all_no_match, rule delimited_no_trigger)
       (use assms(1) suffix_set in \<open>auto simp: markup_free_def\<close>)
  have ni: "replace (delimited [star]) s = s"
    unfolding replace_def
    by (rule replace_all_no_match, rule delimited_no_trigger)
       (use assms(1) suffix_set in \<open>auto simp: markup_free_def\<close>)
  have nc: "replace (delimited [backtick]) s = s"
    unfolding replace_def
    by (rule replace_all_no_match, rule delimited_no_trigger)
       (use assms(1) suffix_set in \<open>auto simp: markup_free_def\<close>)
  have nh: "replace heading_marker s = s"
    unfolding replace_def
    by (rule heading_marker_no_line_marker) (use assms(1) in \<open>simp add: markup_free_def\<close>)
  have nl: "replace markdown_link s = s"
    unfolding replace_def
    by (rule replace_all_no_match, rule markdown_link_no_trigger)
       (use assms(1) suffix_set in \<open>auto simp: markup_free_def\<close>)
  have nm: "replace list_marker s = s"
    unfolding replace_def
    by (rule list_marker_no_line_marker) (use assms(1) in \<open>simp add: markup_free_def\<close>)
  have nn: "replace newline_run s = s" using assms(2) by (rule collapse_short_runs)
  show ?thesis unfolding cleanText_def by (simp add: nb ni nc nh nl nm nn assms(3))
qed


section \<open>The calls of the handlers\<close>

lemma stages_append: "stages (a @ b) = stages a @ stages b"
  by (induction a) (auto split: option.splits)

lemma rewrite_inputs_append: "rewrite_inputs (a @ b) = rewrite_inputs a @ rewrite_inputs b"
  by (induction a) (auto split: option.splits)

lemma convert_prompt_log:
  "snd (convert_prompt sp w log t) =
     log @ [Rewrite_call [(js ''system'',
               replace_first ([0x7B] @ js ''user_question'' @ [0x7D]) (trim t) sp),
             (js ''user'', t)]]"
  by (simp add: convert_prompt_def Let_def split: openai_reply.splits)

lemma upload_loop_stages:
  "stages (snd (upload_loop w log fs acc)) = stages log
   \<and> rewrite_inputs (snd (upload_loop w log fs acc)) = rewrite_inputs log"
  by (induction fs arbitrary: log acc)
     (auto simp: stages_append rewrite_inputs_append
        split: upload_reply.splits)

lemma uploadFiles_stages:
  "uploadFilesToGeminiSDK w [] fs = (ufs, log) \<Longrightarrow> stages log = [] \<and> rewrite_inputs log = []"
  using upload_loop_stages[of w "[]" fs "[]"]
  by (auto simp: uploadFilesToGeminiSDK_def split: if_splits)

lemma process_loop_ok:
  "process_loop sp w log ms cs ps = (Inr (cs', ps'), log') \<Longrightarrow>
     stages log' = stages log @ replicate (length (string_contents ms)) REWRITE
     \<and> rewrite_inputs log' = rewrite_inputs log @ string_contents ms
     \<and> map fst ps' = map fst ps @ string_contents ms"
proof (induction ms arbitrary: log cs ps)
  case Nil
  then show ?case by (simp add: string_contents_def)
next
  case (Cons m ms)
  show ?case
  proof (cases "content m")
    case (Text_content s)
    obtain r l1 where c: "convert_prompt sp w log s = (r, l1)" by force
    have l1: "l1 = log @ [Rewrite_call [(js ''system'',
               replace_first ([0x7B] @ js ''user_question'' @ [0x7D]) (trim s) sp),
             (js ''user'', s)]]"
      using convert_prompt_log[of sp w log s] c by simp
    from Cons.prems Text_content c obtain t where r: "r = Inr t"
      and rec: "process_loop sp w l1 ms (cs @ [(gemini_role (role m), [Text_part (Some t)])])
                  (ps @ [(s, t)]) = (Inr (cs', ps'), log')"
      by (cases r) auto
    have sc: "string_contents (m # ms) = s # string_contents ms"
      using Text_content by (simp add: string_contents_def)
    from Cons.IH[OF rec] show ?thesis
      by (simp add: sc l1 stages_append rewrite_inputs_append
          replicate_append_same[symmetric])
  next
    case (Parts_content parts)
    have sc: "string_contents (m # ms) = string_contents ms"
      using Parts_content by (simp add: string_contents_def)
    from Cons.prems Parts_content
    have rec: "process_loop sp w log ms
                 (if array_parts parts \<noteq> [] then cs @ [(gemini_role (role m), array_parts parts)] else cs)
                 ps = (Inr (cs', ps'), log')"
      by simp
    from Cons.IH[OF rec] show ?thesis by (simp add: sc)
  qed
qed

lemma process_messages_ok:
  "process_messages sp w log ms fs ufs = (Inr (cs', ps'), log') \<Longrightarrow>
     stages log' = stages log @ replicate (length (string_contents ms)) REWRITE
     \<and> rewrite_inputs log' = rewrite_inputs log @ string_contents ms
     \<and> map fst ps' = string_contents ms"
  using process_loop_ok[of sp w log ms "[]" "[]"]
  by (auto simp: process_messages_def split: prod.splits sum.splits)

lemma handleGoogle_ok:
  assumes "handleGoogle w ms mdl fs = (resp, log)" and "status resp = 200"
  shows "stages log = replicate (length (string_contents ms)) REWRITE @ [ANSWER]
         \<and> rewrite_inputs log = string_contents ms
         \<and> (\<exists>s ps. body resp = Success s \<and> prompts s = Some ps \<and> map fst ps = string_contents ms
               \<and> step_types s = [] \<and> workflow_tag s = None)"
proof -
  obtain ufs log1 where u: "uploadFilesToGeminiSDK w [] fs = (ufs, log1)" by force
  have l1: "stages log1 = []" "rewrite_inputs log1 = []" using uploadFiles_stages[OF u] by auto
  obtain r log2 where p: "process_messages CONTENT_SYSTEM w log1 ms fs ufs = (r, log2)" by force
  show ?thesis
  proof (cases r)
    case (Inl e)
    with assms u p show ?thesis
      by (auto simp: handleGoogle_def processMessagesForGoogleSDK_def google_error_def json_error_def
          split: if_splits)
  next
    case (Inr v)
    obtain cs ps where v: "v = (cs, ps)" by force
    have l2: "stages log2 = replicate (length (string_contents ms)) REWRITE"
      "rewrite_inputs log2 = string_contents ms" "map fst ps = string_contents ms"
      using process_messages_ok[of CONTENT_SYSTEM w log1 ms fs ufs cs ps log2] p Inr v l1 by auto
    from assms u p Inr v show ?thesis
      by (auto simp: handleGoogle_def processMessagesForGoogleSDK_def google_error_def json_error_def
          Let_def l2 stages_append rewrite_inputs_append
         
          split: if_splits gemini_reply.splits)
  qed
qed


lemma handleChatGPTToGemini_ok:
  assumes "handleChatGPTToGemini w ms mdl fs = (resp, log)" and "status resp = 200"
  shows "stages log = [REWRITE, ANSWER]
         \<and> (\<exists>s. body resp = Success s
               \<and> step_types s = [js ''chatgpt_prompt_generation'', js ''gemini_response''])"
  using assms convert_prompt_log[of CONTENT_SYSTEM w "[]" "userQuestion_of (last ms)"]
  by (auto simp: handleChatGPTToGemini_def convertToPromptChatGPT_def json_error_def
      workflow_error_def Let_def
      split: if_splits prod.splits sum.splits gemini_reply.splits)

lemma search_log:
  "snd (searchWithPerplexityStyle w log q) = log @ [Search_call q]"
  by (auto simp: searchWithPerplexityStyle_def split: prod.splits option.splits perplexity_reply.splits)

lemma handlePerplexityToGemini_ok:
  assumes "handlePerplexityToGemini w ms mdl fs = (resp, log)" and "status resp = 200"
  shows "stages log = [SEARCH, ANSWER]
         \<and> (\<exists>s. body resp = Success s
               \<and> step_types s = [js ''perplexity_search'', js ''gemini_response''])"
  using assms search_log[of w "[]" "userQuestion_of (last ms)"]
  by (auto simp: handlePerplexityToGemini_def json_error_def search_failed_def
      workflow_error_def Let_def
      split: if_splits prod.splits sum.splits gemini_reply.splits)

lemma handlePerplexityChatGPTToGemini_ok:
  assumes "handlePerplexityChatGPTToGemini w ms mdl fs = (resp, log)" and "status resp = 200"
  shows "stages log = [SEARCH, REWRITE, ANSWER]
         \<and> (\<exists>s. body resp = Success s
               \<and> step_types s = [js ''perplexity_search'', js ''chatgpt_refinement'',
                                   js ''gemini_response''])"
  using assms search_log[of w "[]" "userQuestion_of (last ms)"]
  by (auto simp: handlePerplexityChatGPTToGemini_def json_error_def search_failed_def
      workflow_error_def Let_def
      split: if_splits prod.splits sum.splits gemini_reply.splits openai_reply.splits)

lemma tavily_log: "snd (searchWithTavily w log q) = log @ [Search_call q]"
  by (auto simp: searchWithTavily_def split: tavily_reply.splits)

lemma handleTavilyToGemini_ok:
  assumes "handleTavilyToGemini w ms mdl fs = (resp, log)" and "status resp = 200"
  shows "stages log = [SEARCH, ANSWER]
         \<and> (\<exists>s. body resp = Success s
               \<and> step_types s = [js ''tavily_search'', js ''gemini_response''])"
  using assms tavily_log[of w "[]" "userQuestion_of (last ms)"]
  by (auto simp: handleTavilyToGemini_def json_error_def
      workflow_error_def Let_def
      split: if_splits prod.splits gemini_reply.splits)

lemma handleGoogle_rt_ok:
  assumes "handleGoogle_rt w ms mdl fs = (resp, log)" and "status resp = 200"
  shows "stages log = replicate (length (string_contents ms)) REWRITE @ [ANSWER]
         \<and> rewrite_inputs log = string_contents ms
         \<and> (\<exists>s ps. body resp = Success s \<and> prompts s = Some ps \<and> map fst ps = string_contents ms
               \<and> step_types s = [] \<and> workflow_tag s = None)"
proof -
  obtain ufs log1 where u: "uploadFilesToGeminiSDK w [] fs = (ufs, log1)" by force
  have l1: "stages log1 = []" "rewrite_inputs log1 = []" using uploadFiles_stages[OF u] by auto
  obtain r log2 where p: "process_messages CONTENT_SYSTEM_rt w log1 ms fs ufs = (r, log2)" by force
  show ?thesis
  proof (cases r)
    case (Inl e)
    with assms u p show ?thesis
      by (auto simp: handleGoogle_rt_def google_error_def json_error_def split: if_splits)
  next
    case (Inr v)
    obtain cs ps where v: "v = (cs, ps)" by force
    have l2: "stages log2 = replicate (length (string_contents ms)) REWRITE"
      "rewrite_inputs log2 = string_contents ms" "map fst ps = string_contents ms"
      using process_messages_ok[of CONTENT_SYSTEM_rt w log1 ms fs ufs cs ps log2] p Inr v l1 by auto
    from assms u p Inr v show ?thesis
      by (auto simp: handleGoogle_rt_def google_error_def json_error_def
          Let_def l2 stages_append rewrite_inputs_append
          split: if_splits gemini_reply.splits)
  qed
qed


section \<open>Facts of the sample world\<close>

lemma sample_model:
  "model_lookup (js ''gemini-2.5-flash'') = Config (js ''google'') (js ''gemini-2.5-flash'')"
  by code_simp

lemma sample_keys:
  "truthy (GOOGLE_API_KEY sample_world)" "truthy (OPENAI_API_KEY sample_world)"
  "truthy (TAVILY_API_KEY sample_world)" "getGenAI sample_world"
  by code_simp+

lemma sample_perplexity_config:
  "getPerplexityConfig sample_world = (Some (js ''p-key''), js ''sonar-pro'')"
  by code_simp

lemma sample_question: "trim (js ''hi'') = js ''hi''" "js ''hi'' \<noteq> []"
  by code_simp+

lemma workflow_names:
  "js ''single'' \<noteq> js ''chatgpt-to-gemini''"
  "js ''single'' \<noteq> js ''perplexity-to-gemini''"
  "js ''single'' \<noteq> js ''perplexity-chatgpt-gemini''"
  "js ''single'' \<noteq> js ''tavily-to-gemini''"
  "js ''perplexity-chatgpt-gemini'' \<noteq> js ''chatgpt-to-gemini''"
  "js ''perplexity-chatgpt-gemini'' \<noteq> js ''perplexity-to-gemini''"
  "js ''perplexity-to-gemini'' \<noteq> js ''chatgpt-to-gemini''"
  by code_simp+

lemma sample_oracles:
  "openai sample_world = (\<lambda>t m ms. Openai_ok (Some (js ''rewritten'')))"
  "gemini sample_world = (\<lambda>t m cs. Gemini_text (js ''xin chao''))"
  "perplexity sample_world = (\<lambda>t m ms. Perplexity_ok [] [])"
  "tavily sample_world = (\<lambda>t q. Tavily_ok None (Some []))"
  "gemini_upload sample_world = (\<lambda>t f. Upload_raises)"
  by (simp_all add: sample_world_def)


lemma step_types_stages:
  "step_stage (js ''chatgpt_prompt_generation'') = Some REWRITE"
  "step_stage (js ''chatgpt_refinement'') = Some REWRITE"
  "step_stage (js ''perplexity_search'') = Some SEARCH"
  "step_stage (js ''tavily_search'') = Some SEARCH"
  "step_stage (js ''gemini_response'') = Some ANSWER"
  by code_simp+

lemma POST_dispatch:
  "model_lookup (model r) \<noteq> Undefined \<Longrightarrow>
   POST w (Some r) =
     (if workflow r = Some (js ''chatgpt-to-gemini'')
      then handleChatGPTToGemini w (messages r) (actual_model (model_lookup (model r))) (files r)
      else if workflow r = Some (js ''perplexity-to-gemini'')
      then handlePerplexityToGemini w (messages r) (actual_model (model_lookup (model r))) (files r)
      else if workflow r = Some (js ''perplexity-chatgpt-gemini'')
      then handlePerplexityChatGPTToGemini w (messages r) (actual_model (model_lookup (model r))) (files r)
      else handleGoogle w (messages r) (actual_model (model_lookup (model r))) (files r))"
  by (cases "workflow r") (auto simp: POST_def Let_def workflow_names)

lemma POST_rt_dispatch:
  "model_lookup (model r) \<noteq> Undefined \<Longrightarrow>
   POST_rt w (Some r) =
     (if workflow r = Some (js ''tavily-to-gemini'')
      then handleTavilyToGemini w (messages r) (actual_model (model_lookup (model r))) (files r)
      else handleGoogle_rt w (messages r) (actual_model (model_lookup (model r))) (files r))"
  by (cases "workflow r") (auto simp: POST_rt_def Let_def workflow_names)

lemma POST_unsupported:
  "model_lookup (model r) = Undefined \<Longrightarrow>
   POST w (Some r) = (json_error 400 (js ''Unsupported model: '' @ model r) None, [])
   \<and> POST_rt w (Some r) = (json_error 400 (js ''Unsupported model: '' @ model r) None, [])"
  by (simp add: POST_def POST_rt_def Let_def)


lemma model_lookup_Undefined:
  "model_lookup m = Undefined \<longleftrightarrow> m \<notin> fst ` set MODEL_MAPPING \<and> m \<notin> set object_prototype_keys"
proof (cases "map_of MODEL_MAPPING m")
  case None
  then have "m \<notin> fst ` set MODEL_MAPPING" by (simp add: map_of_eq_None_iff)
  with None show ?thesis by (simp add: model_lookup_def)
next
  case (Some v)
  then have "m \<in> fst ` set MODEL_MAPPING" by (meson domI domIff map_of_eq_None_iff)
  with Some show ?thesis by (cases v) (simp add: model_lookup_def)
qed

lemma sample_unknown_model:
  "js ''gpt-5'' \<notin> fst ` set MODEL_MAPPING" "js ''gpt-5'' \<notin> set object_prototype_keys"
  by code_simp+

lemma sample_unknown_workflow:
  "js ''no-such-workflow'' \<noteq> js ''chatgpt-to-gemini''"
  "js ''no-such-workflow'' \<noteq> js ''perplexity-to-gemini''"
  "js ''no-such-workflow'' \<noteq> js ''perplexity-chatgpt-gemini''"
  by code_simp+

lemma blank_question: "trim (js '' '') = []"
  by code_simp





lemma other_worlds_keys:
  "truthy (GOOGLE_API_KEY tavily_down_world)" "getGenAI tavily_down_world"
  "truthy (TAVILY_API_KEY tavily_down_world)"
  "truthy (GOOGLE_API_KEY perplexity_down_world)" "getGenAI perplexity_down_world"
  "truthy (GOOGLE_API_KEY openai_down_world)" "getGenAI openai_down_world"
  "truthy (OPENAI_API_KEY openai_down_world)"
  "truthy (GOOGLE_API_KEY summary_only_world)" "getGenAI summary_only_world"
  "truthy (OPENAI_API_KEY summary_only_world)" "truthy (TAVILY_API_KEY summary_only_world)"
  by code_simp+

lemma other_worlds_perplexity_config:
  "getPerplexityConfig perplexity_down_world = (Some (js ''p-key''), js ''sonar-pro'')"
  "getPerplexityConfig openai_down_world = (Some (js ''p-key''), js ''sonar-pro'')"
  "getPerplexityConfig summary_only_world = (Some (js ''p-key''), js ''sonar-pro'')"
  by code_simp+

lemma other_worlds_oracles:
  "tavily tavily_down_world = (\<lambda>t q. Tavily_not_ok)"
  "gemini tavily_down_world = (\<lambda>t m cs. Gemini_text (js ''xin chao''))"
  "perplexity perplexity_down_world = (\<lambda>t m ms. Perplexity_not_ok None (js ''down''))"
  "openai openai_down_world = (\<lambda>t m ms. Openai_not_ok)"
  "gemini openai_down_world = (\<lambda>t m cs. Gemini_text (js ''xin chao''))"
  "perplexity openai_down_world = (\<lambda>t m ms. Perplexity_ok [] [])"
  "perplexity summary_only_world = (\<lambda>t m ms. Perplexity_ok (js ''SUMMARY'') [])"
  "tavily summary_only_world = (\<lambda>t q. Tavily_ok (Some (js ''SUMMARY'')) (Some []))"
  "gemini summary_only_world = (\<lambda>t m cs. Gemini_text (js ''xin chao''))"
  "openai summary_only_world = (\<lambda>t m ms. Openai_ok (Some (js ''rewritten'')))"
  by (simp_all add: tavily_down_world_def perplexity_down_world_def openai_down_world_def
      summary_only_world_def sample_world_def)

lemma sample_texts: "js ''down'' \<noteq> []" "trim (js ''SUMMARY'') = js ''SUMMARY''" "js ''SUMMARY'' \<noteq> []"
  by code_simp+


lemma convert_prompt_degraded:
  "rewrite_reply_failed (openai w (length log) (js ''gpt-4o-mini'')
       [(js ''system'', replace_first ([0x7B] @ js ''user_question'' @ [0x7D]) (trim t) sp),
        (js ''user'', t)]) \<Longrightarrow>
   fst (convert_prompt sp w log t) = Inr t"
  by (auto simp: convert_prompt_def rewrite_reply_failed_def or_else_def Let_def)

lemma convert_prompt_returns:
  assumes "\<And>t m c e. openai w t m c \<noteq> Openai_raises e"
  shows "\<exists>t'. fst (convert_prompt sp w log t) = Inr t'"
proof -
  let ?chat = "[(js ''system'', replace_first ([0x7B] @ js ''user_question'' @ [0x7D]) (trim t) sp),
        (js ''user'', t)]"
  show ?thesis
  proof (cases "openai w (length log) (js ''gpt-4o-mini'') ?chat")
    case (Openai_raises e)
    with assms show ?thesis by blast
  next
    case Openai_not_ok
    then show ?thesis by (simp add: convert_prompt_def Let_def)
  next
    case (Openai_ok c)
    then show ?thesis by (simp add: convert_prompt_def Let_def)
  qed
qed

lemma process_loop_returns:
  assumes "\<And>t m c e. openai w t m c \<noteq> Openai_raises e"
  shows "\<exists>cs' ps' log'. process_loop sp w log ms cs ps = (Inr (cs', ps'), log')"
proof (induction ms arbitrary: log cs ps)
  case Nil
  show ?case by simp
next
  case (Cons m ms)
  show ?case
  proof (cases "content m")
    case (Text_content s)
    obtain r l1 where c: "convert_prompt sp w log s = (r, l1)" by force
    obtain t' where "fst (convert_prompt sp w log s) = Inr t'"
      using convert_prompt_returns[OF assms] by blast
    with c have r: "r = Inr t'" by simp
    show ?thesis using Cons.IH Text_content c r by simp
  next
    case (Parts_content parts)
    show ?thesis using Cons.IH Parts_content by simp
  qed
qed

lemma handleGoogle_calls:
  assumes "truthy (GOOGLE_API_KEY w)" and "\<And>t m c e. openai w t m c \<noteq> Openai_raises e"
  shows "stages (snd (handleGoogle w ms mdl fs)) = direct_stages ms
         \<and> rewrite_inputs (snd (handleGoogle w ms mdl fs)) = string_contents ms"
proof -
  obtain ufs log1 where u: "uploadFilesToGeminiSDK w [] fs = (ufs, log1)" by force
  have l1: "stages log1 = []" "rewrite_inputs log1 = []" using uploadFiles_stages[OF u] by auto
  obtain cs0 ps0 log2 where pl: "process_loop CONTENT_SYSTEM w log1 ms [] [] = (Inr (cs0, ps0), log2)"
    using process_loop_returns[OF assms(2), of CONTENT_SYSTEM log1 ms "[]" "[]"] by blast
  have l2: "stages log2 = replicate (length (string_contents ms)) REWRITE"
    "rewrite_inputs log2 = string_contents ms"
    using process_loop_ok[OF pl] l1 by auto
  show ?thesis
    using assms(1) u pl
    by (auto simp: handleGoogle_def getGenAI_def processMessagesForGoogleSDK_def
        process_messages_def Let_def stages_append rewrite_inputs_append l2 direct_stages_def
        split: gemini_reply.splits)
qed

lemma handleGoogle_degraded:
  assumes "truthy (GOOGLE_API_KEY w)" and "\<And>t m c. rewrite_reply_failed (openai w t m c)"
  shows "stages (snd (handleGoogle w ms mdl fs)) = direct_stages ms"
proof -
  have "\<And>t m c e. openai w t m c \<noteq> Openai_raises e"
  proof
    fix t m c e assume "openai w t m c = Openai_raises e"
    with assms(2)[of t m c] show False by (simp add: rewrite_reply_failed_def)
  qed
  with assms(1) show ?thesis using handleGoogle_calls by blast
qed

lemma sample_failed_message: "js ''Failed to get response from ChatGPT'' \<noteq> []"
  by code_simp


lemma digits_nonempty: "digits n \<noteq> []"
  by (subst digits.simps) simp

lemma join_suffix_last: "suffix y (join sep (xs @ [y]))"
proof (induction xs)
  case Nil
  show ?case by simp
next
  case (Cons x xs)
  obtain z zs where e: "xs @ [y] = z # zs" by (cases "xs @ [y]") auto
  have "suffix (join sep (xs @ [y])) (join sep (x # xs @ [y]))"
    unfolding e by (simp add: suffix_def)
  with Cons show ?case using suffix_order.order_trans by fastforce
qed

lemma join_nonempty: "x \<noteq> [] \<Longrightarrow> join sep (x # xs) \<noteq> []"
  by (cases xs) auto

lemma join_member_sublist: "x \<in> set xs \<Longrightarrow> sublist x (join sep xs)"
proof (induction sep xs rule: join.induct)
  case (1 sep)
  then show ?case by simp
next
  case (2 sep y)
  then show ?case by simp
next
  case (3 sep a b ys)
  show ?case
  proof (cases "x = a")
    case True
    then show ?thesis by simp
  next
    case False
    with 3 have "sublist x (join sep (b # ys))" by simp
    then have "sublist x ((a @ sep) @ join sep (b # ys))"
      using sublist_append by blast
    then show ?thesis by simp
  qed
qed

lemma reference_lines_length:
  "length (reference_lines w rs) = min (length rs) MAX_REFERENCES"
  by (simp add: reference_lines_def min.commute)

lemma reference_lines_nth:
  "i < length (reference_lines w rs) \<Longrightarrow> reference_lines w rs ! i = reference_line w i (rs ! i)"
  by (simp add: reference_lines_def nth_enumerate_eq)

lemma reference_line_numbered: "prefix (digits (i + 1) @ js ''. '') (reference_line w i r)"
  by (simp add: reference_line_def Let_def prefix_def)

lemma reference_line_nonempty: "reference_line w i r \<noteq> []"
  by (simp add: reference_line_def Let_def digits_nonempty)

lemma referencesText_nonempty: "rs \<noteq> [] \<Longrightarrow> referencesText w rs \<noteq> []"
proof -
  assume n: "rs \<noteq> []"
  then obtain r rest where rs: "rs = r # rest" by (cases rs) auto
  have "reference_lines w rs = reference_line w 0 r # tl (reference_lines w rs)"
    by (simp add: reference_lines_def rs MAX_REFERENCES_def enumerate_simps)
  then have "join [LF] (reference_lines w rs) \<noteq> []"
    using join_nonempty[OF reference_line_nonempty] by metis
  with n show ?thesis by (simp add: referencesText_def)
qed

lemma with_references_suffix:
  "refs \<noteq> [] \<Longrightarrow> suffix (sources_heading @ refs) (with_references w t refs)"
  using join_suffix_last[of "sources_heading @ refs" "[LF, LF]"
      "if stripReferenceSection w (cleanText t) \<noteq> [] then [stripReferenceSection w (cleanText t)] else []"]
  by (simp add: with_references_def Let_def)

lemma with_references_none:
  "with_references w t [] = stripReferenceSection w (cleanText t)"
  by (simp add: with_references_def Let_def)

lemma sample_results_facts:
  "length sample_results = 7" "sample_results \<noteq> []"
  "reference_line sample_world 4 (sample_results ! 4) = js ''5. T5 - u/5'' @ [LF] @ js ''c''"
  by code_simp+


lemma literal_nonempty: "sources_heading \<noteq> []" "sources_none \<noteq> []"
  by code_simp+

lemma sourcesSection_nonempty: "sourcesSection ufs \<noteq> []"
  by (simp add: sourcesSection_def Let_def literal_nonempty)

lemma sourcesSection_none: "sourcesSection [] = sources_none"
  by (simp add: sourcesSection_def)

lemma suffix_after_two: "suffix y (x @ a # b # y)"
  unfolding suffix_def by (rule exI[of _ "x @ [a, b]"]) simp

lemma handleGoogle_sources:
  assumes "handleGoogle w ms mdl fs = (resp, log)" and "status resp = 200"
  shows "\<exists>s. body resp = Success s
           \<and> suffix (sourcesSection (fst (uploadFilesToGeminiSDK w [] fs))) (answer s)"
proof -
  obtain ufs log1 where u: "uploadFilesToGeminiSDK w [] fs = (ufs, log1)" by force
  obtain r log2 where p: "processMessagesForGoogleSDK w log1 ms fs ufs = (r, log2)" by force
  show ?thesis
  proof (cases r)
    case (Inl e)
    with assms u p show ?thesis
      by (auto simp: handleGoogle_def google_error_def json_error_def split: if_splits)
  next
    case (Inr v)
    obtain cs ps where v: "v = (cs, ps)" by force
    from assms u p Inr v show ?thesis
      by (auto simp: handleGoogle_def google_error_def json_error_def Let_def suffix_after_two
          split: if_splits gemini_reply.splits)
  qed
qed

lemma sample_answer:
  "cleanText (js ''xin chao'') = js ''xin chao''"
  "stripReferenceSection sample_world (js ''xin chao'') = js ''xin chao''"
  "js ''xin chao'' \<noteq> []"
  by code_simp+


lemma sublist_trans_app: "sublist x y \<Longrightarrow> sublist x (a @ y)"
  using sublist_append by blast

lemma perplexity_prompt_has_summary:
  "searchAnswer \<noteq> [] \<Longrightarrow> sublist searchAnswer (perplexity_prompt w ms q searchAnswer rs)"
proof -
  assume n: "searchAnswer \<noteq> []"
  let ?sections = "[summary_heading @ searchAnswer]
        @ (if rs \<noteq> [] then [references_heading @ referencesText w rs] else [])"
  let ?part = "search_heading @ join [LF, LF] ?sections"
  have a: "sublist searchAnswer (summary_heading @ searchAnswer)" by simp
  have "sublist (summary_heading @ searchAnswer) (join [LF, LF] ?sections)"
    by (rule join_member_sublist) simp
  then have "sublist searchAnswer (join [LF, LF] ?sections)"
    using a sublist_order.order_trans by blast
  then have b: "sublist searchAnswer ?part" by (rule sublist_trans_app)
  have "sublist ?part (perplexity_prompt w ms q searchAnswer rs)"
    unfolding perplexity_prompt_def Let_def
    by (rule join_member_sublist) (use n in simp)
  with b show ?thesis using sublist_order.order_trans by blast
qed

lemma searchContext_has_summary:
  "searchAnswer \<noteq> [] \<Longrightarrow> sublist searchAnswer (searchContext w searchAnswer rs)"
proof -
  assume n: "searchAnswer \<noteq> []"
  let ?sections = "[js ''Summary:'' @ [LF] @ searchAnswer]
        @ (if rs \<noteq> [] then [js ''References:'' @ [LF] @ referencesText w rs] else [])"
  have a: "sublist searchAnswer (js ''Summary:'' @ [LF] @ searchAnswer)"
    using sublist_append_leftI[of searchAnswer "js ''Summary:'' @ [LF]"] by simp
  have m: "sublist (js ''Summary:'' @ [LF] @ searchAnswer) (join [LF, LF] ?sections)"
    by (rule join_member_sublist) simp
  then have s: "sublist searchAnswer (join [LF, LF] ?sections)"
    using a sublist_order.order_trans by blast
  have ne: "join [LF, LF] ?sections \<noteq> []"
    by (simp add: join_nonempty)
  show ?thesis using s ne n by (simp add: searchContext_def Let_def)
qed

lemma sample_roles: "js ''user'' \<noteq> js ''assistant''"
  by code_simp


lemma map_fst_length: "map fst ps = xs \<Longrightarrow> length ps = length xs"
  by auto


subsection \<open>The answer text of the Perplexity handlers\<close>

text \<open>
  A successful response of either Perplexity handler carries the text that Gemini
  returned to the last call, passed through \<open>with_references\<close> with the references of
  the results that the search returned.
\<close>

lemma handlePerplexityToGemini_answer:
  assumes "handlePerplexityToGemini w ms mdl fs = (resp, log)" and "status resp = 200"
  shows "\<exists>ans rs s t.
           fst (searchWithPerplexityStyle w [] (userQuestion_of (last ms))) = Inr (ans, rs)
           \<and> body resp = Success s
           \<and> gemini_text_of w log = Some t
           \<and> answer s = with_references w t (referencesText w rs)"
  using assms search_log[of w "[]" "userQuestion_of (last ms)"]
  by (auto simp: handlePerplexityToGemini_def json_error_def search_failed_def
      workflow_error_def Let_def gemini_text_of_def
      split: if_splits prod.splits sum.splits gemini_reply.splits)

lemma handlePerplexityChatGPTToGemini_answer:
  assumes "handlePerplexityChatGPTToGemini w ms mdl fs = (resp, log)" and "status resp = 200"
  shows "\<exists>ans rs s t.
           fst (searchWithPerplexityStyle w [] (userQuestion_of (last ms))) = Inr (ans, rs)
           \<and> body resp = Success s
           \<and> gemini_text_of w log = Some t
           \<and> answer s = with_references w t (referencesText w rs)"
  using assms search_log[of w "[]" "userQuestion_of (last ms)"]
  by (auto simp: handlePerplexityChatGPTToGemini_def json_error_def search_failed_def
      workflow_error_def Let_def gemini_text_of_def
      split: if_splits prod.splits sum.splits gemini_reply.splits openai_reply.splits)

lemma POST_perplexity_answer:
  assumes "workflow r = Some (js ''perplexity-to-gemini'')
           \<or> workflow r = Some (js ''perplexity-chatgpt-gemini'')"
    and "status (fst (POST w (Some r))) = 200"
  shows "\<exists>ans rs s t.
           fst (searchWithPerplexityStyle w [] (userQuestion_of (last (messages r)))) = Inr (ans, rs)
           \<and> body (fst (POST w (Some r))) = Success s
           \<and> gemini_text_of w (snd (POST w (Some r))) = Some t
           \<and> answer s = with_references w t (referencesText w rs)"
proof -
  have m: "model_lookup (model r) \<noteq> Undefined"
    using assms(2) POST_unsupported[of r w] by (auto simp: json_error_def)
  let ?mdl = "actual_model (model_lookup (model r))"
  from assms(1) show ?thesis
  proof
    assume f: "workflow r = Some (js ''perplexity-to-gemini'')"
    have p: "POST w (Some r) = handlePerplexityToGemini w (messages r) ?mdl (files r)"
      using POST_dispatch[OF m, of w] f by (simp add: workflow_names)
    obtain resp log where h: "handlePerplexityToGemini w (messages r) ?mdl (files r) = (resp, log)"
      by force
    show ?thesis
      using handlePerplexityToGemini_answer[OF h] assms(2) by (simp add: p h)
  next
    assume f: "workflow r = Some (js ''perplexity-chatgpt-gemini'')"
    have p: "POST w (Some r) = handlePerplexityChatGPTToGemini w (messages r) ?mdl (files r)"
      using POST_dispatch[OF m, of w] f by (simp add: workflow_names)
    obtain resp log where
      h: "handlePerplexityChatGPTToGemini w (messages r) ?mdl (files r) = (resp, log)"
      by force
    show ?thesis
      using handlePerplexityChatGPTToGemini_answer[OF h] assms(2) by (simp add: p h)
  qed
qed

text \<open>The direct handler of the second route file returns the text of Gemini as it is.\<close>

lemma handleGoogle_rt_answer:
  assumes "handleGoogle_rt w ms mdl fs = (resp, log)" and "status resp = 200"
  shows "\<exists>s t. body resp = Success s \<and> gemini_text_of w log = Some t \<and> answer s = t"
  using assms
  by (auto simp: handleGoogle_rt_def google_error_def json_error_def Let_def gemini_text_of_def
      split: if_splits prod.splits sum.splits gemini_reply.splits)

text \<open>What \<open>with_references\<close> gives for the references of a result list.\<close>

lemma references_end_answer:
  assumes "a = with_references w t (referencesText w rs)" and "rs \<noteq> []"
  shows "suffix (sources_heading @ join [LF] (reference_lines w rs)) a"
    and "suffix (sources_heading @ referencesText w rs) a"
proof -
  have t: "referencesText w rs = join [LF] (reference_lines w rs)"
    using assms(2) by (simp add: referencesText_def)
  show "suffix (sources_heading @ referencesText w rs) a"
    unfolding assms(1) using with_references_suffix[OF referencesText_nonempty[OF assms(2)]] .
  then show "suffix (sources_heading @ join [LF] (reference_lines w rs)) a"
    by (simp add: t)
qed

lemma no_references_answer:
  "a = with_references w t (referencesText w []) \<Longrightarrow> a = stripReferenceSection w (cleanText t)"
  by (simp add: referencesText_def with_references_none)

subsection \<open>The sample runs of the Perplexity handlers\<close>

lemma cited_collect:
  "collect_results 0
     (map (\<lambda>r. Cite_object (Some (title r)) None (Some (url r)) None
                  (Some (snippet r)) None None None) sample_results) [] []
   = sample_results"
  by code_simp

lemma cited_keys:
  "truthy (GOOGLE_API_KEY cited_world)" "getGenAI cited_world"
  "truthy (OPENAI_API_KEY cited_world)"
  by code_simp+

lemma cited_perplexity_config:
  "getPerplexityConfig cited_world = (Some (js ''p-key''), js ''sonar-pro'')"
  by code_simp

lemma cited_oracles:
  "perplexity cited_world = (\<lambda>t m ms. Perplexity_ok (js ''SUMMARY'')
        (map (\<lambda>r. Cite_object (Some (title r)) None (Some (url r)) None
                     (Some (snippet r)) None None None) sample_results))"
  "gemini cited_world = (\<lambda>t m cs. Gemini_text (js ''xin chao''))"
  "openai cited_world = (\<lambda>t m ms. Openai_ok (Some (js ''rewritten'')))"
  by (simp_all add: cited_world_def sample_world_def)

lemma cited_search:
  "searchWithPerplexityStyle cited_world [] (js ''hi'')
     = (Inr (js ''SUMMARY'', sample_results), [Search_call (js ''hi'')])"
  by (simp add: searchWithPerplexityStyle_def cited_perplexity_config cited_oracles
      cited_collect sample_texts)

lemma sample_search:
  "searchWithPerplexityStyle sample_world [] (js ''hi'')
     = (Inr ([], []), [Search_call (js ''hi'')])"
  by (simp add: searchWithPerplexityStyle_def sample_perplexity_config sample_oracles)

lemma sample_user_question:
  "userQuestion_of \<lparr>role = a, content = Text_content question\<rparr> = question"
  by (simp add: userQuestion_of_def)

lemma sample_request_fields:
  "workflow (sample_request flow question) = Some flow"
  "userQuestion_of (last (messages (sample_request flow question))) = question"
  by (simp_all add: sample_request_def userQuestion_of_def)

lemma cited_runs:
  "status (fst (handlePerplexityToGemini cited_world
       [\<lparr>role = js ''user'', content = Text_content (js ''hi'')\<rparr>] None [])) = 200"
  "gemini_text_of cited_world (snd (handlePerplexityToGemini cited_world
       [\<lparr>role = js ''user'', content = Text_content (js ''hi'')\<rparr>] None []))
     = Some (js ''xin chao'')"
  "status (fst (handlePerplexityChatGPTToGemini cited_world
       [\<lparr>role = js ''user'', content = Text_content (js ''hi'')\<rparr>] None [])) = 200"
  "gemini_text_of cited_world (snd (handlePerplexityChatGPTToGemini cited_world
       [\<lparr>role = js ''user'', content = Text_content (js ''hi'')\<rparr>] None []))
     = Some (js ''xin chao'')"
  "status (fst (POST cited_world
       (Some (sample_request (js ''perplexity-to-gemini'') (js ''hi''))))) = 200"
  "gemini_text_of cited_world (snd (POST cited_world
       (Some (sample_request (js ''perplexity-to-gemini'') (js ''hi'')))))
     = Some (js ''xin chao'')"
  by (simp_all add: POST_def sample_request_def sample_model workflow_names
      handlePerplexityToGemini_def handlePerplexityChatGPTToGemini_def
      cited_keys userQuestion_of_def sample_question cited_search cited_oracles Let_def
      gemini_text_of_def)

lemma sample_runs:
  "status (fst (handlePerplexityToGemini sample_world
       [\<lparr>role = js ''user'', content = Text_content (js ''hi'')\<rparr>] None [])) = 200"
  "gemini_text_of sample_world (snd (handlePerplexityToGemini sample_world
       [\<lparr>role = js ''user'', content = Text_content (js ''hi'')\<rparr>] None []))
     = Some (js ''xin chao'')"
  "status (fst (handlePerplexityChatGPTToGemini sample_world
       [\<lparr>role = js ''user'', content = Text_content (js ''hi'')\<rparr>] None [])) = 200"
  "gemini_text_of sample_world (snd (handlePerplexityChatGPTToGemini sample_world
       [\<lparr>role = js ''user'', content = Text_content (js ''hi'')\<rparr>] None []))
     = Some (js ''xin chao'')"
  "status (fst (POST sample_world
       (Some (sample_request (js ''perplexity-chatgpt-gemini'') (js ''hi''))))) = 200"
  "gemini_text_of sample_world (snd (POST sample_world
       (Some (sample_request (js ''perplexity-chatgpt-gemini'') (js ''hi'')))))
     = Some (js ''xin chao'')"
  "status (fst (handleGoogle_rt sample_world
       [\<lparr>role = js ''user'', content = Text_content (js ''hi'')\<rparr>] None [])) = 200"
  "gemini_text_of sample_world (snd (handleGoogle_rt sample_world
       [\<lparr>role = js ''user'', content = Text_content (js ''hi'')\<rparr>] None []))
     = Some (js ''xin chao'')"
  by (simp_all add: POST_def sample_request_def sample_model workflow_names
      handlePerplexityToGemini_def handlePerplexityChatGPTToGemini_def handleGoogle_rt_def
      uploadFilesToGeminiSDK_def process_messages_def convert_prompt_def
      sample_keys userQuestion_of_def sample_question sample_search sample_oracles Let_def
      gemini_text_of_def)

section \<open>The claims\<close>

text \<open>
  Claim C1, as stated: the stages that run match the workflow table, with \<open>single\<close>
  running only ANSWER. \<open>handleGoogle\<close> sends every string content through the rewrite
  call first, so a \<open>single\<close> request with one string message runs REWRITE and then
  ANSWER.
\<close>

theorem single_runs_rewrite:
  "status (fst (POST sample_world (Some (sample_request (js ''single'') (js ''hi''))))) = 200
   \<and> stages (snd (POST sample_world (Some (sample_request (js ''single'') (js ''hi'')))))
       = [REWRITE, ANSWER]"
  by (simp add: POST_def sample_request_def sample_model handleGoogle_def
      sample_keys uploadFilesToGeminiSDK_def processMessagesForGoogleSDK_def process_messages_def
      convert_prompt_def sample_oracles workflow_names Let_def stages_append)

text \<open>
  Claim C1, amended: for every request that ends with status 200, the first route file
  runs REWRITE, ANSWER for \<open>chatgpt-to-gemini\<close>, SEARCH, ANSWER for
  \<open>perplexity-to-gemini\<close>, SEARCH, REWRITE, ANSWER for \<open>perplexity-chatgpt-gemini\<close>, and
  for every other workflow (\<open>single\<close> among them) one REWRITE for each string content
  of the conversation and then ANSWER; the second route file runs SEARCH, ANSWER for
  \<open>tavily-to-gemini\<close> and the same direct sequence for every other workflow. The step
  trace of the named workflows reports exactly the stages that ran; the direct handler has
  no step trace.
\<close>

theorem workflow_stage_sequences:
  "(case POST w (Some r) of
      (resp, log) \<Rightarrow>
        status resp = 200 \<longrightarrow>
          stages log =
            (if workflow r = Some (js ''chatgpt-to-gemini'') then [REWRITE, ANSWER]
             else if workflow r = Some (js ''perplexity-to-gemini'') then [SEARCH, ANSWER]
             else if workflow r = Some (js ''perplexity-chatgpt-gemini'')
             then [SEARCH, REWRITE, ANSWER]
             else direct_stages (messages r))
          \<and> reported_stages resp =
               (if workflow r \<in> Some ` set named_workflows then stages log else []))
   \<and> (case POST_rt w (Some r) of
         (resp, log) \<Rightarrow>
           status resp = 200 \<longrightarrow>
             stages log =
               (if workflow r = Some (js ''tavily-to-gemini'') then [SEARCH, ANSWER]
                else direct_stages (messages r))
             \<and> reported_stages resp =
                  (if workflow r = Some (js ''tavily-to-gemini'') then stages log else []))"
proof (cases "model_lookup (model r) = Undefined")
  case True
  then show ?thesis using POST_unsupported[OF True, of w] by (simp add: json_error_def)
next
  case False
  let ?m = "actual_model (model_lookup (model r))"
  have first: "case POST w (Some r) of
      (resp, log) \<Rightarrow>
        status resp = 200 \<longrightarrow>
          stages log =
            (if workflow r = Some (js ''chatgpt-to-gemini'') then [REWRITE, ANSWER]
             else if workflow r = Some (js ''perplexity-to-gemini'') then [SEARCH, ANSWER]
             else if workflow r = Some (js ''perplexity-chatgpt-gemini'')
             then [SEARCH, REWRITE, ANSWER]
             else direct_stages (messages r))
          \<and> reported_stages resp =
               (if workflow r \<in> Some ` set named_workflows then stages log else [])"
  proof -
    consider (a) "workflow r = Some (js ''chatgpt-to-gemini'')"
      | (b) "workflow r = Some (js ''perplexity-to-gemini'')"
      | (c) "workflow r = Some (js ''perplexity-chatgpt-gemini'')"
      | (d) "workflow r \<notin> Some ` set named_workflows"
      by (auto simp: named_workflows_def)
    then show ?thesis
    proof cases
      case a
      obtain resp log where h: "handleChatGPTToGemini w (messages r) ?m (files r) = (resp, log)"
        by force
      show ?thesis
        using a h handleChatGPTToGemini_ok[OF h]
        by (auto simp: POST_dispatch[OF False] reported_stages_def step_types_stages
            named_workflows_def)
    next
      case b
      obtain resp log where h: "handlePerplexityToGemini w (messages r) ?m (files r) = (resp, log)"
        by force
      show ?thesis
        using b h handlePerplexityToGemini_ok[OF h]
        by (auto simp: POST_dispatch[OF False] reported_stages_def step_types_stages
            named_workflows_def workflow_names)
    next
      case c
      obtain resp log where h:
        "handlePerplexityChatGPTToGemini w (messages r) ?m (files r) = (resp, log)"
        by force
      show ?thesis
        using c h handlePerplexityChatGPTToGemini_ok[OF h]
        by (auto simp: POST_dispatch[OF False] reported_stages_def step_types_stages
            named_workflows_def workflow_names)
    next
      case d
      obtain resp log where h: "handleGoogle w (messages r) ?m (files r) = (resp, log)"
        by force
      have nd: "workflow r \<noteq> Some (js ''chatgpt-to-gemini'')"
        "workflow r \<noteq> Some (js ''perplexity-to-gemini'')"
        "workflow r \<noteq> Some (js ''perplexity-chatgpt-gemini'')"
        using d by (auto simp: named_workflows_def)
      show ?thesis
        using d h handleGoogle_ok[OF h]
        by (auto simp: POST_dispatch[OF False] nd reported_stages_def direct_stages_def)
    qed
  qed
  have second: "case POST_rt w (Some r) of
         (resp, log) \<Rightarrow>
           status resp = 200 \<longrightarrow>
             stages log =
               (if workflow r = Some (js ''tavily-to-gemini'') then [SEARCH, ANSWER]
                else direct_stages (messages r))
             \<and> reported_stages resp =
                  (if workflow r = Some (js ''tavily-to-gemini'') then stages log else [])"
  proof (cases "workflow r = Some (js ''tavily-to-gemini'')")
    case True
    obtain resp log where h: "handleTavilyToGemini w (messages r) ?m (files r) = (resp, log)"
      by force
    show ?thesis
      using True h handleTavilyToGemini_ok[OF h]
      by (auto simp: POST_rt_dispatch[OF False] reported_stages_def step_types_stages)
  next
    case no: False
    obtain resp log where h: "handleGoogle_rt w (messages r) ?m (files r) = (resp, log)"
      by force
    show ?thesis
      using no h handleGoogle_rt_ok[OF h]
      by (auto simp: POST_rt_dispatch[OF False] reported_stages_def direct_stages_def)
  qed
  from first second show ?thesis by simp
qed


theorem workflow_stage_sequences_witness:
  "status (fst (POST sample_world
       (Some (sample_request (js ''perplexity-chatgpt-gemini'') (js ''hi''))))) = 200
   \<and> stages (snd (POST sample_world
       (Some (sample_request (js ''perplexity-chatgpt-gemini'') (js ''hi'')))))
       = [SEARCH, REWRITE, ANSWER]
   \<and> reported_stages (fst (POST sample_world
       (Some (sample_request (js ''perplexity-chatgpt-gemini'') (js ''hi'')))))
       = [SEARCH, REWRITE, ANSWER]
   \<and> status (fst (POST_rt sample_world
       (Some (sample_request (js ''tavily-to-gemini'') (js ''hi''))))) = 200
   \<and> stages (snd (POST_rt sample_world
       (Some (sample_request (js ''tavily-to-gemini'') (js ''hi'')))))
       = [SEARCH, ANSWER]"
proof -
  let ?r1 = "sample_request (js ''perplexity-chatgpt-gemini'') (js ''hi'')"
  let ?r2 = "sample_request (js ''tavily-to-gemini'') (js ''hi'')"
  have s1: "status (fst (POST sample_world (Some ?r1))) = 200"
    by (simp add: POST_def sample_request_def sample_model handlePerplexityChatGPTToGemini_def
        sample_keys userQuestion_of_def sample_question searchWithPerplexityStyle_def
        sample_perplexity_config sample_oracles workflow_names Let_def)
  have s2: "status (fst (POST_rt sample_world (Some ?r2))) = 200"
    by (simp add: POST_rt_def sample_request_def sample_model handleTavilyToGemini_def
        sample_keys userQuestion_of_def sample_question searchWithTavily_def
        sample_oracles Let_def)
  have w1: "workflow ?r1 = Some (js ''perplexity-chatgpt-gemini'')"
    and w2: "workflow ?r2 = Some (js ''tavily-to-gemini'')"
    by (simp_all add: sample_request_def)
  have n1: "Some (js ''perplexity-chatgpt-gemini'') \<in> Some ` set named_workflows"
    by (simp add: named_workflows_def)
  note t1 = workflow_stage_sequences[where w = sample_world and r = ?r1, THEN conjunct1]
  note t2 = workflow_stage_sequences[where w = sample_world and r = ?r2, THEN conjunct2]
  have c1: "stages (snd (POST sample_world (Some ?r1))) = [SEARCH, REWRITE, ANSWER]
            \<and> reported_stages (fst (POST sample_world (Some ?r1))) = [SEARCH, REWRITE, ANSWER]"
    using t1 s1 by (simp add: case_prod_beta w1 n1 workflow_names)
  have c2: "stages (snd (POST_rt sample_world (Some ?r2))) = [SEARCH, ANSWER]"
    using t2 s2 by (simp add: case_prod_beta w2)
  show ?thesis using s1 s2 c1 c2 by simp
qed






text \<open>
  Claim C3, as stated: whenever the rewrite call fails upstream, the rewrite step returns
  its input and the enclosing workflow goes on to ANSWER. \<open>handlePerplexityChatGPTToGemini\<close>
  makes its own call and raises on a status that is not OK: with the rewrite provider
  down, the request ends after SEARCH and REWRITE with status 500.
\<close>

theorem rewrite_failure_is_fatal_after_search:
  "fst (POST openai_down_world
      (Some (sample_request (js ''perplexity-chatgpt-gemini'') (js ''hi''))))
     = json_error 500 (js ''Failed to get response from ChatGPT'') (Some (js ''workflow_error''))
   \<and> stages (snd (POST openai_down_world
      (Some (sample_request (js ''perplexity-chatgpt-gemini'') (js ''hi''))))) = [SEARCH, REWRITE]"
  by (simp add: POST_def sample_request_def sample_model handlePerplexityChatGPTToGemini_def
      other_worlds_keys userQuestion_of_def sample_question searchWithPerplexityStyle_def
      other_worlds_perplexity_config other_worlds_oracles workflow_names Let_def
      workflow_error_def sample_failed_message)


text \<open>
  Claim C3, amended: when the reply to the call of \<open>convertToPromptChatGPT\<close> has a
  status that is not OK or no content, the function returns its input unchanged. In
  \<open>chatgpt-to-gemini\<close> (keys set, a question given) the request then calls the answer
  stage, with the prompt built from the question itself; in the direct workflow, when
  every rewrite reply fails in this way, every rewrite is followed by the next and the
  answer stage is called.
\<close>

theorem rewrite_degrades_to_input:
  "(snd (convertToPromptChatGPT w log t) = log @ [Rewrite_call chat]
      \<and> rewrite_reply_failed (openai w (length log) (js ''gpt-4o-mini'') chat) \<longrightarrow>
        fst (convertToPromptChatGPT w log t) = Inr t)
   \<and> (truthy (GOOGLE_API_KEY w) \<and> truthy (OPENAI_API_KEY w) \<and> ms \<noteq> []
       \<and> trim (userQuestion_of (last ms)) \<noteq> []
       \<and> snd (convertToPromptChatGPT w [] (userQuestion_of (last ms))) = [Rewrite_call chat]
       \<and> rewrite_reply_failed (openai w 0 (js ''gpt-4o-mini'') chat) \<longrightarrow>
         snd (handleChatGPTToGemini w ms mdl fs) =
           [Rewrite_call chat,
            Answer_call mdl
              (text_contents w
                 (replace_last ms
                    (if conversationContext w ms \<noteq> []
                     then chatgpt_context_1 @ conversationContext w ms @ chatgpt_context_2
                          @ userQuestion_of (last ms) @ chatgpt_context_3
                          @ userQuestion_of (last ms)
                     else userQuestion_of (last ms))))])
   \<and> (truthy (GOOGLE_API_KEY w) \<and> (\<forall>t m c. rewrite_reply_failed (openai w t m c)) \<longrightarrow>
         stages (snd (handleGoogle w ms mdl fs)) = direct_stages ms)"
proof (intro conjI impI)
  assume a: "snd (convertToPromptChatGPT w log t) = log @ [Rewrite_call chat]
      \<and> rewrite_reply_failed (openai w (length log) (js ''gpt-4o-mini'') chat)"
  have "chat = [(js ''system'', replace_first ([0x7B] @ js ''user_question'' @ [0x7D]) (trim t) CONTENT_SYSTEM),
        (js ''user'', t)]"
    using a convert_prompt_log[of CONTENT_SYSTEM w log t] by (simp add: convertToPromptChatGPT_def)
  with a show "fst (convertToPromptChatGPT w log t) = Inr t"
    unfolding convertToPromptChatGPT_def by (intro convert_prompt_degraded) simp
next
  let ?q = "userQuestion_of (last ms)"
  assume b: "truthy (GOOGLE_API_KEY w) \<and> truthy (OPENAI_API_KEY w) \<and> ms \<noteq> []
       \<and> trim ?q \<noteq> []
       \<and> snd (convertToPromptChatGPT w [] ?q) = [Rewrite_call chat]
       \<and> rewrite_reply_failed (openai w 0 (js ''gpt-4o-mini'') chat)"
  have chat: "chat = [(js ''system'', replace_first ([0x7B] @ js ''user_question'' @ [0x7D]) (trim ?q) CONTENT_SYSTEM),
        (js ''user'', ?q)]"
    using b convert_prompt_log[of CONTENT_SYSTEM w "[]" ?q] by (simp add: convertToPromptChatGPT_def)
  have "fst (convert_prompt CONTENT_SYSTEM w [] ?q) = Inr ?q"
    by (rule convert_prompt_degraded) (use b chat in simp)
  then have c: "convertToPromptChatGPT w [] ?q = (Inr ?q, [Rewrite_call chat])"
    using b by (simp add: convertToPromptChatGPT_def prod_eq_iff)
  show "snd (handleChatGPTToGemini w ms mdl fs) =
           [Rewrite_call chat,
            Answer_call mdl
              (text_contents w
                 (replace_last ms
                    (if conversationContext w ms \<noteq> []
                     then chatgpt_context_1 @ conversationContext w ms @ chatgpt_context_2
                          @ ?q @ chatgpt_context_3 @ ?q
                     else ?q)))]"
    using b c
    by (auto simp: handleChatGPTToGemini_def getGenAI_def Let_def split: gemini_reply.splits)
next
  assume "truthy (GOOGLE_API_KEY w) \<and> (\<forall>t m c. rewrite_reply_failed (openai w t m c))"
  then show "stages (snd (handleGoogle w ms mdl fs)) = direct_stages ms"
    using handleGoogle_degraded[of w ms mdl fs] by blast
qed

theorem rewrite_degrades_witness:
  "rewrite_reply_failed (openai openai_down_world 0 (js ''gpt-4o-mini'')
       [(js ''system'',
         replace_first ([0x7B] @ js ''user_question'' @ [0x7D]) (trim (js ''hi'')) CONTENT_SYSTEM),
        (js ''user'', js ''hi'')])
   \<and> fst (convertToPromptChatGPT openai_down_world [] (js ''hi'')) = Inr (js ''hi'')
   \<and> stages (snd (handleChatGPTToGemini openai_down_world
         [\<lparr>role = js ''user'', content = Text_content (js ''hi'')\<rparr>] None []))
       = [REWRITE, ANSWER]
   \<and> stages (snd (handleGoogle openai_down_world
         [\<lparr>role = js ''user'', content = Text_content (js ''hi'')\<rparr>] None []))
       = [REWRITE, ANSWER]"
proof -
  let ?w = openai_down_world
  let ?ms = "[\<lparr>role = js ''user'', content = Text_content (js ''hi'')\<rparr>]"
  let ?chat = "[(js ''system'',
         replace_first ([0x7B] @ js ''user_question'' @ [0x7D]) (trim (js ''hi'')) CONTENT_SYSTEM),
        (js ''user'', js ''hi'')]"
  have f: "\<And>t m c. rewrite_reply_failed (openai ?w t m c)"
    by (simp add: other_worlds_oracles rewrite_reply_failed_def)
  have l: "snd (convertToPromptChatGPT ?w [] (js ''hi'')) = [] @ [Rewrite_call ?chat]"
    using convert_prompt_log[of CONTENT_SYSTEM ?w "[]" "js ''hi''"]
    by (simp add: convertToPromptChatGPT_def)
  note t = rewrite_degrades_to_input[where w = ?w and log = "[]" and t = "js ''hi''"
      and chat = ?chat and ms = ?ms and mdl = None and fs = "[]"]
  have c1: "fst (convertToPromptChatGPT ?w [] (js ''hi'')) = Inr (js ''hi'')"
    using t[THEN conjunct1] l f by simp
  have h2: "truthy (GOOGLE_API_KEY ?w) \<and> truthy (OPENAI_API_KEY ?w) \<and> ?ms \<noteq> []
       \<and> trim (userQuestion_of (last ?ms)) \<noteq> []
       \<and> snd (convertToPromptChatGPT ?w [] (userQuestion_of (last ?ms))) = [Rewrite_call ?chat]
       \<and> rewrite_reply_failed (openai ?w 0 (js ''gpt-4o-mini'') ?chat)"
    using l f other_worlds_keys by (simp add: userQuestion_of_def sample_question)
  have c2: "stages (snd (handleChatGPTToGemini ?w ?ms None [])) = [REWRITE, ANSWER]"
    by (simp add: t[THEN conjunct2, THEN conjunct1, rule_format, OF h2])
  have c3: "stages (snd (handleGoogle ?w ?ms None [])) = direct_stages ?ms"
    using t[THEN conjunct2, THEN conjunct2] f other_worlds_keys by simp
  have d: "direct_stages ?ms = [REWRITE, ANSWER]"
    by (simp add: direct_stages_def string_contents_def)
  show ?thesis using f c1 c2 c3 d by simp
qed


text \<open>
  Claim C4, as stated: for every string \<open>T\<close>, \<open>sanitize(sanitize(T)) = sanitize(T)\<close>. The
  list-marker step removes one marker per line and a later step can uncover markup
  for an earlier one, so a second pass can remove more: \<open>"- - a"\<close> becomes \<open>"- a"\<close> and
  then \<open>"a"\<close>.
\<close>

theorem cleanText_not_idempotent:
  "cleanText (cleanText (js ''- - a'')) \<noteq> cleanText (js ''- - a'')"
  by code_simp

text \<open>
  Claim C4, amended: whenever the sanitized text holds no \<open>*\<close>, backtick or \<open>[\<close> and
  none of its lines begins with a heading marker or a list marker, sanitizing it again
  changes nothing.
\<close>

theorem cleanText_idempotent_on_clean_output:
  "markup_free (cleanText t) \<Longrightarrow> cleanText (cleanText t) = cleanText t"
proof (rule clean_fixed)
  show "short_runs (cleanText t)"
    unfolding cleanText_def replace_def[of newline_run]
    by (rule short_runs_trim) (simp add: collapse_run_and_short)
  show "trim (cleanText t) = cleanText t"
    unfolding cleanText_def by (rule trim_idem)
qed

theorem cleanText_idempotent_witness:
  "markup_free (cleanText (js ''**gia** 2-3 [trieu](u)''))
   \<and> cleanText (js ''**gia** 2-3 [trieu](u)'') = js ''gia 2-3 trieu''
   \<and> cleanText (cleanText (js ''**gia** 2-3 [trieu](u)'')) = cleanText (js ''**gia** 2-3 [trieu](u)'')"
proof -
  have h: "markup_free (cleanText (js ''**gia** 2-3 [trieu](u)''))" by code_simp
  have v: "cleanText (js ''**gia** 2-3 [trieu](u)'') = js ''gia 2-3 trieu''" by code_simp
  show ?thesis using h v cleanText_idempotent_on_clean_output[OF h] by simp
qed

text \<open>
  Claim C5, as stated: a blank last message gives status 400 without any adapter call,
  for every workflow, \<open>single\<close> included. \<open>handleGoogle\<close> extracts no question and
  checks nothing: a \<open>single\<close> request whose only message is one space runs the rewrite
  and the answer and ends with status 200.
\<close>

theorem blank_question_single_runs:
  "status (fst (POST sample_world (Some (sample_request (js ''single'') (js '' ''))))) = 200
   \<and> stages (snd (POST sample_world (Some (sample_request (js ''single'') (js '' '')))))
       = [REWRITE, ANSWER]"
  by (simp add: POST_def sample_request_def sample_model handleGoogle_def
      sample_keys uploadFilesToGeminiSDK_def processMessagesForGoogleSDK_def process_messages_def
      convert_prompt_def sample_oracles workflow_names Let_def stages_append)


text \<open>
  Claim C5, amended: for \<open>chatgpt-to-gemini\<close>, \<open>perplexity-to-gemini\<close> and
  \<open>perplexity-chatgpt-gemini\<close> in the first route file and \<open>tavily-to-gemini\<close> in the
  second, a request that passes the model check, with the Google key set (and the OpenAI
  key, for the two workflows that use ChatGPT), whose last message has blank text gets
  status 400, \<open>No question provided\<close>, and no adapter is called.
\<close>

theorem blank_question_rejected:
  "model_lookup (model r) \<noteq> Undefined \<and> truthy (GOOGLE_API_KEY w) \<and> messages r \<noteq> []
   \<and> trim (userQuestion_of (last (messages r))) = [] \<longrightarrow>
     (workflow r = Some (js ''chatgpt-to-gemini'') \<and> truthy (OPENAI_API_KEY w) \<longrightarrow>
        POST w (Some r) = (json_error 400 (js ''No question provided'') None, []))
     \<and> (workflow r = Some (js ''perplexity-to-gemini'') \<longrightarrow>
        POST w (Some r) = (json_error 400 (js ''No question provided'') None, []))
     \<and> (workflow r = Some (js ''perplexity-chatgpt-gemini'') \<and> truthy (OPENAI_API_KEY w) \<longrightarrow>
        POST w (Some r) = (json_error 400 (js ''No question provided'') None, []))
     \<and> (workflow r = Some (js ''tavily-to-gemini'') \<longrightarrow>
        POST_rt w (Some r) = (json_error 400 (js ''No question provided'') None, []))"
  by (auto simp: POST_dispatch POST_rt_dispatch handleChatGPTToGemini_def
      handlePerplexityToGemini_def handlePerplexityChatGPTToGemini_def handleTavilyToGemini_def
      getGenAI_def workflow_names Let_def)

theorem blank_question_rejected_witness:
  "POST sample_world (Some (sample_request (js ''perplexity-to-gemini'') (js '' '')))
     = (json_error 400 (js ''No question provided'') None, [])
   \<and> POST sample_world (Some (sample_request (js ''chatgpt-to-gemini'') (js '' '')))
     = (json_error 400 (js ''No question provided'') None, [])
   \<and> POST_rt sample_world (Some (sample_request (js ''tavily-to-gemini'') (js '' '')))
     = (json_error 400 (js ''No question provided'') None, [])"
proof -
  have h: "\<And>wf. model_lookup (model (sample_request wf (js '' ''))) \<noteq> Undefined
      \<and> truthy (GOOGLE_API_KEY sample_world) \<and> messages (sample_request wf (js '' '')) \<noteq> []
      \<and> trim (userQuestion_of (last (messages (sample_request wf (js '' ''))))) = []"
    by (simp add: sample_request_def sample_model sample_keys userQuestion_of_def blank_question)
  show ?thesis
    using blank_question_rejected[where w = sample_world
        and r = "sample_request (js ''perplexity-to-gemini'') (js '' '')"]
      blank_question_rejected[where w = sample_world
        and r = "sample_request (js ''chatgpt-to-gemini'') (js '' '')"]
      blank_question_rejected[where w = sample_world
        and r = "sample_request (js ''tavily-to-gemini'') (js '' '')"]
      h sample_keys
    by (simp add: sample_request_def)
qed


text \<open>
  Claim C6, as stated: an unknown model and an unknown workflow each give a 400-class
  response. \<open>POST\<close> has no check of the workflow: an identifier it does not know falls
  through to \<open>handleGoogle\<close>, and the request succeeds.
\<close>

theorem unknown_workflow_not_rejected:
  "status (fst (POST sample_world (Some (sample_request (js ''no-such-workflow'') (js ''hi'')))))
     = 200"
  by (simp add: POST_def sample_request_def sample_model handleGoogle_def
      sample_keys uploadFilesToGeminiSDK_def processMessagesForGoogleSDK_def process_messages_def
      convert_prompt_def sample_oracles sample_unknown_workflow Let_def)


text \<open>
  Claim C6, amended: a request whose model identifier is neither a key of
  \<open>MODEL_MAPPING\<close> nor the name of a property that the mapping object inherits gets
  status 400, \<open>Unsupported model\<close>, in both route files and makes no call. A workflow
  identifier that is none of the named ones is handled exactly as \<open>single\<close>.
\<close>

theorem unsupported_model_rejected:
  "(model r \<notin> fst ` set MODEL_MAPPING \<and> model r \<notin> set object_prototype_keys \<longrightarrow>
      POST w (Some r) = (json_error 400 (js ''Unsupported model: '' @ model r) None, [])
      \<and> POST_rt w (Some r) = (json_error 400 (js ''Unsupported model: '' @ model r) None, [])
      \<and> status (json_error 400 (js ''Unsupported model: '' @ model r) None) = 400)
   \<and> (workflow r \<notin> Some ` set named_workflows \<longrightarrow>
        POST w (Some r) = POST w (Some (r\<lparr>workflow := Some (js ''single'')\<rparr>)))"
proof (intro conjI impI)
  assume "model r \<notin> fst ` set MODEL_MAPPING \<and> model r \<notin> set object_prototype_keys"
  then have u: "model_lookup (model r) = Undefined" by (simp add: model_lookup_Undefined)
  show "POST w (Some r) = (json_error 400 (js ''Unsupported model: '' @ model r) None, [])"
    using POST_unsupported[OF u] by simp
  show "POST_rt w (Some r) = (json_error 400 (js ''Unsupported model: '' @ model r) None, [])"
    using POST_unsupported[OF u] by simp
  show "status (json_error 400 (js ''Unsupported model: '' @ model r) None) = 400"
    by (simp add: json_error_def)
next
  assume n: "workflow r \<notin> Some ` set named_workflows"
  show "POST w (Some r) = POST w (Some (r\<lparr>workflow := Some (js ''single'')\<rparr>))"
    using n by (cases "workflow r") (auto simp: POST_def Let_def named_workflows_def workflow_names)
qed

theorem unsupported_model_rejected_witness:
  "js ''gpt-5'' \<notin> fst ` set MODEL_MAPPING \<and> js ''gpt-5'' \<notin> set object_prototype_keys
   \<and> status (fst (POST sample_world
        (Some ((sample_request (js ''single'') (js ''hi''))\<lparr>model := js ''gpt-5''\<rparr>)))) = 400
   \<and> Some (js ''no-such-workflow'') \<notin> Some ` set named_workflows
   \<and> POST sample_world (Some (sample_request (js ''no-such-workflow'') (js ''hi'')))
       = POST sample_world (Some (sample_request (js ''single'') (js ''hi'')))"
proof -
  let ?r1 = "(sample_request (js ''single'') (js ''hi''))\<lparr>model := js ''gpt-5''\<rparr>"
  let ?r2 = "sample_request (js ''no-such-workflow'') (js ''hi'')"
  have m: "model ?r1 = js ''gpt-5''" by (simp add: sample_request_def)
  have n: "Some (js ''no-such-workflow'') \<notin> Some ` set named_workflows"
    by (simp add: named_workflows_def sample_unknown_workflow)
  have wf: "workflow ?r2 = Some (js ''no-such-workflow'')" by (simp add: sample_request_def)
  have eq: "?r2\<lparr>workflow := Some (js ''single'')\<rparr> = sample_request (js ''single'') (js ''hi'')"
    by (simp add: sample_request_def)
  note t1 = unsupported_model_rejected[where w = sample_world and r = ?r1, THEN conjunct1]
  note t2 = unsupported_model_rejected[where w = sample_world and r = ?r2, THEN conjunct2]
  have c1: "status (fst (POST sample_world (Some ?r1))) = 400"
    using t1 sample_unknown_model by (simp add: m)
  have c2: "POST sample_world (Some ?r2) = POST sample_world (Some (sample_request (js ''single'') (js ''hi'')))"
    using t2 n by (simp add: wf eq)
  show ?thesis using c1 c2 n sample_unknown_model by simp
qed


text \<open>
  Claim C7: for a list of \<open>N\<close> search results, the reference block that the Perplexity
  handlers render has \<open>min N 5\<close> entries; entry \<open>i\<close> (from 0) is the rendering of result
  \<open>i\<close> and starts with the number \<open>i + 1\<close>, so the entries are the first results in
  their order. For a list that is not empty the block, under its heading, ends the answer
  text. This is the block of the responses: in every response with status 200 of
  \<open>handlePerplexityToGemini\<close> and of \<open>handlePerplexityChatGPTToGemini\<close>, and so in every
  such response of \<open>POST\<close> to the two Perplexity workflows, the search has returned a
  result list, and when that list is not empty the answer text ends with the heading and
  the block of that list.
\<close>

theorem reference_block_capped:
  "length (reference_lines w rs) = min (length rs) 5
   \<and> (\<forall>i < length (reference_lines w rs).
         reference_lines w rs ! i = reference_line w i (rs ! i)
         \<and> prefix (digits (i + 1) @ js ''. '') (reference_lines w rs ! i))
   \<and> (rs \<noteq> [] \<longrightarrow>
         referencesText w rs = join [LF] (reference_lines w rs)
         \<and> suffix (sources_heading @ join [LF] (reference_lines w rs))
             (with_references w t (referencesText w rs)))
   \<and> (case handlePerplexityToGemini w ms mdl fs of
         (resp, log) \<Rightarrow>
           status resp = 200 \<longrightarrow>
             (\<exists>ans found s.
                fst (searchWithPerplexityStyle w [] (userQuestion_of (last ms))) = Inr (ans, found)
                \<and> body resp = Success s
                \<and> (found \<noteq> [] \<longrightarrow>
                     suffix (sources_heading @ join [LF] (reference_lines w found)) (answer s))))
   \<and> (case handlePerplexityChatGPTToGemini w ms mdl fs of
         (resp, log) \<Rightarrow>
           status resp = 200 \<longrightarrow>
             (\<exists>ans found s.
                fst (searchWithPerplexityStyle w [] (userQuestion_of (last ms))) = Inr (ans, found)
                \<and> body resp = Success s
                \<and> (found \<noteq> [] \<longrightarrow>
                     suffix (sources_heading @ join [LF] (reference_lines w found)) (answer s))))
   \<and> ((workflow r = Some (js ''perplexity-to-gemini'')
         \<or> workflow r = Some (js ''perplexity-chatgpt-gemini''))
        \<and> status (fst (POST w (Some r))) = 200 \<longrightarrow>
          (\<exists>ans found s.
             fst (searchWithPerplexityStyle w [] (userQuestion_of (last (messages r))))
               = Inr (ans, found)
             \<and> body (fst (POST w (Some r))) = Success s
             \<and> (found \<noteq> [] \<longrightarrow>
                  suffix (sources_heading @ join [LF] (reference_lines w found)) (answer s))))"
proof (intro conjI allI impI)
  show "length (reference_lines w rs) = min (length rs) 5"
    using reference_lines_length[of w rs] by (simp add: MAX_REFERENCES_def)
next
  fix i assume i: "i < length (reference_lines w rs)"
  show "reference_lines w rs ! i = reference_line w i (rs ! i)"
    using i by (rule reference_lines_nth)
  then show "prefix (digits (i + 1) @ js ''. '') (reference_lines w rs ! i)"
    using reference_line_numbered by simp
next
  assume n: "rs \<noteq> []"
  show t: "referencesText w rs = join [LF] (reference_lines w rs)"
    using n by (simp add: referencesText_def)
  show "suffix (sources_heading @ join [LF] (reference_lines w rs))
             (with_references w t (referencesText w rs))"
    using with_references_suffix[OF referencesText_nonempty[OF n, of w], where w = w and t = t]
    by (simp add: t)
next
  obtain resp log where h: "handlePerplexityToGemini w ms mdl fs = (resp, log)" by force
  have "status resp = 200 \<longrightarrow>
          (\<exists>ans found s.
             fst (searchWithPerplexityStyle w [] (userQuestion_of (last ms))) = Inr (ans, found)
             \<and> body resp = Success s
             \<and> (found \<noteq> [] \<longrightarrow>
                  suffix (sources_heading @ join [LF] (reference_lines w found)) (answer s)))"
    using handlePerplexityToGemini_answer[OF h] references_end_answer(1) by blast
  then show "case handlePerplexityToGemini w ms mdl fs of
         (resp, log) \<Rightarrow>
           status resp = 200 \<longrightarrow>
             (\<exists>ans found s.
                fst (searchWithPerplexityStyle w [] (userQuestion_of (last ms))) = Inr (ans, found)
                \<and> body resp = Success s
                \<and> (found \<noteq> [] \<longrightarrow>
                     suffix (sources_heading @ join [LF] (reference_lines w found)) (answer s)))"
    by (simp add: h)
next
  obtain resp log where h: "handlePerplexityChatGPTToGemini w ms mdl fs = (resp, log)" by force
  have "status resp = 200 \<longrightarrow>
          (\<exists>ans found s.
             fst (searchWithPerplexityStyle w [] (userQuestion_of (last ms))) = Inr (ans, found)
             \<and> body resp = Success s
             \<and> (found \<noteq> [] \<longrightarrow>
                  suffix (sources_heading @ join [LF] (reference_lines w found)) (answer s)))"
    using handlePerplexityChatGPTToGemini_answer[OF h] references_end_answer(1) by blast
  then show "case handlePerplexityChatGPTToGemini w ms mdl fs of
         (resp, log) \<Rightarrow>
           status resp = 200 \<longrightarrow>
             (\<exists>ans found s.
                fst (searchWithPerplexityStyle w [] (userQuestion_of (last ms))) = Inr (ans, found)
                \<and> body resp = Success s
                \<and> (found \<noteq> [] \<longrightarrow>
                     suffix (sources_heading @ join [LF] (reference_lines w found)) (answer s)))"
    by (simp add: h)
next
  assume a: "(workflow r = Some (js ''perplexity-to-gemini'')
         \<or> workflow r = Some (js ''perplexity-chatgpt-gemini''))
        \<and> status (fst (POST w (Some r))) = 200"
  show "\<exists>ans found s.
             fst (searchWithPerplexityStyle w [] (userQuestion_of (last (messages r))))
               = Inr (ans, found)
             \<and> body (fst (POST w (Some r))) = Success s
             \<and> (found \<noteq> [] \<longrightarrow>
                  suffix (sources_heading @ join [LF] (reference_lines w found)) (answer s))"
    using POST_perplexity_answer[OF conjunct1[OF a] conjunct2[OF a]] references_end_answer(1)
    by blast
qed

theorem reference_block_capped_witness:
  "length sample_results = 7
   \<and> length (reference_lines sample_world sample_results) = 5
   \<and> reference_lines sample_world sample_results ! 4 = js ''5. T5 - u/5'' @ [LF] @ js ''c''
   \<and> suffix (sources_heading @ join [LF] (reference_lines sample_world sample_results))
       (with_references sample_world (js ''xin chao'')
          (referencesText sample_world sample_results))
   \<and> fst (searchWithPerplexityStyle cited_world [] (js ''hi''))
       = Inr (js ''SUMMARY'', sample_results)
   \<and> length (reference_lines cited_world sample_results) = 5
   \<and> status (fst (handlePerplexityToGemini cited_world
        [\<lparr>role = js ''user'', content = Text_content (js ''hi'')\<rparr>] None [])) = 200
   \<and> (\<exists>s. body (fst (handlePerplexityToGemini cited_world
               [\<lparr>role = js ''user'', content = Text_content (js ''hi'')\<rparr>] None []))
             = Success s
          \<and> suffix (sources_heading @ join [LF] (reference_lines cited_world sample_results))
              (answer s))
   \<and> status (fst (handlePerplexityChatGPTToGemini cited_world
        [\<lparr>role = js ''user'', content = Text_content (js ''hi'')\<rparr>] None [])) = 200
   \<and> (\<exists>s. body (fst (handlePerplexityChatGPTToGemini cited_world
               [\<lparr>role = js ''user'', content = Text_content (js ''hi'')\<rparr>] None []))
             = Success s
          \<and> suffix (sources_heading @ join [LF] (reference_lines cited_world sample_results))
              (answer s))
   \<and> status (fst (POST cited_world
        (Some (sample_request (js ''perplexity-to-gemini'') (js ''hi''))))) = 200
   \<and> (\<exists>s. body (fst (POST cited_world
               (Some (sample_request (js ''perplexity-to-gemini'') (js ''hi'')))))
             = Success s
          \<and> suffix (sources_heading @ join [LF] (reference_lines cited_world sample_results))
              (answer s))"
proof -
  let ?ms = "[\<lparr>role = js ''user'', content = Text_content (js ''hi'')\<rparr>]"
  let ?r = "sample_request (js ''perplexity-to-gemini'') (js ''hi'')"
  let ?block = "sources_heading @ join [LF] (reference_lines cited_world sample_results)"
  note t = reference_block_capped[where w = sample_world and rs = sample_results
      and t = "js ''xin chao''"]
  note c = reference_block_capped[where w = cited_world and rs = sample_results
      and ms = ?ms and mdl = None and fs = "[]" and r = ?r]
  have l: "length (reference_lines sample_world sample_results) = 5"
    using t[THEN conjunct1] by (simp add: sample_results_facts)
  have "4 < length (reference_lines sample_world sample_results)" using l by simp
  then have e: "reference_lines sample_world sample_results ! 4
                 = reference_line sample_world 4 (sample_results ! 4)"
    using t[THEN conjunct2, THEN conjunct1] by blast
  have s: "suffix (sources_heading @ join [LF] (reference_lines sample_world sample_results))
       (with_references sample_world (js ''xin chao'')
          (referencesText sample_world sample_results))"
    using t[THEN conjunct2, THEN conjunct2, THEN conjunct1] sample_results_facts(2) by blast
  have f: "fst (searchWithPerplexityStyle cited_world [] (js ''hi''))
             = Inr (js ''SUMMARY'', sample_results)"
    by (simp add: cited_search)
  have lc: "length (reference_lines cited_world sample_results) = 5"
    using c[THEN conjunct1] by (simp add: sample_results_facts)
  have p1: "\<exists>s. body (fst (handlePerplexityToGemini cited_world ?ms None [])) = Success s
              \<and> suffix ?block (answer s)"
    using c[THEN conjunct2, THEN conjunct2, THEN conjunct2, THEN conjunct1]
      cited_runs(1) sample_results_facts(2)
    by (auto simp: case_prod_beta sample_user_question f)
  have p2: "\<exists>s. body (fst (handlePerplexityChatGPTToGemini cited_world ?ms None [])) = Success s
              \<and> suffix ?block (answer s)"
    using c[THEN conjunct2, THEN conjunct2, THEN conjunct2, THEN conjunct2, THEN conjunct1]
      cited_runs(3) sample_results_facts(2)
    by (auto simp: case_prod_beta sample_user_question f)
  have h: "(workflow ?r = Some (js ''perplexity-to-gemini'')
         \<or> workflow ?r = Some (js ''perplexity-chatgpt-gemini''))
        \<and> status (fst (POST cited_world (Some ?r))) = 200"
    using cited_runs(5) by (simp add: sample_request_fields)
  have p3: "\<exists>s. body (fst (POST cited_world (Some ?r))) = Success s \<and> suffix ?block (answer s)"
    using c[THEN conjunct2, THEN conjunct2, THEN conjunct2, THEN conjunct2, THEN conjunct2,
        rule_format, OF h] sample_results_facts(2)
    by (auto simp: sample_request_fields f)
  show ?thesis
    using l e s f lc p1 p2 p3 cited_runs(1,3,5) by (simp add: sample_results_facts)
qed

text \<open>
  Claim C8, as stated: where citations are part of the pipeline, an empty citation list
  still gives a \<open>no sources\<close> section at the end of the answer. The Perplexity handlers
  add the section only \<open>if (referencesText)\<close>: a search without results gives the bare
  answer.
\<close>

theorem no_results_no_references_section:
  "status (fst (POST sample_world
      (Some (sample_request (js ''perplexity-to-gemini'') (js ''hi''))))) = 200
   \<and> answer_of (fst (POST sample_world
      (Some (sample_request (js ''perplexity-to-gemini'') (js ''hi''))))) = Some (js ''xin chao'')"
  by (simp add: POST_def sample_request_def sample_model handlePerplexityToGemini_def
      sample_keys userQuestion_of_def sample_question searchWithPerplexityStyle_def
      sample_perplexity_config sample_oracles workflow_names Let_def answer_of_def
      collect_results.simps referencesText_def with_references_def sample_answer)



text \<open>
  Claim C8, amended: the sources section of \<open>handleGoogle\<close> of the first route file is
  never empty, it is the placeholder when no file was uploaded, and the answer text of
  every successful response of that handler ends with it. In the Perplexity handlers,
  and so in the responses of \<open>POST\<close> to the two Perplexity workflows, the answer text of a
  successful response ends with the heading and the references when the result list of
  the search is not empty, and is the cleaned text of Gemini alone when the list is
  empty. The \<open>handleGoogle\<close> of the second route file adds no section: the answer text
  of a successful response is the text of Gemini as it was returned.
\<close>

theorem sources_section_presence:
  "sourcesSection ufs \<noteq> []
   \<and> sourcesSection [] = sources_none
   \<and> (case handleGoogle w ms mdl fs of
         (resp, log) \<Rightarrow>
           status resp = 200 \<longrightarrow>
             (\<exists>s. body resp = Success s
                \<and> suffix (sourcesSection (fst (uploadFilesToGeminiSDK w [] fs))) (answer s)))
   \<and> (rs \<noteq> [] \<longrightarrow>
         suffix (sources_heading @ referencesText w rs)
           (with_references w t (referencesText w rs)))
   \<and> with_references w t (referencesText w []) = stripReferenceSection w (cleanText t)
   \<and> (case handlePerplexityToGemini w ms mdl fs of
         (resp, log) \<Rightarrow>
           status resp = 200 \<longrightarrow>
             (\<exists>ans found s g.
                fst (searchWithPerplexityStyle w [] (userQuestion_of (last ms))) = Inr (ans, found)
                \<and> body resp = Success s
                \<and> gemini_text_of w log = Some g
                \<and> (found \<noteq> [] \<longrightarrow>
                     suffix (sources_heading @ referencesText w found) (answer s))
                \<and> (found = [] \<longrightarrow> answer s = stripReferenceSection w (cleanText g))))
   \<and> (case handlePerplexityChatGPTToGemini w ms mdl fs of
         (resp, log) \<Rightarrow>
           status resp = 200 \<longrightarrow>
             (\<exists>ans found s g.
                fst (searchWithPerplexityStyle w [] (userQuestion_of (last ms))) = Inr (ans, found)
                \<and> body resp = Success s
                \<and> gemini_text_of w log = Some g
                \<and> (found \<noteq> [] \<longrightarrow>
                     suffix (sources_heading @ referencesText w found) (answer s))
                \<and> (found = [] \<longrightarrow> answer s = stripReferenceSection w (cleanText g))))
   \<and> ((workflow r = Some (js ''perplexity-to-gemini'')
         \<or> workflow r = Some (js ''perplexity-chatgpt-gemini''))
        \<and> status (fst (POST w (Some r))) = 200 \<longrightarrow>
          (\<exists>ans found s g.
             fst (searchWithPerplexityStyle w [] (userQuestion_of (last (messages r))))
               = Inr (ans, found)
             \<and> body (fst (POST w (Some r))) = Success s
             \<and> gemini_text_of w (snd (POST w (Some r))) = Some g
             \<and> (found \<noteq> [] \<longrightarrow>
                  suffix (sources_heading @ referencesText w found) (answer s))
             \<and> (found = [] \<longrightarrow> answer s = stripReferenceSection w (cleanText g))))
   \<and> (case handleGoogle_rt w ms mdl fs of
         (resp, log) \<Rightarrow>
           status resp = 200 \<longrightarrow>
             (\<exists>s g. body resp = Success s \<and> gemini_text_of w log = Some g \<and> answer s = g))"
proof (intro conjI impI)
  show "sourcesSection ufs \<noteq> []" by (rule sourcesSection_nonempty)
  show "sourcesSection [] = sources_none" by (rule sourcesSection_none)
  show "case handleGoogle w ms mdl fs of
         (resp, log) \<Rightarrow>
           status resp = 200 \<longrightarrow>
             (\<exists>s. body resp = Success s
                \<and> suffix (sourcesSection (fst (uploadFilesToGeminiSDK w [] fs))) (answer s))"
    using handleGoogle_sources[of w ms mdl fs] by (cases "handleGoogle w ms mdl fs") auto
  show "with_references w t (referencesText w []) = stripReferenceSection w (cleanText t)"
    by (simp add: referencesText_def with_references_none)
  show "case handlePerplexityToGemini w ms mdl fs of
         (resp, log) \<Rightarrow>
           status resp = 200 \<longrightarrow>
             (\<exists>ans found s g.
                fst (searchWithPerplexityStyle w [] (userQuestion_of (last ms))) = Inr (ans, found)
                \<and> body resp = Success s
                \<and> gemini_text_of w log = Some g
                \<and> (found \<noteq> [] \<longrightarrow>
                     suffix (sources_heading @ referencesText w found) (answer s))
                \<and> (found = [] \<longrightarrow> answer s = stripReferenceSection w (cleanText g)))"
  proof (cases "handlePerplexityToGemini w ms mdl fs")
    case (Pair resp log)
    show ?thesis
      using handlePerplexityToGemini_answer[OF Pair] references_end_answer(2)
        no_references_answer
      unfolding Pair prod.case by blast
  qed
  show "case handlePerplexityChatGPTToGemini w ms mdl fs of
         (resp, log) \<Rightarrow>
           status resp = 200 \<longrightarrow>
             (\<exists>ans found s g.
                fst (searchWithPerplexityStyle w [] (userQuestion_of (last ms))) = Inr (ans, found)
                \<and> body resp = Success s
                \<and> gemini_text_of w log = Some g
                \<and> (found \<noteq> [] \<longrightarrow>
                     suffix (sources_heading @ referencesText w found) (answer s))
                \<and> (found = [] \<longrightarrow> answer s = stripReferenceSection w (cleanText g)))"
  proof (cases "handlePerplexityChatGPTToGemini w ms mdl fs")
    case (Pair resp log)
    show ?thesis
      using handlePerplexityChatGPTToGemini_answer[OF Pair] references_end_answer(2)
        no_references_answer
      unfolding Pair prod.case by blast
  qed
  show "case handleGoogle_rt w ms mdl fs of
         (resp, log) \<Rightarrow>
           status resp = 200 \<longrightarrow>
             (\<exists>s g. body resp = Success s \<and> gemini_text_of w log = Some g \<and> answer s = g)"
    using handleGoogle_rt_answer[of w ms mdl fs] by (cases "handleGoogle_rt w ms mdl fs") auto
next
  assume "rs \<noteq> []"
  then show "suffix (sources_heading @ referencesText w rs)
           (with_references w t (referencesText w rs))"
    using with_references_suffix[OF referencesText_nonempty, where w = w and t = t] by blast
next
  assume a: "(workflow r = Some (js ''perplexity-to-gemini'')
         \<or> workflow r = Some (js ''perplexity-chatgpt-gemini''))
        \<and> status (fst (POST w (Some r))) = 200"
  show "\<exists>ans found s g.
             fst (searchWithPerplexityStyle w [] (userQuestion_of (last (messages r))))
               = Inr (ans, found)
             \<and> body (fst (POST w (Some r))) = Success s
             \<and> gemini_text_of w (snd (POST w (Some r))) = Some g
             \<and> (found \<noteq> [] \<longrightarrow>
                  suffix (sources_heading @ referencesText w found) (answer s))
             \<and> (found = [] \<longrightarrow> answer s = stripReferenceSection w (cleanText g))"
    using POST_perplexity_answer[OF conjunct1[OF a] conjunct2[OF a]] references_end_answer(2)
      no_references_answer
    by blast
qed

theorem sources_section_witness:
  "status (fst (handleGoogle sample_world
       [\<lparr>role = js ''user'', content = Text_content (js ''hi'')\<rparr>] None [])) = 200
   \<and> answer_of (fst (handleGoogle sample_world
       [\<lparr>role = js ''user'', content = Text_content (js ''hi'')\<rparr>] None []))
       = Some (js ''xin chao'' @ [LF, LF] @ sources_none)
   \<and> suffix (sources_heading @ referencesText sample_world sample_results)
       (with_references sample_world (js ''xin chao'') (referencesText sample_world sample_results))
   \<and> status (fst (handlePerplexityToGemini sample_world
       [\<lparr>role = js ''user'', content = Text_content (js ''hi'')\<rparr>] None [])) = 200
   \<and> answer_of (fst (handlePerplexityToGemini sample_world
       [\<lparr>role = js ''user'', content = Text_content (js ''hi'')\<rparr>] None []))
       = Some (js ''xin chao'')
   \<and> status (fst (handlePerplexityChatGPTToGemini sample_world
       [\<lparr>role = js ''user'', content = Text_content (js ''hi'')\<rparr>] None [])) = 200
   \<and> answer_of (fst (handlePerplexityChatGPTToGemini sample_world
       [\<lparr>role = js ''user'', content = Text_content (js ''hi'')\<rparr>] None []))
       = Some (js ''xin chao'')
   \<and> status (fst (POST sample_world
       (Some (sample_request (js ''perplexity-chatgpt-gemini'') (js ''hi''))))) = 200
   \<and> answer_of (fst (POST sample_world
       (Some (sample_request (js ''perplexity-chatgpt-gemini'') (js ''hi'')))))
       = Some (js ''xin chao'')
   \<and> status (fst (handleGoogle_rt sample_world
       [\<lparr>role = js ''user'', content = Text_content (js ''hi'')\<rparr>] None [])) = 200
   \<and> answer_of (fst (handleGoogle_rt sample_world
       [\<lparr>role = js ''user'', content = Text_content (js ''hi'')\<rparr>] None []))
       = Some (js ''xin chao'')
   \<and> fst (searchWithPerplexityStyle cited_world [] (js ''hi''))
       = Inr (js ''SUMMARY'', sample_results)
   \<and> status (fst (handlePerplexityToGemini cited_world
       [\<lparr>role = js ''user'', content = Text_content (js ''hi'')\<rparr>] None [])) = 200
   \<and> (\<exists>s. body (fst (handlePerplexityToGemini cited_world
               [\<lparr>role = js ''user'', content = Text_content (js ''hi'')\<rparr>] None []))
             = Success s
          \<and> suffix (sources_heading @ referencesText cited_world sample_results) (answer s))
   \<and> status (fst (handlePerplexityChatGPTToGemini cited_world
       [\<lparr>role = js ''user'', content = Text_content (js ''hi'')\<rparr>] None [])) = 200
   \<and> (\<exists>s. body (fst (handlePerplexityChatGPTToGemini cited_world
               [\<lparr>role = js ''user'', content = Text_content (js ''hi'')\<rparr>] None []))
             = Success s
          \<and> suffix (sources_heading @ referencesText cited_world sample_results) (answer s))
   \<and> status (fst (POST cited_world
       (Some (sample_request (js ''perplexity-to-gemini'') (js ''hi''))))) = 200
   \<and> (\<exists>s. body (fst (POST cited_world
               (Some (sample_request (js ''perplexity-to-gemini'') (js ''hi'')))))
             = Success s
          \<and> suffix (sources_heading @ referencesText cited_world sample_results) (answer s))"
proof -
  let ?ms = "[\<lparr>role = js ''user'', content = Text_content (js ''hi'')\<rparr>]"
  let ?r1 = "sample_request (js ''perplexity-chatgpt-gemini'') (js ''hi'')"
  let ?r2 = "sample_request (js ''perplexity-to-gemini'') (js ''hi'')"
  let ?refs = "sources_heading @ referencesText cited_world sample_results"
  note t = sources_section_presence[where w = sample_world and ms = ?ms and mdl = None
      and fs = "[]" and rs = sample_results and t = "js ''xin chao''" and ufs = "[]"
      and r = ?r1]
  note c = sources_section_presence[where w = cited_world and ms = ?ms and mdl = None
      and fs = "[]" and r = ?r2]
  note t5 = t[THEN conjunct2, THEN conjunct2, THEN conjunct2, THEN conjunct2, THEN conjunct2]
  note c5 = c[THEN conjunct2, THEN conjunct2, THEN conjunct2, THEN conjunct2, THEN conjunct2]
  have u: "uploadFilesToGeminiSDK sample_world [] [] = ([], [])"
    by (simp add: uploadFilesToGeminiSDK_def)
  have s: "status (fst (handleGoogle sample_world ?ms None [])) = 200"
    by (simp add: handleGoogle_def sample_keys u processMessagesForGoogleSDK_def
        process_messages_def convert_prompt_def sample_oracles Let_def)
  have a: "answer_of (fst (handleGoogle sample_world ?ms None []))
       = Some (js ''xin chao'' @ [LF, LF] @ sources_none)"
    by (simp add: handleGoogle_def sample_keys u processMessagesForGoogleSDK_def
        process_messages_def convert_prompt_def sample_oracles Let_def answer_of_def
        sample_answer sourcesSection_def)
  have "\<exists>s. body (fst (handleGoogle sample_world ?ms None [])) = Success s
          \<and> suffix (sourcesSection (fst (uploadFilesToGeminiSDK sample_world [] []))) (answer s)"
    using t[THEN conjunct2, THEN conjunct2, THEN conjunct1] s by (simp add: case_prod_beta)
  have r: "suffix (sources_heading @ referencesText sample_world sample_results)
       (with_references sample_world (js ''xin chao'') (referencesText sample_world sample_results))"
    using t[THEN conjunct2, THEN conjunct2, THEN conjunct2, THEN conjunct1]
      sample_results_facts(2) by blast
  have fs: "fst (searchWithPerplexityStyle sample_world [] (js ''hi'')) = Inr ([], [])"
    by (simp add: sample_search)
  have fc: "fst (searchWithPerplexityStyle cited_world [] (js ''hi''))
             = Inr (js ''SUMMARY'', sample_results)"
    by (simp add: cited_search)
  have p1: "answer_of (fst (handlePerplexityToGemini sample_world ?ms None []))
              = Some (js ''xin chao'')"
    using t5[THEN conjunct1] sample_runs(1)
    by (auto simp: case_prod_beta sample_user_question fs sample_runs(2) sample_answer
        answer_of_def)
  have p2: "answer_of (fst (handlePerplexityChatGPTToGemini sample_world ?ms None []))
              = Some (js ''xin chao'')"
    using t5[THEN conjunct2, THEN conjunct1] sample_runs(3)
    by (auto simp: case_prod_beta sample_user_question fs sample_runs(4) sample_answer
        answer_of_def)
  have h1: "(workflow ?r1 = Some (js ''perplexity-to-gemini'')
         \<or> workflow ?r1 = Some (js ''perplexity-chatgpt-gemini''))
        \<and> status (fst (POST sample_world (Some ?r1))) = 200"
    using sample_runs(5) by (simp add: sample_request_fields)
  have p3: "answer_of (fst (POST sample_world (Some ?r1))) = Some (js ''xin chao'')"
    using t5[THEN conjunct2, THEN conjunct2, THEN conjunct1, rule_format, OF h1]
    by (auto simp: sample_request_fields fs sample_runs(6) sample_answer answer_of_def)
  have p4: "answer_of (fst (handleGoogle_rt sample_world ?ms None [])) = Some (js ''xin chao'')"
    using t5[THEN conjunct2, THEN conjunct2, THEN conjunct2] sample_runs(7)
    by (auto simp: case_prod_beta sample_runs(8) answer_of_def)
  have q1: "\<exists>s. body (fst (handlePerplexityToGemini cited_world ?ms None [])) = Success s
              \<and> suffix ?refs (answer s)"
    using c5[THEN conjunct1] cited_runs(1) sample_results_facts(2)
    by (auto simp: case_prod_beta sample_user_question fc)
  have q2: "\<exists>s. body (fst (handlePerplexityChatGPTToGemini cited_world ?ms None [])) = Success s
              \<and> suffix ?refs (answer s)"
    using c5[THEN conjunct2, THEN conjunct1] cited_runs(3) sample_results_facts(2)
    by (auto simp: case_prod_beta sample_user_question fc)
  have h2: "(workflow ?r2 = Some (js ''perplexity-to-gemini'')
         \<or> workflow ?r2 = Some (js ''perplexity-chatgpt-gemini''))
        \<and> status (fst (POST cited_world (Some ?r2))) = 200"
    using cited_runs(5) by (simp add: sample_request_fields)
  have q3: "\<exists>s. body (fst (POST cited_world (Some ?r2))) = Success s \<and> suffix ?refs (answer s)"
    using c5[THEN conjunct2, THEN conjunct2, THEN conjunct1, rule_format, OF h2]
      sample_results_facts(2)
    by (auto simp: sample_request_fields fc)
  show ?thesis
    using s a r p1 p2 p3 p4 fc q1 q2 q3 sample_runs(1,3,5,7) cited_runs(1,3,5) by simp
qed

text \<open>
  Claim C9, as stated: a search reply with a summary and no results still has its summary
  composed into the next prompt. \<open>handleTavilyToGemini\<close> reads the answer of Tavily only
  inside \<open>if (searchResults && searchResults.results && searchResults.results.length > 0)\<close>:
  with a summary and an empty result list, the prompt sent to Gemini is the question alone.
\<close>

theorem tavily_summary_only_is_dropped:
  "fst (searchWithTavily summary_only_world [] (js ''hi''))
     = Some (Some (js ''SUMMARY''), Some [])
   \<and> snd (POST_rt summary_only_world (Some (sample_request (js ''tavily-to-gemini'') (js ''hi''))))
     = [Search_call (js ''hi''),
        Answer_call (Some (js ''gemini-2.5-flash''))
          [(js ''user'', [Text_part (Some (js ''hi''))])]]"
  by (simp add: POST_rt_def sample_request_def sample_model handleTavilyToGemini_def
      other_worlds_keys userQuestion_of_def sample_question searchWithTavily_def
      other_worlds_oracles Let_def tavily_prompt_def text_contents_def replace_last_def
      content_string_def gemini_role_def sample_roles)


text \<open>
  Claim C9, amended: in \<open>perplexity-to-gemini\<close> and \<open>perplexity-chatgpt-gemini\<close>, when the
  search succeeds with a summary that is not blank, the trimmed summary is part of the
  prompt of the next stage (the answer prompt, or the user message of the refinement
  call), whatever the result list is, the empty list included.
\<close>

theorem summary_only_search_is_used:
  "(truthy (GOOGLE_API_KEY w) \<and> ms \<noteq> [] \<and> trim (userQuestion_of (last ms)) \<noteq> []
      \<and> searchWithPerplexityStyle w [] (userQuestion_of (last ms)) = (Inr (ans, rs), log1)
      \<and> trim ans \<noteq> [] \<longrightarrow>
        (\<exists>p. snd (handlePerplexityToGemini w ms mdl fs) =
                log1 @ [Answer_call mdl (text_contents w (replace_last ms p))]
             \<and> sublist (trim ans) p))
   \<and> (truthy (GOOGLE_API_KEY w) \<and> truthy (OPENAI_API_KEY w) \<and> ms \<noteq> []
       \<and> trim (userQuestion_of (last ms)) \<noteq> []
       \<and> searchWithPerplexityStyle w [] (userQuestion_of (last ms)) = (Inr (ans, rs), log1)
       \<and> trim ans \<noteq> [] \<longrightarrow>
         (\<exists>p rest. snd (handlePerplexityChatGPTToGemini w ms mdl fs) =
                      log1 @ Rewrite_call [(js ''system'', refine_system), (js ''user'', p)] # rest
                  \<and> sublist (trim ans) p))"
proof (intro conjI impI)
  let ?q = "userQuestion_of (last ms)"
  assume a: "truthy (GOOGLE_API_KEY w) \<and> ms \<noteq> [] \<and> trim ?q \<noteq> []
      \<and> searchWithPerplexityStyle w [] ?q = (Inr (ans, rs), log1) \<and> trim ans \<noteq> []"
  let ?p = "perplexity_prompt w ms ?q (trim ans) rs"
  have l: "snd (handlePerplexityToGemini w ms mdl fs) =
             log1 @ [Answer_call mdl (text_contents w (replace_last ms ?p))]"
    using a by (auto simp: handlePerplexityToGemini_def getGenAI_def Let_def
        split: gemini_reply.splits)
  have "sublist (trim ans) ?p" using a perplexity_prompt_has_summary by blast
  with l show "\<exists>p. snd (handlePerplexityToGemini w ms mdl fs) =
                log1 @ [Answer_call mdl (text_contents w (replace_last ms p))]
             \<and> sublist (trim ans) p" by blast
next
  let ?q = "userQuestion_of (last ms)"
  assume a: "truthy (GOOGLE_API_KEY w) \<and> truthy (OPENAI_API_KEY w) \<and> ms \<noteq> []
       \<and> trim ?q \<noteq> []
       \<and> searchWithPerplexityStyle w [] ?q = (Inr (ans, rs), log1) \<and> trim ans \<noteq> []"
  let ?p = "refine_user_1 @ searchContext w (trim ans) rs @ refine_user_2 @ ?q @ refine_user_3"
  have l: "\<exists>rest. snd (handlePerplexityChatGPTToGemini w ms mdl fs) =
             log1 @ Rewrite_call [(js ''system'', refine_system), (js ''user'', ?p)] # rest"
    using a by (auto simp: handlePerplexityChatGPTToGemini_def getGenAI_def Let_def
        split: gemini_reply.splits openai_reply.splits)
  have "sublist (trim ans) (searchContext w (trim ans) rs)"
    using a searchContext_has_summary by blast
  then have "sublist (trim ans) ?p"
    by (meson sublist_append)
  with l show "\<exists>p rest. snd (handlePerplexityChatGPTToGemini w ms mdl fs) =
                      log1 @ Rewrite_call [(js ''system'', refine_system), (js ''user'', p)] # rest
                  \<and> sublist (trim ans) p" by blast
qed

theorem summary_only_search_witness:
  "searchWithPerplexityStyle summary_only_world []
       (userQuestion_of (last [\<lparr>role = js ''user'', content = Text_content (js ''hi'')\<rparr>]))
     = (Inr (js ''SUMMARY'', []), [Search_call (js ''hi'')])
   \<and> (\<exists>p. snd (handlePerplexityToGemini summary_only_world
                [\<lparr>role = js ''user'', content = Text_content (js ''hi'')\<rparr>] None [])
              = [Search_call (js ''hi''),
                 Answer_call None
                   (text_contents summary_only_world
                      (replace_last [\<lparr>role = js ''user'', content = Text_content (js ''hi'')\<rparr>] p))]
            \<and> sublist (js ''SUMMARY'') p)
   \<and> (\<exists>p rest. snd (handlePerplexityChatGPTToGemini summary_only_world
                [\<lparr>role = js ''user'', content = Text_content (js ''hi'')\<rparr>] None [])
              = Search_call (js ''hi'')
                # Rewrite_call [(js ''system'', refine_system), (js ''user'', p)] # rest
            \<and> sublist (js ''SUMMARY'') p)"
proof -
  let ?w = summary_only_world
  let ?ms = "[\<lparr>role = js ''user'', content = Text_content (js ''hi'')\<rparr>]"
  have s: "searchWithPerplexityStyle ?w [] (userQuestion_of (last ?ms))
             = (Inr (js ''SUMMARY'', []), [Search_call (js ''hi'')])"
    by (simp add: searchWithPerplexityStyle_def other_worlds_perplexity_config
        other_worlds_oracles sample_texts userQuestion_of_def)
  have h1: "truthy (GOOGLE_API_KEY ?w) \<and> ?ms \<noteq> [] \<and> trim (userQuestion_of (last ?ms)) \<noteq> []
      \<and> searchWithPerplexityStyle ?w [] (userQuestion_of (last ?ms))
          = (Inr (js ''SUMMARY'', []), [Search_call (js ''hi'')])
      \<and> trim (js ''SUMMARY'') \<noteq> []"
    using s by (simp add: other_worlds_keys userQuestion_of_def sample_question sample_texts)
  have h2: "truthy (GOOGLE_API_KEY ?w) \<and> truthy (OPENAI_API_KEY ?w) \<and> ?ms \<noteq> []
      \<and> trim (userQuestion_of (last ?ms)) \<noteq> []
      \<and> searchWithPerplexityStyle ?w [] (userQuestion_of (last ?ms))
          = (Inr (js ''SUMMARY'', []), [Search_call (js ''hi'')])
      \<and> trim (js ''SUMMARY'') \<noteq> []"
    using h1 by (simp add: other_worlds_keys)
  note t = summary_only_search_is_used[where w = ?w and ms = ?ms and mdl = None and fs = "[]"
      and ans = "js ''SUMMARY''" and rs = "[]" and ?log1.0 = "[Search_call (js ''hi'')]"]
  have c1: "\<exists>p. snd (handlePerplexityToGemini ?w ?ms None [])
              = [Search_call (js ''hi'')] @ [Answer_call None (text_contents ?w (replace_last ?ms p))]
            \<and> sublist (trim (js ''SUMMARY'')) p"
    by (rule t[THEN conjunct1, rule_format, OF h1])
  have c2: "\<exists>p rest. snd (handlePerplexityChatGPTToGemini ?w ?ms None [])
              = [Search_call (js ''hi'')]
                @ Rewrite_call [(js ''system'', refine_system), (js ''user'', p)] # rest
            \<and> sublist (trim (js ''SUMMARY'')) p"
    by (rule t[THEN conjunct2, rule_format, OF h2])
  show ?thesis using s c1 c2 by (simp add: sample_texts)
qed


text \<open>
  Claim C10: in the direct workflow (\<open>single\<close>, and every workflow that is not named),
  for every request that ends with status 200, the user texts of the rewrite calls are
  exactly the string contents of the submitted messages, in order, whatever their role or
  position, and the \<open>prompts\<close> trace has one entry for each of them, with that content as
  its input. The calls are the same whenever the request passes the model check, the
  Google key is set and no rewrite call raises, whether or not the answer stage succeeds.
\<close>

theorem single_rewrites_every_string_message:
  "(case POST w (Some r) of
      (resp, log) \<Rightarrow>
        workflow r \<notin> Some ` set named_workflows \<and> status resp = 200 \<longrightarrow>
          rewrite_inputs log = string_contents (messages r)
          \<and> (\<exists>s ps. body resp = Success s \<and> prompts s = Some ps
                \<and> map fst ps = string_contents (messages r)
                \<and> length ps = length (string_contents (messages r))))
   \<and> (workflow r \<notin> Some ` set named_workflows \<and> model_lookup (model r) \<noteq> Undefined
       \<and> truthy (GOOGLE_API_KEY w) \<and> (\<forall>t m c e. openai w t m c \<noteq> Openai_raises e) \<longrightarrow>
         rewrite_inputs (snd (POST w (Some r))) = string_contents (messages r))"
proof (intro conjI impI)
  assume a: "workflow r \<notin> Some ` set named_workflows \<and> model_lookup (model r) \<noteq> Undefined
       \<and> truthy (GOOGLE_API_KEY w) \<and> (\<forall>t m c e. openai w t m c \<noteq> Openai_raises e)"
  then have nd: "workflow r \<noteq> Some (js ''chatgpt-to-gemini'')"
    "workflow r \<noteq> Some (js ''perplexity-to-gemini'')"
    "workflow r \<noteq> Some (js ''perplexity-chatgpt-gemini'')"
    by (auto simp: named_workflows_def)
  have "POST w (Some r) =
          handleGoogle w (messages r) (actual_model (model_lookup (model r))) (files r)"
    using a by (simp add: POST_dispatch nd)
  then show "rewrite_inputs (snd (POST w (Some r))) = string_contents (messages r)"
    using a handleGoogle_calls[of w "messages r"] by simp
next
  show "case POST w (Some r) of
      (resp, log) \<Rightarrow>
        workflow r \<notin> Some ` set named_workflows \<and> status resp = 200 \<longrightarrow>
          rewrite_inputs log = string_contents (messages r)
          \<and> (\<exists>s ps. body resp = Success s \<and> prompts s = Some ps
                \<and> map fst ps = string_contents (messages r)
                \<and> length ps = length (string_contents (messages r)))"
  proof (cases "model_lookup (model r) = Undefined")
    case True
    then show ?thesis using POST_unsupported[OF True, of w] by (simp add: json_error_def)
  next
    case False
    let ?m = "actual_model (model_lookup (model r))"
    obtain resp log where h: "handleGoogle w (messages r) ?m (files r) = (resp, log)" by force
    show ?thesis
    proof (cases "workflow r \<in> Some ` set named_workflows")
      case True
      then show ?thesis by (simp add: case_prod_beta)
    next
      case no: False
      then have nd: "workflow r \<noteq> Some (js ''chatgpt-to-gemini'')"
        "workflow r \<noteq> Some (js ''perplexity-to-gemini'')"
        "workflow r \<noteq> Some (js ''perplexity-chatgpt-gemini'')"
        by (auto simp: named_workflows_def)
      have d: "POST w (Some r) = (resp, log)" using h by (simp add: POST_dispatch[OF False] nd)
      show ?thesis
        unfolding d using handleGoogle_ok[OF h] by (auto dest: map_fst_length)
    qed
  qed
qed

theorem single_rewrites_witness:
  "workflow sample_conversation \<notin> Some ` set named_workflows
   \<and> status (fst (POST sample_world (Some sample_conversation))) = 200
   \<and> rewrite_inputs (snd (POST sample_world (Some sample_conversation)))
       = [js ''a'', js ''b'', js ''hi'']
   \<and> (\<exists>s ps. body (fst (POST sample_world (Some sample_conversation))) = Success s
          \<and> prompts s = Some ps \<and> map fst ps = [js ''a'', js ''b'', js ''hi''])
   \<and> rewrite_inputs (snd (POST gemini_down_world (Some sample_conversation)))
       = [js ''a'', js ''b'', js ''hi'']"
proof -
  have n: "workflow sample_conversation \<notin> Some ` set named_workflows"
    by (simp add: sample_conversation_def)
  have s: "status (fst (POST sample_world (Some sample_conversation))) = 200"
    by (simp add: POST_def sample_conversation_def sample_model handleGoogle_def
        sample_keys uploadFilesToGeminiSDK_def processMessagesForGoogleSDK_def process_messages_def
        convert_prompt_def sample_oracles workflow_names Let_def)
  have c: "string_contents (messages sample_conversation) = [js ''a'', js ''b'', js ''hi'']"
    by (simp add: sample_conversation_def string_contents_def)
  have h: "workflow sample_conversation \<notin> Some ` set named_workflows
       \<and> model_lookup (model sample_conversation) \<noteq> Undefined
       \<and> truthy (GOOGLE_API_KEY gemini_down_world)
       \<and> (\<forall>t m c e. openai gemini_down_world t m c \<noteq> Openai_raises e)"
  proof -
    have k: "truthy (GOOGLE_API_KEY gemini_down_world)" by code_simp
    have o: "\<forall>t m c e. openai gemini_down_world t m c \<noteq> Openai_raises e"
      by (simp add: gemini_down_world_def sample_world_def)
    have m: "model_lookup (model sample_conversation) \<noteq> Undefined"
      by (simp add: sample_conversation_def sample_model)
    show ?thesis using n k o m by simp
  qed
  have d: "rewrite_inputs (snd (POST gemini_down_world (Some sample_conversation)))
             = string_contents (messages sample_conversation)"
    by (rule single_rewrites_every_string_message[where w = gemini_down_world
          and r = sample_conversation, THEN conjunct2, rule_format, OF h])
  have "rewrite_inputs (snd (POST sample_world (Some sample_conversation)))
          = [js ''a'', js ''b'', js ''hi'']
        \<and> (\<exists>s ps. body (fst (POST sample_world (Some sample_conversation))) = Success s
              \<and> prompts s = Some ps \<and> map fst ps = [js ''a'', js ''b'', js ''hi''])"
    using single_rewrites_every_string_message[where w = sample_world and r = sample_conversation,
        THEN conjunct1] n s
    by (auto simp: case_prod_beta c)
  then show ?thesis using n s d c by simp
qed

end
